theory Spec2Isabelle
  imports Complex_Main
begin

section \<open>Python strings and values\<close>

text \<open>
  A Python \<^verbatim>\<open>str\<close> is a sequence of Unicode code points, so \<^verbatim>\<open>len\<close> counts code
  points and not bytes.  It is modelled as a list of naturals; \<open>asc\<close> embeds an
  ASCII literal.  Button labels of \<^verbatim>\<open>main.py\<close> that carry emoji or Cyrillic letters
  are written with their code points.
\<close>

type_synonym pystr = "nat list"

definition asc :: "string \<Rightarrow> pystr" where
  "asc s = map of_char s"

text \<open>\<^verbatim>\<open>str.isspace\<close> on one code point (the Unicode white space of CPython).\<close>

definition is_space :: "nat \<Rightarrow> bool" where
  "is_space c = ((9 \<le> c \<and> c \<le> 13) \<or> (28 \<le> c \<and> c \<le> 32) \<or> c = 133 \<or> c = 160
     \<or> c = 5760 \<or> (8192 \<le> c \<and> c \<le> 8202) \<or> c = 8232 \<or> c = 8233 \<or> c = 8239
     \<or> c = 8287 \<or> c = 12288)"

text \<open>
  The decimal digits of Unicode 14.0.0 (category Nd), which are what \<^verbatim>\<open>\d\<close>
  matches in a pattern on \<^verbatim>\<open>str\<close> and what \<^verbatim>\<open>int\<close> reads: they come in 66 runs of
  ten consecutive code points, from the digit zero to the digit nine of a
  script.  \<open>DECIMAL_ZEROS\<close> lists the zeros.
\<close>

definition DECIMAL_ZEROS :: "nat list" where
  "DECIMAL_ZEROS =
     [48, 1632, 1776, 1984, 2406, 2534, 2662, 2790, 2918, 3046,
      3174, 3302, 3430, 3558, 3664, 3792, 3872, 4160, 4240, 6112,
      6160, 6470, 6608, 6784, 6800, 6992, 7088, 7232, 7248, 42528,
      43216, 43264, 43472, 43504, 43600, 44016, 65296, 66720, 68912, 69734,
      69872, 69942, 70096, 70384, 70736, 70864, 71248, 71360, 71472, 71904,
      72016, 72784, 73040, 73120, 92768, 92864, 93008, 120782, 120792, 120802,
      120812, 120822, 123200, 123632, 125264, 130032]"

definition decimal_value :: "nat \<Rightarrow> nat option" where
  "decimal_value c =
     (case find (\<lambda>z. z \<le> c \<and> c \<le> z + 9) DECIMAL_ZEROS of
        None \<Rightarrow> None
      | Some z \<Rightarrow> Some (c - z))"

text \<open>
  \<^verbatim>\<open>str.isdigit\<close> on one code point: the decimal digits and the other code points
  of numeric type Digit (superscripts, circled digits and the like), as ranges.
\<close>

definition ISDIGIT_RANGES :: "(nat \<times> nat) list" where
  "ISDIGIT_RANGES =
     [(48, 57), (178, 179), (185, 185), (1632, 1641), (1776, 1785),
      (1984, 1993), (2406, 2415), (2534, 2543), (2662, 2671), (2790, 2799),
      (2918, 2927), (3046, 3055), (3174, 3183), (3302, 3311), (3430, 3439),
      (3558, 3567), (3664, 3673), (3792, 3801), (3872, 3881), (4160, 4169),
      (4240, 4249), (4969, 4977), (6112, 6121), (6160, 6169), (6470, 6479),
      (6608, 6618), (6784, 6793), (6800, 6809), (6992, 7001), (7088, 7097),
      (7232, 7241), (7248, 7257), (8304, 8304), (8308, 8313), (8320, 8329),
      (9312, 9320), (9332, 9340), (9352, 9360), (9450, 9450), (9461, 9469),
      (9471, 9471), (10102, 10110), (10112, 10120), (10122, 10130), (42528, 42537),
      (43216, 43225), (43264, 43273), (43472, 43481), (43504, 43513), (43600, 43609),
      (44016, 44025), (65296, 65305), (66720, 66729), (68160, 68163), (68912, 68921),
      (69216, 69224), (69714, 69722), (69734, 69743), (69872, 69881), (69942, 69951),
      (70096, 70105), (70384, 70393), (70736, 70745), (70864, 70873), (71248, 71257),
      (71360, 71369), (71472, 71481), (71904, 71913), (72016, 72025), (72784, 72793),
      (73040, 73049), (73120, 73129), (92768, 92777), (92864, 92873), (93008, 93017),
      (120782, 120831), (123200, 123209), (123632, 123641), (125264, 125273), (127232, 127242),
      (130032, 130041)]"

definition is_digit_char :: "nat \<Rightarrow> bool" where
  "is_digit_char c = list_ex (\<lambda>(lo, hi). lo \<le> c \<and> c \<le> hi) ISDIGIT_RANGES"

definition lstrip :: "pystr \<Rightarrow> pystr" where
  "lstrip s = dropWhile is_space s"

definition rstrip :: "pystr \<Rightarrow> pystr" where
  "rstrip s = rev (dropWhile is_space (rev s))"

definition strip :: "pystr \<Rightarrow> pystr" where
  "strip s = rstrip (lstrip s)"

text \<open>\<^verbatim>\<open>text or ""\<close> for an optional string.\<close>

definition or_empty :: "pystr option \<Rightarrow> pystr" where
  "or_empty t = (case t of None \<Rightarrow> [] | Some s \<Rightarrow> s)"

text \<open>\<^verbatim>\<open>sub in s\<close>.\<close>

fun starts_with :: "'a list \<Rightarrow> 'a list \<Rightarrow> bool" where
  "starts_with [] s = True"
| "starts_with (p # ps) [] = False"
| "starts_with (p # ps) (c # cs) = (p = c \<and> starts_with ps cs)"

fun contains :: "'a list \<Rightarrow> 'a list \<Rightarrow> bool" where
  "contains sub [] = (sub = [])"
| "contains sub (c # cs) = (starts_with sub (c # cs) \<or> contains sub cs)"

text \<open>
  \<^verbatim>\<open>str.lower\<close>.  The program lowers a string only to look for ASCII letters
  and digits in it afterwards.  The code points whose lower case holds an
  ASCII letter are the capital ASCII letters, U+0130 (lowered to \<open>i\<close> and U+0307)
  and U+212A (lowered to \<open>k\<close>); they are mapped as Python maps them.  Every other
  code point is lowered by Python to code points outside ASCII, and is kept as
  it is here.
\<close>

definition lower :: "pystr \<Rightarrow> pystr" where
  "lower s =
     concat (map (\<lambda>c. if 65 \<le> c \<and> c \<le> 90 then [c + 32]
                        else if c = 304 then [105, 775]
                        else if c = 8490 then [107]
                        else [c]) s)"

text \<open>\<^verbatim>\<open>str(n)\<close> for an integer.\<close>

fun str_nat :: "nat \<Rightarrow> pystr" where
  "str_nat n = (if n < 10 then [48 + n] else str_nat (n div 10) @ [48 + n mod 10])"

declare str_nat.simps [simp del]

definition str_int :: "int \<Rightarrow> pystr" where
  "str_int i = (if i < 0 then 45 # str_nat (nat (- i)) else str_nat (nat i))"

text \<open>
  A Python \<^verbatim>\<open>float\<close>: a finite value (kept as a rational), an infinity or NaN.
  Comparison with zero follows IEEE 754: every comparison with NaN is false.
\<close>

datatype pyfloat = Finite rat | PosInf | NegInf | NaN

fun float_le_zero :: "pyfloat \<Rightarrow> bool" where
  "float_le_zero (Finite r) = (r \<le> 0)"
| "float_le_zero PosInf = False"
| "float_le_zero NegInf = True"
| "float_le_zero NaN = False"

text \<open>The values that the handlers keep in a session or in a stored document.\<close>

datatype pyval = PNone | PStr pystr | PFloat pyfloat

text \<open>Python truthiness, as used by \<^verbatim>\<open>bool(...)\<close> and \<^verbatim>\<open>and\<close>.\<close>

fun truthy :: "pyval \<Rightarrow> bool" where
  "truthy PNone = False"
| "truthy (PStr s) = (s \<noteq> [])"
| "truthy (PFloat (Finite r)) = (r \<noteq> 0)"
| "truthy (PFloat _) = True"

text \<open>
  A \<^verbatim>\<open>dict\<close> keeps its keys in insertion order; assigning to a present key
  replaces the value in place.
\<close>

type_synonym ('k, 'v) dict = "('k \<times> 'v) list"

fun dict_get :: "('k, 'v) dict \<Rightarrow> 'k \<Rightarrow> 'v option" where
  "dict_get [] k = None"
| "dict_get ((k', v) # d) k = (if k' = k then Some v else dict_get d k)"

fun dict_set :: "('k, 'v) dict \<Rightarrow> 'k \<Rightarrow> 'v \<Rightarrow> ('k, 'v) dict" where
  "dict_set [] k v = [(k, v)]"
| "dict_set ((k', v') # d) k v = (if k' = k then (k', v) # d else (k', v') # dict_set d k v)"

text \<open>\<^verbatim>\<open>{...}\<close> and \<^verbatim>\<open>dict.update\<close>: later entries win over earlier ones.\<close>

definition dict_update :: "('k, 'v) dict \<Rightarrow> ('k \<times> 'v) list \<Rightarrow> ('k, 'v) dict" where
  "dict_update d kvs = foldl (\<lambda>m (k, v). dict_set m k v) d kvs"

definition dict_of :: "('k \<times> 'v) list \<Rightarrow> ('k, 'v) dict" where
  "dict_of kvs = dict_update [] kvs"

text \<open>\<^verbatim>\<open>data.get(key)\<close> on a dictionary of values: a missing key reads as \<^verbatim>\<open>None\<close>.\<close>

definition val_get :: "(string, pyval) dict \<Rightarrow> string \<Rightarrow> pyval" where
  "val_get d k = (case dict_get d k of None \<Rightarrow> PNone | Some v \<Rightarrow> v)"

datatype py_error = OverflowError | KeyError string | ValueError | TelegramError pystr

section \<open>Dates\<close>

text \<open>
  \<^verbatim>\<open>now_utc\<close> yields a naive UTC \<^verbatim>\<open>datetime\<close>.  A datetime is the number of
  microseconds since \<^verbatim>\<open>datetime.min\<close>; \<^verbatim>\<open>datetime.max\<close> is the last microsecond of
  the year 9999.  A \<^verbatim>\<open>timedelta\<close> is a number of microseconds; its constructor
  refuses more than 999999999 days, and adding it to a datetime raises
  \<^verbatim>\<open>OverflowError\<close> outside the range of \<^verbatim>\<open>datetime\<close>.
\<close>

type_synonym datetime = int

definition DAY :: int where
  "DAY = 86400000000"

definition DATETIME_MAX :: datetime where
  "DATETIME_MAX = 3652059 * DAY - 1"

definition timedelta_days :: "int \<Rightarrow> py_error + int" where
  "timedelta_days days = (if \<bar>days\<bar> > 999999999 then Inl OverflowError else Inr (days * DAY))"

definition datetime_add :: "datetime \<Rightarrow> int \<Rightarrow> py_error + datetime" where
  "datetime_add t delta =
     (if t + delta < 0 \<or> DATETIME_MAX < t + delta then Inl OverflowError else Inr (t + delta))"

text \<open>
  \<^verbatim>\<open>normalize_datetime\<close>: a stored field that is not a datetime reads as
  \<^verbatim>\<open>None\<close>; the store returns naive datetimes, which are kept as they are.
\<close>

definition normalize_datetime :: "datetime option \<Rightarrow> datetime option" where
  "normalize_datetime v = v"

section \<open>Localization\<close>

text \<open>
  The labels of the program.  Every string literal of the tables below has a
  name here: \<open>RU_BTN_CANCEL\<close> is the Russian text that \<^verbatim>\<open>RU_BUTTON_TEXTS\<close> gives for
  \<^verbatim>\<open>BTN_CANCEL\<close>, \<open>BTN_SEND_PHONE\<close> is the label of the contact button, and the
  role labels, payment options and regions are named after their meaning.
\<close>

definition ROLE_DRIVER :: pystr where
  "ROLE_DRIVER = asc ''driver''"

definition ROLE_SHIPPER :: pystr where
  "ROLE_SHIPPER = asc ''shipper''"

definition LANG_UZ :: pystr where
  "LANG_UZ = [117, 122]"

definition LANG_RU :: pystr where
  "LANG_RU = [114, 117]"

definition LANG_SELECT_UZ :: pystr where
  "LANG_SELECT_UZ = [127482, 127487] @ asc '' O'zbekcha''"

definition LANG_SELECT_RU :: pystr where
  "LANG_SELECT_RU = [127479, 127482, 32, 1056, 1091, 1089, 1089, 1082, 1080, 1081]"

definition BTN_CANCEL :: pystr where
  "BTN_CANCEL = [10060] @ asc '' Bekor qilish''"

definition BTN_BACK_MAIN :: pystr where
  "BTN_BACK_MAIN = [11013, 65039] @ asc '' Asosiy menyu''"

definition BTN_BACK_ADMIN :: pystr where
  "BTN_BACK_ADMIN = [128281] @ asc '' Admin panel''"

definition BTN_SKIP :: pystr where
  "BTN_SKIP = [9197] @ asc '' O'tkazib yuborish''"

definition BTN_ADMIN_PANEL :: pystr where
  "BTN_ADMIN_PANEL = [128736] @ asc '' Admin panel''"

definition BTN_BROADCAST :: pystr where
  "BTN_BROADCAST = [128227] @ asc '' Habar yuborish''"

definition BTN_ADMIN_STATS :: pystr where
  "BTN_ADMIN_STATS = [128202] @ asc '' Tizim statistikasi''"

definition BTN_ADMIN_USERS :: pystr where
  "BTN_ADMIN_USERS = [128203] @ asc '' Foydalanuvchilar''"

definition BTN_ADMIN_PRO :: pystr where
  "BTN_ADMIN_PRO = [128142] @ asc '' Pro boshqaruvi''"

definition BTN_ADMIN_CHANNELS :: pystr where
  "BTN_ADMIN_CHANNELS = [127760] @ asc '' Kanal/Guruh sozlash''"

definition BTN_ADMIN_GUIDE :: pystr where
  "BTN_ADMIN_GUIDE = [128216] @ asc '' Admin yo'riqnoma''"

definition BTN_PRO_ADD :: pystr where
  "BTN_PRO_ADD = [10133] @ asc '' Pro qo'shish''"

definition BTN_PRO_REMOVE :: pystr where
  "BTN_PRO_REMOVE = [10134] @ asc '' Pro o'chirish''"

definition BTN_CH_SET_CATALOG :: pystr where
  "BTN_CH_SET_CATALOG = [128218] @ asc '' Katalog chat ID''"

definition BTN_CH_SET_REGION :: pystr where
  "BTN_CH_SET_REGION = [128506] @ asc '' Viloyat chat ID''"

definition BTN_CH_LIST :: pystr where
  "BTN_CH_LIST = [128203] @ asc '' Ulangan chatlar''"

definition BTN_REQ_ADD :: pystr where
  "BTN_REQ_ADD = [10133] @ asc '' Majburiy kanal qo'shish''"

definition BTN_REQ_REMOVE :: pystr where
  "BTN_REQ_REMOVE = [10134] @ asc '' Majburiy kanal o'chirish''"

definition BTN_REQ_LIST :: pystr where
  "BTN_REQ_LIST = [128204] @ asc '' Majburiy kanallar''"

definition BTN_BC_ALL :: pystr where
  "BTN_BC_ALL = [128101] @ asc '' Barchaga''"

definition BTN_BC_DRIVERS :: pystr where
  "BTN_BC_DRIVERS = [128667] @ asc '' Haydovchilarga''"

definition BTN_BC_SHIPPERS :: pystr where
  "BTN_BC_SHIPPERS = [128230] @ asc '' Yuk beruvchilarga''"

definition BTN_BC_PRO :: pystr where
  "BTN_BC_PRO = [128142] @ asc '' Pro foydalanuvchilarga''"

definition BTN_MENU_CARGO :: pystr where
  "BTN_MENU_CARGO = [128230] @ asc '' Yuk joylash''"

definition BTN_MENU_DRIVER :: pystr where
  "BTN_MENU_DRIVER = [128667] @ asc '' Haydovchi anketasi''"

definition BTN_MENU_PROFILE :: pystr where
  "BTN_MENU_PROFILE = [128100] @ asc '' Profilim''"

definition BTN_MENU_ANALYSIS :: pystr where
  "BTN_MENU_ANALYSIS = [129504] @ asc '' Profil tahlili''"

definition BTN_MENU_STATS :: pystr where
  "BTN_MENU_STATS = [128202] @ asc '' Statistika''"

definition BTN_MENU_PRO :: pystr where
  "BTN_MENU_PRO = [128142] @ asc '' Pro tarif''"

definition BTN_MENU_NEWS :: pystr where
  "BTN_MENU_NEWS = [128227] @ asc '' Yangiliklar''"

definition BTN_MENU_CONTACT :: pystr where
  "BTN_MENU_CONTACT = [9742, 65039] @ asc '' Bog'lanish''"

definition BTN_MENU_SETTINGS :: pystr where
  "BTN_MENU_SETTINGS = [9881, 65039] @ asc '' Sozlamalar''"

definition BTN_SETTINGS_ROLE :: pystr where
  "BTN_SETTINGS_ROLE = [128260] @ asc '' Rolni almashtirish''"

definition BTN_SETTINGS_LANG :: pystr where
  "BTN_SETTINGS_LANG = [127760] @ asc '' Tilni almashtirish''"

definition BTN_CARGO_CONFIRM :: pystr where
  "BTN_CARGO_CONFIRM = [9989] @ asc '' Guruhlarga yuborish''"

definition BTN_CARGO_EDIT :: pystr where
  "BTN_CARGO_EDIT = [9999, 65039] @ asc '' Tahrirlash''"

definition BTN_SEND_PHONE :: pystr where
  "BTN_SEND_PHONE = [128242] @ asc '' Raqam yuborish''"

definition ROLE_LABEL_DRIVER :: pystr where
  "ROLE_LABEL_DRIVER = [128667] @ asc '' Haydovchi''"

definition ROLE_LABEL_SHIPPER :: pystr where
  "ROLE_LABEL_SHIPPER = [128230] @ asc '' Yuk beruvchi''"

definition ROLE_LABEL_DRIVER_RU :: pystr where
  "ROLE_LABEL_DRIVER_RU = [128667, 32, 1042, 1086, 1076, 1080, 1090, 1077, 1083, 1100]"

definition ROLE_LABEL_SHIPPER_RU :: pystr where
  "ROLE_LABEL_SHIPPER_RU = [128230, 32, 1043, 1088, 1091, 1079, 1086, 1086, 1090, 1087, 1088, 1072, 1074, 1080, 1090, 1077, 1083, 1100]"

definition PAYMENT_CASH :: pystr where
  "PAYMENT_CASH = [128181] @ asc '' Naqd''"

definition PAYMENT_CARD :: pystr where
  "PAYMENT_CARD = [128179] @ asc '' Karta''"

definition PAYMENT_TRANSFER :: pystr where
  "PAYMENT_TRANSFER = [127974] @ asc '' O'tkazma''"

definition PAYMENT_CASH_RU :: pystr where
  "PAYMENT_CASH_RU = [128181, 32, 1053, 1072, 1083, 1080, 1095, 1085, 1099, 1077]"

definition PAYMENT_CARD_RU :: pystr where
  "PAYMENT_CARD_RU = [128179, 32, 1050, 1072, 1088, 1090, 1072]"

definition PAYMENT_TRANSFER_RU :: pystr where
  "PAYMENT_TRANSFER_RU = [127974, 32, 1055, 1077, 1088, 1077, 1074, 1086, 1076]"

definition REGION_ANDIJON :: pystr where
  "REGION_ANDIJON = asc ''Andijon''"

definition REGION_BUXORO :: pystr where
  "REGION_BUXORO = asc ''Buxoro''"

definition REGION_FARGONA :: pystr where
  "REGION_FARGONA = asc ''Farg'ona''"

definition REGION_JIZZAX :: pystr where
  "REGION_JIZZAX = asc ''Jizzax''"

definition REGION_NAMANGAN :: pystr where
  "REGION_NAMANGAN = asc ''Namangan''"

definition REGION_NAVOIY :: pystr where
  "REGION_NAVOIY = asc ''Navoiy''"

definition REGION_QASHQADARYO :: pystr where
  "REGION_QASHQADARYO = asc ''Qashqadaryo''"

definition REGION_SAMARQAND :: pystr where
  "REGION_SAMARQAND = asc ''Samarqand''"

definition REGION_SIRDARYO :: pystr where
  "REGION_SIRDARYO = asc ''Sirdaryo''"

definition REGION_SURXONDARYO :: pystr where
  "REGION_SURXONDARYO = asc ''Surxondaryo''"

definition REGION_TOSHKENT :: pystr where
  "REGION_TOSHKENT = asc ''Toshkent''"

definition REGION_XORAZM :: pystr where
  "REGION_XORAZM = asc ''Xorazm''"

definition RU_BTN_CANCEL :: pystr where
  "RU_BTN_CANCEL = [10060, 32, 1054, 1090, 1084, 1077, 1085, 1072]"

definition RU_BTN_BACK_MAIN :: pystr where
  "RU_BTN_BACK_MAIN = [11013, 65039, 32, 1043, 1083, 1072, 1074, 1085, 1086, 1077, 32, 1084, 1077, 1085, 1102]"

definition RU_BTN_BACK_ADMIN :: pystr where
  "RU_BTN_BACK_ADMIN = [128281, 32, 1040, 1076, 1084, 1080, 1085, 32, 1087, 1072, 1085, 1077, 1083, 1100]"

definition RU_BTN_SKIP :: pystr where
  "RU_BTN_SKIP = [9197, 32, 1055, 1088, 1086, 1087, 1091, 1089, 1090, 1080, 1090, 1100]"

definition RU_BTN_ADMIN_PANEL :: pystr where
  "RU_BTN_ADMIN_PANEL = [128736, 32, 1040, 1076, 1084, 1080, 1085, 32, 1087, 1072, 1085, 1077, 1083, 1100]"

definition RU_BTN_BROADCAST :: pystr where
  "RU_BTN_BROADCAST = [128227, 32, 1056, 1072, 1089, 1089, 1099, 1083, 1082, 1072]"

definition RU_BTN_ADMIN_STATS :: pystr where
  "RU_BTN_ADMIN_STATS = [128202, 32, 1057, 1080, 1089, 1090, 1077, 1084, 1085, 1072, 1103, 32, 1089, 1090, 1072, 1090, 1080, 1089, 1090, 1080, 1082, 1072]"

definition RU_BTN_ADMIN_USERS :: pystr where
  "RU_BTN_ADMIN_USERS = [128203, 32, 1055, 1086, 1083, 1100, 1079, 1086, 1074, 1072, 1090, 1077, 1083, 1080]"

definition RU_BTN_ADMIN_PRO :: pystr where
  "RU_BTN_ADMIN_PRO = [128142, 32, 1059, 1087, 1088, 1072, 1074, 1083, 1077, 1085, 1080, 1077] @ asc '' Pro''"

definition RU_BTN_ADMIN_CHANNELS :: pystr where
  "RU_BTN_ADMIN_CHANNELS = [127760, 32, 1053, 1072, 1089, 1090, 1088, 1086, 1081, 1082, 1072, 32, 1082, 1072, 1085, 1072, 1083, 1086, 1074, 47, 1075, 1088, 1091, 1087, 1087]"

definition RU_BTN_ADMIN_GUIDE :: pystr where
  "RU_BTN_ADMIN_GUIDE = [128216, 32, 1048, 1085, 1089, 1090, 1088, 1091, 1082, 1094, 1080, 1103, 32, 1072, 1076, 1084, 1080, 1085, 1072]"

definition RU_BTN_PRO_ADD :: pystr where
  "RU_BTN_PRO_ADD = [10133, 32, 1044, 1086, 1073, 1072, 1074, 1080, 1090, 1100] @ asc '' Pro''"

definition RU_BTN_PRO_REMOVE :: pystr where
  "RU_BTN_PRO_REMOVE = [10134, 32, 1059, 1076, 1072, 1083, 1080, 1090, 1100] @ asc '' Pro''"

definition RU_BTN_CH_SET_CATALOG :: pystr where
  "RU_BTN_CH_SET_CATALOG = [128218] @ asc '' ID '' @ [1082, 1072, 1090, 1072, 1083, 1086, 1075, 1072]"

definition RU_BTN_CH_SET_REGION :: pystr where
  "RU_BTN_CH_SET_REGION = [128506] @ asc '' ID '' @ [1087, 1086, 32, 1086, 1073, 1083, 1072, 1089, 1090, 1080]"

definition RU_BTN_CH_LIST :: pystr where
  "RU_BTN_CH_LIST = [128203, 32, 1055, 1086, 1076, 1082, 1083, 1102, 1095, 1077, 1085, 1085, 1099, 1077, 32, 1095, 1072, 1090, 1099]"

definition RU_BTN_REQ_ADD :: pystr where
  "RU_BTN_REQ_ADD = [10133, 32, 1044, 1086, 1073, 1072, 1074, 1080, 1090, 1100, 32, 1086, 1073, 1103, 1079, 1072, 1090, 1077, 1083, 1100, 1085, 1099, 1081, 32, 1082, 1072, 1085, 1072, 1083]"

definition RU_BTN_REQ_REMOVE :: pystr where
  "RU_BTN_REQ_REMOVE = [10134, 32, 1059, 1076, 1072, 1083, 1080, 1090, 1100, 32, 1086, 1073, 1103, 1079, 1072, 1090, 1077, 1083, 1100, 1085, 1099, 1081, 32, 1082, 1072, 1085, 1072, 1083]"

definition RU_BTN_REQ_LIST :: pystr where
  "RU_BTN_REQ_LIST = [128204, 32, 1054, 1073, 1103, 1079, 1072, 1090, 1077, 1083, 1100, 1085, 1099, 1077, 32, 1082, 1072, 1085, 1072, 1083, 1099]"

definition RU_BTN_BC_ALL :: pystr where
  "RU_BTN_BC_ALL = [128101, 32, 1042, 1089, 1077, 1084]"

definition RU_BTN_BC_DRIVERS :: pystr where
  "RU_BTN_BC_DRIVERS = [128667, 32, 1042, 1086, 1076, 1080, 1090, 1077, 1083, 1103, 1084]"

definition RU_BTN_BC_SHIPPERS :: pystr where
  "RU_BTN_BC_SHIPPERS = [128230, 32, 1043, 1088, 1091, 1079, 1086, 1086, 1090, 1087, 1088, 1072, 1074, 1080, 1090, 1077, 1083, 1103, 1084]"

definition RU_BTN_BC_PRO :: pystr where
  "RU_BTN_BC_PRO = [128142] @ asc '' Pro '' @ [1087, 1086, 1083, 1100, 1079, 1086, 1074, 1072, 1090, 1077, 1083, 1103, 1084]"

definition RU_BTN_MENU_CARGO :: pystr where
  "RU_BTN_MENU_CARGO = [128230, 32, 1056, 1072, 1079, 1084, 1077, 1089, 1090, 1080, 1090, 1100, 32, 1075, 1088, 1091, 1079]"

definition RU_BTN_MENU_DRIVER :: pystr where
  "RU_BTN_MENU_DRIVER = [128667, 32, 1040, 1085, 1082, 1077, 1090, 1072, 32, 1074, 1086, 1076, 1080, 1090, 1077, 1083, 1103]"

definition RU_BTN_MENU_PROFILE :: pystr where
  "RU_BTN_MENU_PROFILE = [128100, 32, 1052, 1086, 1081, 32, 1087, 1088, 1086, 1092, 1080, 1083, 1100]"

definition RU_BTN_MENU_ANALYSIS :: pystr where
  "RU_BTN_MENU_ANALYSIS = [129504, 32, 1040, 1085, 1072, 1083, 1080, 1079, 32, 1087, 1088, 1086, 1092, 1080, 1083, 1103]"

definition RU_BTN_MENU_STATS :: pystr where
  "RU_BTN_MENU_STATS = [128202, 32, 1057, 1090, 1072, 1090, 1080, 1089, 1090, 1080, 1082, 1072]"

definition RU_BTN_MENU_PRO :: pystr where
  "RU_BTN_MENU_PRO = [128142] @ asc '' Pro '' @ [1090, 1072, 1088, 1080, 1092]"

definition RU_BTN_MENU_NEWS :: pystr where
  "RU_BTN_MENU_NEWS = [128227, 32, 1053, 1086, 1074, 1086, 1089, 1090, 1080]"

definition RU_BTN_MENU_CONTACT :: pystr where
  "RU_BTN_MENU_CONTACT = [9742, 65039, 32, 1057, 1074, 1103, 1079, 1100]"

definition RU_BTN_MENU_SETTINGS :: pystr where
  "RU_BTN_MENU_SETTINGS = [9881, 65039, 32, 1053, 1072, 1089, 1090, 1088, 1086, 1081, 1082, 1080]"

definition RU_BTN_SETTINGS_ROLE :: pystr where
  "RU_BTN_SETTINGS_ROLE = [128260, 32, 1057, 1084, 1077, 1085, 1080, 1090, 1100, 32, 1088, 1086, 1083, 1100]"

definition RU_BTN_SETTINGS_LANG :: pystr where
  "RU_BTN_SETTINGS_LANG = [127760, 32, 1057, 1084, 1077, 1085, 1080, 1090, 1100, 32, 1103, 1079, 1099, 1082]"

definition RU_BTN_CARGO_CONFIRM :: pystr where
  "RU_BTN_CARGO_CONFIRM = [9989, 32, 1054, 1090, 1087, 1088, 1072, 1074, 1080, 1090, 1100, 32, 1074, 32, 1075, 1088, 1091, 1087, 1087, 1099]"

definition RU_BTN_CARGO_EDIT :: pystr where
  "RU_BTN_CARGO_EDIT = [9999, 65039, 32, 1048, 1079, 1084, 1077, 1085, 1080, 1090, 1100]"

definition RU_BTN_SEND_PHONE :: pystr where
  "RU_BTN_SEND_PHONE = [128242, 32, 1054, 1090, 1087, 1088, 1072, 1074, 1080, 1090, 1100, 32, 1085, 1086, 1084, 1077, 1088]"

definition REGIONS :: "pystr list" where
  "REGIONS = [REGION_ANDIJON, REGION_BUXORO, REGION_FARGONA, REGION_JIZZAX,
     REGION_NAMANGAN, REGION_NAVOIY, REGION_QASHQADARYO, REGION_SAMARQAND,
     REGION_SIRDARYO, REGION_SURXONDARYO, REGION_TOSHKENT, REGION_XORAZM]"

definition ROLE_LABELS :: "(pystr, pystr) dict" where
  "ROLE_LABELS = dict_of [(ROLE_DRIVER, ROLE_LABEL_DRIVER), (ROLE_SHIPPER, ROLE_LABEL_SHIPPER)]"

definition ROLE_LABELS_RU :: "(pystr, pystr) dict" where
  "ROLE_LABELS_RU =
     dict_of [(ROLE_DRIVER, ROLE_LABEL_DRIVER_RU), (ROLE_SHIPPER, ROLE_LABEL_SHIPPER_RU)]"

definition PAYMENT_OPTIONS :: "pystr list" where
  "PAYMENT_OPTIONS = [PAYMENT_CASH, PAYMENT_CARD, PAYMENT_TRANSFER]"

definition PAYMENT_OPTIONS_RU :: "pystr list" where
  "PAYMENT_OPTIONS_RU = [PAYMENT_CASH_RU, PAYMENT_CARD_RU, PAYMENT_TRANSFER_RU]"

definition MENU_INTERRUPT_BUTTONS :: "pystr list" where
  "MENU_INTERRUPT_BUTTONS =
    [BTN_CANCEL, BTN_BACK_MAIN, BTN_BACK_ADMIN, BTN_MENU_CARGO,
     BTN_MENU_DRIVER, BTN_MENU_PROFILE, BTN_MENU_ANALYSIS, BTN_MENU_STATS,
     BTN_MENU_PRO, BTN_MENU_NEWS, BTN_MENU_CONTACT, BTN_MENU_SETTINGS,
     BTN_SETTINGS_ROLE, BTN_SETTINGS_LANG, BTN_ADMIN_PANEL, BTN_ADMIN_STATS,
     BTN_ADMIN_USERS, BTN_BROADCAST, BTN_ADMIN_PRO, BTN_PRO_ADD,
     BTN_PRO_REMOVE, BTN_ADMIN_CHANNELS, BTN_CH_SET_CATALOG, BTN_CH_SET_REGION,
     BTN_CH_LIST, BTN_REQ_ADD, BTN_REQ_REMOVE, BTN_REQ_LIST,
     BTN_ADMIN_GUIDE]"

definition RU_BUTTON_TEXTS :: "(pystr, pystr) dict" where
  "RU_BUTTON_TEXTS = dict_of
    [(BTN_CANCEL, RU_BTN_CANCEL),
     (BTN_BACK_MAIN, RU_BTN_BACK_MAIN),
     (BTN_BACK_ADMIN, RU_BTN_BACK_ADMIN),
     (BTN_SKIP, RU_BTN_SKIP),
     (BTN_ADMIN_PANEL, RU_BTN_ADMIN_PANEL),
     (BTN_BROADCAST, RU_BTN_BROADCAST),
     (BTN_ADMIN_STATS, RU_BTN_ADMIN_STATS),
     (BTN_ADMIN_USERS, RU_BTN_ADMIN_USERS),
     (BTN_ADMIN_PRO, RU_BTN_ADMIN_PRO),
     (BTN_ADMIN_CHANNELS, RU_BTN_ADMIN_CHANNELS),
     (BTN_ADMIN_GUIDE, RU_BTN_ADMIN_GUIDE),
     (BTN_PRO_ADD, RU_BTN_PRO_ADD),
     (BTN_PRO_REMOVE, RU_BTN_PRO_REMOVE),
     (BTN_CH_SET_CATALOG, RU_BTN_CH_SET_CATALOG),
     (BTN_CH_SET_REGION, RU_BTN_CH_SET_REGION),
     (BTN_CH_LIST, RU_BTN_CH_LIST),
     (BTN_REQ_ADD, RU_BTN_REQ_ADD),
     (BTN_REQ_REMOVE, RU_BTN_REQ_REMOVE),
     (BTN_REQ_LIST, RU_BTN_REQ_LIST),
     (BTN_BC_ALL, RU_BTN_BC_ALL),
     (BTN_BC_DRIVERS, RU_BTN_BC_DRIVERS),
     (BTN_BC_SHIPPERS, RU_BTN_BC_SHIPPERS),
     (BTN_BC_PRO, RU_BTN_BC_PRO),
     (BTN_MENU_CARGO, RU_BTN_MENU_CARGO),
     (BTN_MENU_DRIVER, RU_BTN_MENU_DRIVER),
     (BTN_MENU_PROFILE, RU_BTN_MENU_PROFILE),
     (BTN_MENU_ANALYSIS, RU_BTN_MENU_ANALYSIS),
     (BTN_MENU_STATS, RU_BTN_MENU_STATS),
     (BTN_MENU_PRO, RU_BTN_MENU_PRO),
     (BTN_MENU_NEWS, RU_BTN_MENU_NEWS),
     (BTN_MENU_CONTACT, RU_BTN_MENU_CONTACT),
     (BTN_MENU_SETTINGS, RU_BTN_MENU_SETTINGS),
     (BTN_SETTINGS_ROLE, RU_BTN_SETTINGS_ROLE),
     (BTN_SETTINGS_LANG, RU_BTN_SETTINGS_LANG),
     (BTN_CARGO_CONFIRM, RU_BTN_CARGO_CONFIRM),
     (BTN_CARGO_EDIT, RU_BTN_CARGO_EDIT),
     (BTN_SEND_PHONE, RU_BTN_SEND_PHONE),
     (the (dict_get ROLE_LABELS ROLE_DRIVER), the (dict_get ROLE_LABELS_RU ROLE_DRIVER)),
     (the (dict_get ROLE_LABELS ROLE_SHIPPER), the (dict_get ROLE_LABELS_RU ROLE_SHIPPER)),
     (PAYMENT_OPTIONS ! 0, PAYMENT_OPTIONS_RU ! 0),
     (PAYMENT_OPTIONS ! 1, PAYMENT_OPTIONS_RU ! 1),
     (PAYMENT_OPTIONS ! 2, PAYMENT_OPTIONS_RU ! 2)]"

definition LANG_LABEL_TO_CODE :: "(pystr, pystr) dict" where
  "LANG_LABEL_TO_CODE = dict_of [(LANG_SELECT_UZ, LANG_UZ), (LANG_SELECT_RU, LANG_RU)]"

definition VALID_LANGS :: "pystr list" where
  "VALID_LANGS = [LANG_UZ, LANG_RU]"

definition LABEL_TO_ROLE :: "(pystr, pystr) dict" where
  "LABEL_TO_ROLE = dict_of
     [(the (dict_get ROLE_LABELS ROLE_DRIVER), ROLE_DRIVER),
      (the (dict_get ROLE_LABELS ROLE_SHIPPER), ROLE_SHIPPER),
      (the (dict_get ROLE_LABELS_RU ROLE_DRIVER), ROLE_DRIVER),
      (the (dict_get ROLE_LABELS_RU ROLE_SHIPPER), ROLE_SHIPPER)]"

text \<open>
  \<^verbatim>\<open>TEXT_CANON_MAP\<close>: the button table inverted, then updated with the labels
  that stand for themselves.
\<close>

definition TEXT_CANON_MAP :: "(pystr, pystr) dict" where
  "TEXT_CANON_MAP = dict_update (dict_of (map (\<lambda>(k, v). (v, k)) RU_BUTTON_TEXTS))
     [(LANG_SELECT_UZ, LANG_SELECT_UZ),
      (LANG_SELECT_RU, LANG_SELECT_RU),
      (the (dict_get ROLE_LABELS ROLE_DRIVER), the (dict_get ROLE_LABELS ROLE_DRIVER)),
      (the (dict_get ROLE_LABELS ROLE_SHIPPER), the (dict_get ROLE_LABELS ROLE_SHIPPER)),
      (the (dict_get ROLE_LABELS_RU ROLE_DRIVER), the (dict_get ROLE_LABELS ROLE_DRIVER)),
      (the (dict_get ROLE_LABELS_RU ROLE_SHIPPER), the (dict_get ROLE_LABELS ROLE_SHIPPER)),
      (PAYMENT_OPTIONS ! 0, PAYMENT_OPTIONS ! 0),
      (PAYMENT_OPTIONS ! 1, PAYMENT_OPTIONS ! 1),
      (PAYMENT_OPTIONS ! 2, PAYMENT_OPTIONS ! 2),
      (PAYMENT_OPTIONS_RU ! 0, PAYMENT_OPTIONS ! 0),
      (PAYMENT_OPTIONS_RU ! 1, PAYMENT_OPTIONS ! 1),
      (PAYMENT_OPTIONS_RU ! 2, PAYMENT_OPTIONS ! 2)]"

definition canonicalize_user_text :: "pystr option \<Rightarrow> pystr" where
  "canonicalize_user_text t =
     (let raw = strip (or_empty t)
      in case dict_get TEXT_CANON_MAP raw of None \<Rightarrow> raw | Some canon \<Rightarrow> canon)"

definition is_valid_lang :: "pystr option \<Rightarrow> bool" where
  "is_valid_lang v = (case v of None \<Rightarrow> False | Some l \<Rightarrow> l \<in> set VALID_LANGS)"

definition localize_button_text :: "pystr \<Rightarrow> pystr \<Rightarrow> pystr" where
  "localize_button_text t lng =
     (if lng \<noteq> LANG_RU then t
      else case dict_get RU_BUTTON_TEXTS t of None \<Rightarrow> t | Some ru \<Rightarrow> ru)"

subsection \<open>Keyboards\<close>

text \<open>
  A reply keyboard is its rows of button labels.  \<^verbatim>\<open>ReplyKeyboardBuilder.adjust\<close>
  cuts the buttons into rows of the given sizes, the last size repeating.
\<close>

type_synonym keyboard = "pystr list list"

fun adjust :: "nat list \<Rightarrow> 'a list \<Rightarrow> 'a list list" where
  "adjust sizes [] = []"
| "adjust [] (b # bs) = [b # bs]"
| "adjust [n] (b # bs) =
     (if n = 0 then [b # bs] else take n (b # bs) # adjust [n] (drop n (b # bs)))"
| "adjust (n # m # sizes) (b # bs) =
     (if n = 0 then [b # bs] else take n (b # bs) # adjust (m # sizes) (drop n (b # bs)))"

definition language_keyboard :: keyboard where
  "language_keyboard = [[LANG_SELECT_UZ, LANG_SELECT_RU], [BTN_CANCEL]]"

definition main_menu_keyboard :: "bool \<Rightarrow> keyboard" where
  "main_menu_keyboard is_admin =
     adjust [2]
       ([BTN_MENU_CARGO, BTN_MENU_DRIVER, BTN_MENU_PROFILE, BTN_MENU_ANALYSIS, BTN_MENU_STATS,
         BTN_MENU_PRO, BTN_MENU_NEWS, BTN_MENU_CONTACT, BTN_MENU_SETTINGS]
        @ (if is_admin then [BTN_ADMIN_PANEL] else []))"

definition phone_keyboard :: keyboard where
  "phone_keyboard = [[BTN_SEND_PHONE], [BTN_CANCEL]]"

definition role_keyboard :: keyboard where
  "role_keyboard =
     [[the (dict_get ROLE_LABELS ROLE_DRIVER), the (dict_get ROLE_LABELS ROLE_SHIPPER)],
      [BTN_CANCEL]]"

definition cancel_keyboard :: keyboard where
  "cancel_keyboard = [[BTN_CANCEL]]"

definition skip_cancel_keyboard :: keyboard where
  "skip_cancel_keyboard = [[BTN_SKIP], [BTN_CANCEL]]"

definition payment_keyboard :: keyboard where
  "payment_keyboard =
     [[PAYMENT_OPTIONS ! 0, PAYMENT_OPTIONS ! 1], [PAYMENT_OPTIONS ! 2], [BTN_CANCEL]]"

definition region_keyboard :: keyboard where
  "region_keyboard = adjust [3, 3, 3, 3, 1] (REGIONS @ [BTN_CANCEL])"

definition cargo_confirm_keyboard :: keyboard where
  "cargo_confirm_keyboard = [[BTN_CARGO_CONFIRM, BTN_CARGO_EDIT], [BTN_CANCEL]]"

definition settings_keyboard :: keyboard where
  "settings_keyboard = [[BTN_SETTINGS_ROLE], [BTN_SETTINGS_LANG], [BTN_BACK_MAIN]]"

definition admin_panel_keyboard :: keyboard where
  "admin_panel_keyboard =
     [[BTN_BROADCAST], [BTN_ADMIN_STATS, BTN_ADMIN_USERS], [BTN_ADMIN_PRO, BTN_ADMIN_CHANNELS],
      [BTN_ADMIN_GUIDE], [BTN_BACK_MAIN]]"

definition admin_pro_keyboard :: keyboard where
  "admin_pro_keyboard = [[BTN_PRO_ADD, BTN_PRO_REMOVE], [BTN_BACK_ADMIN]]"

definition admin_channels_keyboard :: keyboard where
  "admin_channels_keyboard =
     [[BTN_CH_SET_CATALOG, BTN_CH_SET_REGION], [BTN_REQ_ADD, BTN_REQ_REMOVE], [BTN_REQ_LIST],
      [BTN_CH_LIST], [BTN_BACK_ADMIN]]"

definition broadcast_audience_keyboard :: keyboard where
  "broadcast_audience_keyboard =
     [[BTN_BC_ALL], [BTN_BC_DRIVERS, BTN_BC_SHIPPERS], [BTN_BC_PRO], [BTN_CANCEL]]"

text \<open>
  \<^verbatim>\<open>translate_reply_markup\<close> on a reply keyboard: every label goes through
  \<open>localize_button_text\<close>, the rows stay as they are.
\<close>

definition translate_reply_markup :: "keyboard \<Rightarrow> pystr \<Rightarrow> keyboard" where
  "translate_reply_markup kb lng =
     (if lng \<noteq> LANG_RU then kb else map (map (\<lambda>t. localize_button_text t lng)) kb)"

text \<open>The fixed button set: every label of every reply keyboard of the program.\<close>

definition all_keyboards :: "keyboard list" where
  "all_keyboards =
     [language_keyboard, main_menu_keyboard False, main_menu_keyboard True, phone_keyboard,
      role_keyboard, cancel_keyboard, skip_cancel_keyboard, payment_keyboard, region_keyboard,
      cargo_confirm_keyboard, settings_keyboard, admin_panel_keyboard, admin_pro_keyboard,
      admin_channels_keyboard, broadcast_audience_keyboard]"

definition BUTTON_SET :: "pystr list" where
  "BUTTON_SET = concat (concat all_keyboards) @ map fst RU_BUTTON_TEXTS"

section \<open>Persistent entities\<close>

record user_doc =
  username :: "pystr option"
  tg_first_name :: "pystr option"
  tg_last_name :: "pystr option"
  first_name :: pyval
  last_name :: pyval
  phone :: pyval
  role :: "pystr option"
  profile_completed :: bool
  driver_profile :: "(string, pyval) dict"
  pro_until :: "datetime option"
  lang :: "pystr option"
  created_at :: datetime
  updated_at :: datetime

record cargo_doc =
  owner_id :: int
  from_region :: pyval
  to_region :: pyval
  cargo_type :: pyval
  weight_ton :: pyval
  volume_m3 :: pyval
  price :: pyval
  load_date :: pyval
  payment_type :: pyval
  comment :: pyval
  cargo_created_at :: datetime
  cargo_status :: string
  posted_chats :: "int list option"
  post_failures :: "pystr list option"
  cargo_updated_at :: "datetime option"

record channel_doc =
  ch_chat_id :: int
  ch_title :: pystr
  ch_username :: "pystr option"

text \<open>
  The collections of the store: \<^verbatim>\<open>users\<close> and \<^verbatim>\<open>region_channels\<close> keyed by
  \<^verbatim>\<open>_id\<close>, \<^verbatim>\<open>cargo_posts\<close> in insertion order (the position is the identifier), the
  two \<^verbatim>\<open>settings\<close> documents and the \<^verbatim>\<open>admins\<close> collection.  A region document
  holds \<^verbatim>\<open>chat_id\<close>, which is \<^verbatim>\<open>None\<close> until an administrator sets it.
\<close>

record db =
  users :: "(int, user_doc) dict"
  cargo_posts :: "cargo_doc list"
  catalog_chat :: "int option"
  mandatory_channels :: "channel_doc list"
  region_channels :: "(pystr, int option) dict"
  admins :: "int list"

definition fetch_user :: "db \<Rightarrow> int \<Rightarrow> user_doc option" where
  "fetch_user d user_id = dict_get (users d) user_id"

text \<open>
  \<^verbatim>\<open>users_col.update_one({"_id": user_id}, {"$set": ...})\<close> without upsert: the
  document is changed when it exists, and nothing happens otherwise.
\<close>

definition update_user :: "db \<Rightarrow> int \<Rightarrow> (user_doc \<Rightarrow> user_doc) \<Rightarrow> db" where
  "update_user d user_id f =
     (case dict_get (users d) user_id of
        None \<Rightarrow> d
      | Some usr \<Rightarrow> d\<lparr>users := dict_set (users d) user_id (f usr)\<rparr>)"

definition get_catalog_chat_id :: "db \<Rightarrow> int option" where
  "get_catalog_chat_id d = catalog_chat d"

definition get_region_chat_id :: "db \<Rightarrow> pystr \<Rightarrow> int option" where
  "get_region_chat_id d region =
     (case dict_get (region_channels d) region of None \<Rightarrow> None | Some chat \<Rightarrow> chat)"

section \<open>Transport\<close>

text \<open>
  The bot API is an oracle.  A call that the source guards with
  \<^verbatim>\<open>try/except\<close> may fail, and \<open>Inl\<close> carries \<^verbatim>\<open>str(exc)\<close>.
\<close>

record chat_info =
  chat_id :: int
  chat_type :: string
  chat_title :: "pystr option"
  chat_username :: "pystr option"

record chat_member =
  member_status :: string
  can_post_messages :: "bool option"
  can_send_messages :: "bool option"

datatype chat_ref = ById int | ByName pystr

record bot =
  get_me :: "pystr + int"
  me_username :: "pystr option"
  get_chat :: "chat_ref \<Rightarrow> pystr + chat_info"
  get_chat_member :: "int \<Rightarrow> int \<Rightarrow> pystr + chat_member"
  send_message :: "int \<Rightarrow> pystr + unit"
  copy_to :: "int \<Rightarrow> pystr + unit"

definition normalize_send_error :: "pystr \<Rightarrow> pystr" where
  "normalize_send_error err =
     (let lowered = lower err in
      if contains (asc ''forbidden'') lowered \<or> contains (asc ''not enough rights'') lowered
      then asc ''Botda yozish huquqi yo'q (admin emas yoki post/send ruxsati yo'q).''
      else if contains (asc ''chat not found'') lowered
      then asc ''Chat topilmadi (ID/link noto'g'ri yoki bot chatga qo'shilmagan).''
      else if contains (asc ''blocked'') lowered
      then asc ''Bot bloklangan yoki chatdan chiqarilgan.''
      else err)"

definition check_chat_writable :: "bot \<Rightarrow> int \<Rightarrow> bool \<times> pystr" where
  "check_chat_writable b cid =
     (case get_me b of
        Inl exc \<Rightarrow> (False, normalize_send_error exc)
      | Inr me \<Rightarrow>
     (case get_chat b (ById cid) of
        Inl exc \<Rightarrow> (False, normalize_send_error exc)
      | Inr chat \<Rightarrow>
     (case get_chat_member b cid me of
        Inl exc \<Rightarrow> (False, normalize_send_error exc)
      | Inr member \<Rightarrow>
          if member_status member \<in> {''left'', ''kicked''}
          then (False, asc ''Bot chatda yo'q. Botni chatga qo'shing.'')
          else if chat_type chat = ''channel''
          then (if member_status member \<notin> {''administrator'', ''creator''}
                then (False, asc ''Bu kanal uchun bot admin bo'lishi shart.'')
                else if can_post_messages member = Some False
                then (False, asc ''Bot admin, lekin `Post messages` huquqi o'chirilgan.'')
                else (True, asc ''Kanalga yuborish huquqi bor.''))
          else if can_send_messages member = Some False
          then (False, asc ''Bot bu guruhda yozishga cheklangan.'')
          else (True, asc ''Chatga yuborish huquqi bor.''))))"

text \<open>
  The decision table of the specification, read from top to bottom, the first
  matching row deciding.  It is written from the specification's table and is
  compared with \<open>check_chat_writable\<close> below.
\<close>

datatype writable_verdict =
  Bot_not_in_chat | Must_be_admin | Posting_disabled | Sending_restricted | Writable

definition spec_decision_table :: "bool \<Rightarrow> string \<Rightarrow> bool option \<Rightarrow> bool option \<Rightarrow> writable_verdict" where
  "spec_decision_table broadcast_channel membership can_post can_send =
     (if membership = ''left'' \<or> membership = ''kicked'' then Bot_not_in_chat
      else if broadcast_channel \<and> \<not> (membership = ''administrator'' \<or> membership = ''creator'')
      then Must_be_admin
      else if broadcast_channel \<and> can_post = Some False then Posting_disabled
      else if broadcast_channel then Writable
      else if can_send = Some False then Sending_restricted
      else Writable)"

fun verdict_of :: "bool \<times> pystr \<Rightarrow> writable_verdict option" where
  "verdict_of (ok, status_text) =
     (if \<not> ok \<and> status_text = asc ''Bot chatda yo'q. Botni chatga qo'shing.'' then Some Bot_not_in_chat
      else if \<not> ok \<and> status_text = asc ''Bu kanal uchun bot admin bo'lishi shart.'' then Some Must_be_admin
      else if \<not> ok \<and> status_text = asc ''Bot admin, lekin `Post messages` huquqi o'chirilgan.''
      then Some Posting_disabled
      else if \<not> ok \<and> status_text = asc ''Bot bu guruhda yozishga cheklangan.'' then Some Sending_restricted
      else if ok then Some Writable
      else None)"

section \<open>Chat references\<close>

subsection \<open>Regular expressions\<close>

text \<open>
  The fragment of Python's \<^verbatim>\<open>re\<close> that the four patterns of the source use.
  \<open>rx_run\<close> lists, in the order in which the backtracking matcher of \<^verbatim>\<open>re\<close>
  tries them, the ways in which a pattern matches a prefix of the input: each
  is the groups captured so far and the input that remains.  Optional parts and
  repetitions are greedy.  \<^verbatim>\<open>fullmatch\<close> is the first way that leaves nothing, so the
  anchors \<^verbatim>\<open>^\<close> and \<^verbatim>\<open>$\<close> of the patterns add nothing.  The class \<^verbatim>\<open>\d\<close> is
  the decimal digits of Unicode.
\<close>

datatype char_class = Digit | Word_char | Invite_char | Any_char

fun in_class :: "char_class \<Rightarrow> nat \<Rightarrow> bool" where
  "in_class Digit c = (decimal_value c \<noteq> None)"
| "in_class Word_char c = ((65 \<le> c \<and> c \<le> 90) \<or> (97 \<le> c \<and> c \<le> 122) \<or> (48 \<le> c \<and> c \<le> 57) \<or> c = 95)"
| "in_class Invite_char c =
     ((65 \<le> c \<and> c \<le> 90) \<or> (97 \<le> c \<and> c \<le> 122) \<or> (48 \<le> c \<and> c \<le> 57) \<or> c = 95 \<or> c = 45)"
| "in_class Any_char c = (c \<noteq> 10)"

datatype rx =
  Lit pystr
| Cls char_class
| Seq rx rx
| Alt rx rx
| Opt rx
| Many char_class
| Group rx

fun rx_run :: "rx \<Rightarrow> pystr \<Rightarrow> (pystr list \<times> pystr) list" where
  "rx_run (Lit l) s = (if starts_with l s then [([], drop (length l) s)] else [])"
| "rx_run (Cls cl) s = (case s of [] \<Rightarrow> [] | c # cs \<Rightarrow> if in_class cl c then [([], cs)] else [])"
| "rx_run (Seq a b) s =
     concat (map (\<lambda>(gs, r). map (\<lambda>(gs', r'). (gs @ gs', r')) (rx_run b r)) (rx_run a s))"
| "rx_run (Alt a b) s = rx_run a s @ rx_run b s"
| "rx_run (Opt a) s = rx_run a s @ [([], s)]"
| "rx_run (Many cl) s =
     (case s of
        [] \<Rightarrow> [([], [])]
      | c # cs \<Rightarrow> if in_class cl c then rx_run (Many cl) cs @ [([], s)] else [([], s)])"
| "rx_run (Group a) s =
     map (\<lambda>(gs, r). (gs @ [take (length s - length r) s], r)) (rx_run a s)"

definition fullmatch :: "rx \<Rightarrow> pystr \<Rightarrow> pystr list option" where
  "fullmatch r s = map_option fst (find (\<lambda>(gs, rest). rest = []) (rx_run r s))"

text \<open>\<^verbatim>\<open>x{n,}\<close> and \<^verbatim>\<open>x+\<close> for a character class.\<close>

fun at_least :: "nat \<Rightarrow> char_class \<Rightarrow> rx" where
  "at_least 0 cl = Many cl"
| "at_least (Suc n) cl = Seq (Cls cl) (at_least n cl)"

definition rx_seq :: "rx list \<Rightarrow> rx" where
  "rx_seq rs = foldr Seq rs (Lit [])"

text \<open>\<^verbatim>\<open>(?:https?://)?(?:t\.me|telegram\.me)\<close>, the common head of the link patterns.\<close>

definition link_head :: rx where
  "link_head =
     Seq (Opt (rx_seq [Lit (asc ''http''), Opt (Lit (asc ''s'')), Lit (asc ''://'')]))
         (Alt (Lit (asc ''t.me'')) (Lit (asc ''telegram.me'')))"

text \<open>\<^verbatim>\<open>(?:/\d+)?/?(?:\?.*)?\<close>, the common tail of the public and internal patterns.\<close>

definition link_tail :: rx where
  "link_tail =
     rx_seq [Opt (Seq (Lit (asc ''/'')) (at_least 1 Digit)), Opt (Lit (asc ''/'')),
             Opt (Seq (Lit (asc ''?'')) (Many Any_char))]"

definition CHAT_USERNAME_RE :: rx where
  "CHAT_USERNAME_RE = Seq (Lit (asc ''@'')) (at_least 5 Word_char)"

definition CHAT_PUBLIC_LINK_RE :: rx where
  "CHAT_PUBLIC_LINK_RE =
     rx_seq [link_head, Lit (asc ''/''), Opt (Lit (asc ''s/'')), Group (at_least 5 Word_char),
             link_tail]"

definition CHAT_INTERNAL_LINK_RE :: rx where
  "CHAT_INTERNAL_LINK_RE =
     rx_seq [link_head, Lit (asc ''/c/''), Group (at_least 1 Digit), link_tail]"

definition CHAT_INVITE_LINK_RE :: rx where
  "CHAT_INVITE_LINK_RE =
     rx_seq [link_head, Lit (asc ''/''), Alt (Lit (asc ''joinchat/'')) (Lit (asc ''+'')),
             at_least 1 Invite_char, Opt (Lit (asc ''/''))]"

subsection \<open>Integers\<close>

text \<open>
  \<^verbatim>\<open>int(s)\<close> for a string: white space around, an optional sign, then decimal
  digits of any script, where single underscores may stand between digits;
  anything else raises \<^verbatim>\<open>ValueError\<close>.  So does a string of more than
  \<^verbatim>\<open>sys.int_max_str_digits\<close> digits, 4300 unless configured otherwise (CPython 3.11
  and the security releases of the earlier versions).
\<close>

definition INT_MAX_STR_DIGITS :: nat where
  "INT_MAX_STR_DIGITS = 4300"

fun digit_groups_ok :: "pystr \<Rightarrow> bool" where
  "digit_groups_ok [] = False"
| "digit_groups_ok [c] = in_class Digit c"
| "digit_groups_ok (c # d # cs) =
     (in_class Digit c \<and> (if d = 95 then digit_groups_ok cs else digit_groups_ok (d # cs)))"

definition digits_value :: "pystr \<Rightarrow> int" where
  "digits_value ds =
     foldl (\<lambda>acc c. 10 * acc + int (case decimal_value c of None \<Rightarrow> 0 | Some v \<Rightarrow> v)) 0 ds"

definition py_int :: "pystr \<Rightarrow> py_error + int" where
  "py_int v =
     (let s = strip v;
          negative = (case s of [] \<Rightarrow> False | c # cs \<Rightarrow> c = 45);
          body = (case s of [] \<Rightarrow> [] | c # cs \<Rightarrow> if c = 45 \<or> c = 43 then cs else s);
          digits = filter (\<lambda>c. c \<noteq> 95) body
      in if digit_groups_ok body \<and> length digits \<le> INT_MAX_STR_DIGITS
         then (let n = digits_value digits in Inr (if negative then - n else n))
         else Inl ValueError)"

definition parse_chat_id :: "pystr \<Rightarrow> int option" where
  "parse_chat_id v =
     (case py_int (strip v) of
        Inl e \<Rightarrow> None
      | Inr cid \<Rightarrow> if cid = 0 then None else Some cid)"

subsection \<open>The resolver\<close>

definition ERR_CHAT_EMPTY :: pystr where
  "ERR_CHAT_EMPTY = asc ''Chat ma'lumoti kiritilmadi.''"

definition ERR_INVITE_LINK :: pystr where
  "ERR_INVITE_LINK =
     [10071] @ asc '' `+` yoki `joinchat` invite-link orqali chat ID avtomatik olinmaydi.'' @ [10]
     @ asc ''Botni o'sha chatga qo'shing va:'' @ [10, 8226]
     @ asc '' chatdan forward xabar yuboring yoki'' @ [10, 8226]
     @ asc '' `@username` / `-100...` yuboring.''"

definition ERR_CHAT_FORMAT :: pystr where
  "ERR_CHAT_FORMAT =
     asc ''Chat formati noto'g'ri.'' @ [10]
     @ asc ''Qabul qilinadi: `-100...`, `@username`, `https://t.me/username`, `https://t.me/username/123`, `https://t.me/c/...`''"

definition ERR_CHAT_NOT_FOUND :: pystr where
  "ERR_CHAT_NOT_FOUND = asc ''Chat topilmadi.''"

definition err_chat_unreachable :: "pystr \<Rightarrow> pystr" where
  "err_chat_unreachable uname =
     [96] @ uname @ asc ''` chatiga ulanib bo'lmadi.'' @ [10]
     @ asc ''Bot shu chatga qo'shilganini va username to'g'ri ekanini tekshiring.''"

text \<open>
  \<^verbatim>\<open>parse_chat_reference\<close> returns the numeric handle, the public handle and the
  error, at most one of them set.  \<^verbatim>\<open>int(f"-100{internal_id}")\<close> is the one place
  that can raise.
\<close>

definition parse_chat_reference :: "pystr \<Rightarrow> py_error + (int option \<times> pystr option \<times> pystr option)" where
  "parse_chat_reference v =
     (let raw = strip v in
      if raw = [] then Inr (None, None, Some ERR_CHAT_EMPTY)
      else case parse_chat_id raw of
        Some numeric_id \<Rightarrow> Inr (Some numeric_id, None, None)
      | None \<Rightarrow>
          if fullmatch CHAT_USERNAME_RE raw \<noteq> None then Inr (None, Some raw, None)
          else case fullmatch CHAT_INTERNAL_LINK_RE raw of
            Some groups \<Rightarrow>
              (case py_int (asc ''-100'' @ hd groups) of
                 Inl e \<Rightarrow> Inl e
               | Inr n \<Rightarrow> Inr (Some n, None, None))
          | None \<Rightarrow>
              (case fullmatch CHAT_PUBLIC_LINK_RE raw of
                 Some groups \<Rightarrow> Inr (None, Some ([64] @ hd groups), None)
               | None \<Rightarrow>
                   if fullmatch CHAT_INVITE_LINK_RE raw \<noteq> None
                   then Inr (None, None, Some ERR_INVITE_LINK)
                   else Inr (None, None, Some ERR_CHAT_FORMAT)))"

text \<open>
  \<^verbatim>\<open>resolve_chat_id_from_text\<close>.  Beside the pair of the source, the model returns
  the list of the calls of \<^verbatim>\<open>bot.get_chat\<close> that were made.
\<close>

definition resolve_chat_id_from_text ::
  "bot \<Rightarrow> pystr \<Rightarrow> py_error + ((int option \<times> pystr option) \<times> chat_ref list)" where
  "resolve_chat_id_from_text b v =
     (case parse_chat_reference v of
        Inl e \<Rightarrow> Inl e
      | Inr (numeric_id, uname, parse_error) \<Rightarrow>
          if or_empty parse_error \<noteq> [] then Inr ((None, parse_error), [])
          else if numeric_id \<noteq> None then Inr ((numeric_id, None), [])
          else if or_empty uname = [] then Inr ((None, Some ERR_CHAT_NOT_FOUND), [])
          else (case get_chat b (ByName (or_empty uname)) of
                  Inr chat \<Rightarrow> Inr ((Some (chat_id chat), None), [ByName (or_empty uname)])
                | Inl exc \<Rightarrow>
                    Inr ((None, Some (err_chat_unreachable (or_empty uname))),
                         [ByName (or_empty uname)])))"

section \<open>Pro subscription\<close>


definition apply_pro :: "db \<Rightarrow> datetime \<Rightarrow> int \<Rightarrow> int \<Rightarrow> py_error + (datetime option \<times> db)" where
  "apply_pro d now user_id days =
     (case fetch_user d user_id of
        None \<Rightarrow> Inr (None, d)
      | Some usr \<Rightarrow>
          (let current = normalize_datetime (pro_until usr);
               base = (case current of
                         None \<Rightarrow> now
                       | Some c \<Rightarrow> if c > now then c else now)
           in case timedelta_days days of
                Inl e \<Rightarrow> Inl e
              | Inr delta \<Rightarrow>
                  (case datetime_add base delta of
                     Inl e \<Rightarrow> Inl e
                   | Inr new_until \<Rightarrow>
                       Inr (Some new_until,
                            update_user d user_id
                              (\<lambda>doc. doc\<lparr>pro_until := Some new_until, updated_at := now\<rparr>)))))"

definition remove_pro :: "db \<Rightarrow> datetime \<Rightarrow> int \<Rightarrow> bool \<times> db" where
  "remove_pro d now user_id =
     (dict_get (users d) user_id \<noteq> None,
      update_user d user_id (\<lambda>doc. doc\<lparr>pro_until := None, updated_at := now\<rparr>))"


section \<open>Publication\<close>

text \<open>
  \<^verbatim>\<open>find_one({"_id": region})\<close> compares the key with the stored identifiers, which
  are the region names; a value that is not a string matches no document.
\<close>

definition region_chat_of :: "db \<Rightarrow> pyval \<Rightarrow> int option" where
  "region_chat_of d region = (case region of PStr r \<Rightarrow> get_region_chat_id d r | _ \<Rightarrow> None)"

text \<open>
  Route posting rule of the source: post only to the origin region chat.
\<close>

definition resolve_target_chats :: "db \<Rightarrow> pyval \<Rightarrow> pyval \<Rightarrow> int list" where
  "resolve_target_chats d from_reg to_reg =
     (case region_chat_of d from_reg of None \<Rightarrow> [] | Some from_chat \<Rightarrow> [from_chat])"

text \<open>
  The loop of \<^verbatim>\<open>publish_cargo\<close>.  The third component records every call of
  \<^verbatim>\<open>bot.send_message\<close>, in order, whether it succeeded or not.
\<close>

fun send_to_chats :: "bot \<Rightarrow> int list \<Rightarrow> int list \<times> pystr list \<times> int list \<Rightarrow> int list \<times> pystr list \<times> int list" where
  "send_to_chats b [] acc = acc"
| "send_to_chats b (c # cs) (sent, failed, attempts) =
     (case send_message b c of
        Inr _ \<Rightarrow> send_to_chats b cs (sent @ [c], failed, attempts @ [c])
      | Inl exc \<Rightarrow>
          send_to_chats b cs
            (sent, failed @ [str_int c @ asc '': '' @ normalize_send_error exc], attempts @ [c]))"

text \<open>
  A text that the source sends is either a literal or built from data; a built
  text is recorded by the name of the function that builds it.
\<close>

datatype reply = Text pystr | Built string

text \<open>
  \<^verbatim>\<open>format_money\<close>: the format \<^verbatim>\<open>{value:,.0f}\<close> applies to numbers and raises
  \<^verbatim>\<open>ValueError\<close> for a string.
\<close>

definition format_money :: "pyval \<Rightarrow> py_error + reply" where
  "format_money v =
     (case v of
        PNone \<Rightarrow> Inr (Text (asc ''Noma'lum''))
      | PFloat x \<Rightarrow> Inr (Built ''format_money'')
      | PStr t \<Rightarrow> Inl ValueError)"

text \<open>
  \<^verbatim>\<open>build_cargo_post_text\<close>.  The cargo document has all its keys, and every
  interpolation but the price goes through \<^verbatim>\<open>str\<close>, so the price is the one place
  where it can raise.
\<close>

definition build_cargo_post_text :: "cargo_doc \<Rightarrow> user_doc \<Rightarrow> py_error + reply" where
  "build_cargo_post_text cargo owner =
     (case format_money (price cargo) of
        Inl e \<Rightarrow> Inl e
      | Inr money \<Rightarrow> Inr (Built ''build_cargo_post_text''))"

text \<open>
  \<^verbatim>\<open>get_bot_username\<close>, with the global \<^verbatim>\<open>BOT_USERNAME_CACHE\<close> passed in and
  returned.  A cached name that is not empty is reused; otherwise \<^verbatim>\<open>bot.get_me()\<close>
  is awaited, and a failure of that call is not caught.
\<close>

definition get_bot_username :: "pystr option \<Rightarrow> bot \<Rightarrow> py_error + pystr \<times> pystr option" where
  "get_bot_username cache b =
     (if or_empty cache \<noteq> [] then Inr (or_empty cache, cache)
      else case get_me b of
             Inl exc \<Rightarrow> Inl (TelegramError exc)
           | Inr me \<Rightarrow> Inr (or_empty (me_username b), Some (or_empty (me_username b))))"

text \<open>
  \<^verbatim>\<open>publish_cargo\<close>.  The result is what the call returns or raises, the cache of
  the bot's name afterwards, and the calls of \<^verbatim>\<open>bot.send_message\<close> that were made.
  The post text and the bot's name are obtained first and outside any
  \<^verbatim>\<open>try\<close>; the inline keyboard is built from strings and cannot raise.
\<close>

definition publish_cargo ::
  "pystr option \<Rightarrow> bot \<Rightarrow> db \<Rightarrow> cargo_doc \<Rightarrow> user_doc \<Rightarrow>
   (py_error + int list \<times> pystr list) \<times> pystr option \<times> int list" where
  "publish_cargo cache b d cargo owner =
     (case build_cargo_post_text cargo owner of
        Inl e \<Rightarrow> (Inl e, cache, [])
      | Inr post_text \<Rightarrow>
     (case get_bot_username cache b of
        Inl e \<Rightarrow> (Inl e, cache, [])
      | Inr (bot_username, cache') \<Rightarrow>
          (let target_chats = resolve_target_chats d (from_region cargo) (to_region cargo)
           in case send_to_chats b target_chats ([], [], []) of
                (sent, failed, attempts) \<Rightarrow> (Inr (sent, failed), cache', attempts))))"

section \<open>Sessions and handlers\<close>

text \<open>
  The conversation core.  A handler of the source is a function from the
  world (store, session of the sender, what was sent so far) to the world.
  The texts are the canonical ones: the patched \<^verbatim>\<open>Message.answer\<close> translates
  them afterwards, which no handler observes.  A text that the source builds
  from data is recorded by the name of what builds it.
\<close>

datatype fsm_state =
  RegistrationFSM_first_name | RegistrationFSM_last_name | RegistrationFSM_phone
| RegistrationFSM_role
| LanguageFSM_select
| DriverFSM_car_type | DriverFSM_capacity_ton | DriverFSM_volume_m3 | DriverFSM_routes
| DriverFSM_price_per_km | DriverFSM_note
| CargoFSM_from_region | CargoFSM_to_region | CargoFSM_cargo_type | CargoFSM_weight_ton
| CargoFSM_volume_m3 | CargoFSM_price | CargoFSM_load_date | CargoFSM_payment_type
| CargoFSM_comment | CargoFSM_confirm
| SettingsFSM_role
| AdminBroadcastFSM_audience | AdminBroadcastFSM_content
| AdminProFSM_add | AdminProFSM_remove
| AdminChannelFSM_catalog_chat | AdminChannelFSM_region_select | AdminChannelFSM_region_chat
| AdminChannelFSM_required_add | AdminChannelFSM_required_remove

text \<open>The FSM context of one user: the current state and the data of the flow.\<close>

record session =
  sess_state :: "fsm_state option"
  sess_data :: "(string, pyval) dict"

record tg_user =
  tg_id :: int
  tg_username :: "pystr option"
  tg_first :: "pystr option"
  tg_last :: "pystr option"

record message =
  msg_text :: "pystr option"
  msg_from :: "tg_user option"
  msg_contact_phone :: "pystr option"
  msg_forward_from_chat :: "int option"
  msg_forward_origin_chat :: "int option"
  msg_forward_origin_sender_chat :: "int option"
  msg_sender_chat :: "int option"

datatype markup = No_markup | Reply_keyboard keyboard | Remove_keyboard | Inline_keyboard string

datatype effect = Answer reply markup | Send_message int | Copy_to int

record world =
  w_db :: db
  w_sess :: session
  w_out :: "effect list"
  w_raised :: "py_error option"
  w_bot_username_cache :: "pystr option"

text \<open>
  What a handler reads beside the world: the configured administrators, the
  clock, the bot API, the configured news channel, the user name of the bot
  and Python's \<^verbatim>\<open>float\<close> constructor on strings
  (\<open>None\<close> for \<^verbatim>\<open>ValueError\<close>).
\<close>

record env =
  env_admin_ids :: "int list"
  env_now :: datetime
  env_bot :: bot
  env_float :: "pystr \<Rightarrow> pyfloat option"
  env_news_channel :: pystr
  env_bot_username :: pystr

subsection \<open>The FSM context\<close>

definition state_clear :: "world \<Rightarrow> world" where
  "state_clear w = w\<lparr>w_sess := \<lparr>sess_state = None, sess_data = []\<rparr>\<rparr>"

definition set_state :: "fsm_state \<Rightarrow> world \<Rightarrow> world" where
  "set_state st w = w\<lparr>w_sess := (w_sess w)\<lparr>sess_state := Some st\<rparr>\<rparr>"

definition update_data :: "string \<Rightarrow> pyval \<Rightarrow> world \<Rightarrow> world" where
  "update_data k v w = w\<lparr>w_sess := (w_sess w)\<lparr>sess_data := dict_set (sess_data (w_sess w)) k v\<rparr>\<rparr>"

definition get_data :: "world \<Rightarrow> (string, pyval) dict" where
  "get_data w = sess_data (w_sess w)"

definition answer :: "pystr \<Rightarrow> markup \<Rightarrow> world \<Rightarrow> world" where
  "answer t m w = w\<lparr>w_out := w_out w @ [Answer (Text t) m]\<rparr>"

definition answer_built :: "string \<Rightarrow> markup \<Rightarrow> world \<Rightarrow> world" where
  "answer_built what m w = w\<lparr>w_out := w_out w @ [Answer (Built what) m]\<rparr>"

definition set_db :: "db \<Rightarrow> world \<Rightarrow> world" where
  "set_db d w = w\<lparr>w_db := d\<rparr>"

subsection \<open>Parsing user input\<close>

text \<open>\<^verbatim>\<open>parse_phone\<close>: white space is removed, then \<^verbatim>\<open>\+?\d{9,15}\<close> must match.\<close>

fun at_most :: "nat \<Rightarrow> char_class \<Rightarrow> rx" where
  "at_most 0 cl = Lit []"
| "at_most (Suc n) cl = Opt (Seq (Cls cl) (at_most n cl))"

fun exactly :: "nat \<Rightarrow> char_class \<Rightarrow> rx" where
  "exactly 0 cl = Lit []"
| "exactly (Suc n) cl = Seq (Cls cl) (exactly n cl)"

definition PHONE_RE :: rx where
  "PHONE_RE = rx_seq [Opt (Lit (asc ''+'')), exactly 9 Digit, at_most 6 Digit]"

definition parse_phone :: "pystr \<Rightarrow> pystr option" where
  "parse_phone v =
     (let cleaned = filter (\<lambda>c. \<not> is_space c) (strip v)
      in if fullmatch PHONE_RE cleaned \<noteq> None then Some cleaned else None)"

definition parse_positive_number :: "env \<Rightarrow> pystr \<Rightarrow> pyfloat option" where
  "parse_positive_number e v =
     (let cleaned = strip (map (\<lambda>c. if c = 44 then 46 else c) (filter (\<lambda>c. c \<noteq> 32) v))
      in case env_float e cleaned of
           None \<Rightarrow> None
         | Some parsed \<Rightarrow> if float_le_zero parsed then None else Some parsed)"

text \<open>\<^verbatim>\<open>re.sub(r"[^a-z0-9]", "", value.lower())\<close>.\<close>

definition region_key :: "pystr \<Rightarrow> pystr" where
  "region_key v = filter (\<lambda>c. (97 \<le> c \<and> c \<le> 122) \<or> (48 \<le> c \<and> c \<le> 57)) (lower v)"

definition normalize_region :: "pystr \<Rightarrow> pystr option" where
  "normalize_region raw = find (\<lambda>region. region_key (strip raw) = region_key region) REGIONS"

subsection \<open>Users, administrators, subscriptions\<close>

definition is_admin_user :: "env \<Rightarrow> db \<Rightarrow> int \<Rightarrow> bool" where
  "is_admin_user e d user_id = (user_id \<in> set (env_admin_ids e) \<or> user_id \<in> set (admins d))"

text \<open>
  \<^verbatim>\<open>ensure_user\<close>: an upsert that refreshes the Telegram names of a stored user and
  inserts a blank document for a new one.
\<close>

definition ensure_user :: "env \<Rightarrow> db \<Rightarrow> tg_user \<Rightarrow> user_doc \<times> db" where
  "ensure_user e d u =
     (let doc = (case dict_get (users d) (tg_id u) of
                   Some old \<Rightarrow> old\<lparr>username := tg_username u, tg_first_name := tg_first u,
                                   tg_last_name := tg_last u, updated_at := env_now e\<rparr>
                 | None \<Rightarrow> \<lparr>username = tg_username u, tg_first_name = tg_first u,
                             tg_last_name = tg_last u, first_name = PNone, last_name = PNone,
                             phone = PNone, role = None, profile_completed = False,
                             driver_profile = [], pro_until = None, lang = None,
                             created_at = env_now e, updated_at = env_now e\<rparr>)
      in (doc, d\<lparr>users := dict_set (users d) (tg_id u) doc\<rparr>))"

definition get_user_lang :: "db \<Rightarrow> int \<Rightarrow> pystr" where
  "get_user_lang d user_id =
     (case dict_get (users d) user_id of
        None \<Rightarrow> LANG_UZ
      | Some usr \<Rightarrow> if is_valid_lang (lang usr) then or_empty (lang usr) else LANG_UZ)"

text \<open>
  \<^verbatim>\<open>set_user_lang\<close>: an upsert of the language; a new document holds nothing
  else, which reads as the defaults of a missing field.
\<close>

definition set_user_lang :: "env \<Rightarrow> db \<Rightarrow> int \<Rightarrow> pystr \<Rightarrow> db" where
  "set_user_lang e d user_id lng =
     (if \<not> is_valid_lang (Some lng) then d
      else (let doc = (case dict_get (users d) user_id of
                         Some old \<Rightarrow> old\<lparr>lang := Some lng, updated_at := env_now e\<rparr>
                       | None \<Rightarrow> \<lparr>username = None, tg_first_name = None, tg_last_name = None,
                                   first_name = PNone, last_name = PNone, phone = PNone,
                                   role = None, profile_completed = False, driver_profile = [],
                                   pro_until = None, lang = Some lng, created_at = env_now e,
                                   updated_at = env_now e\<rparr>)
            in d\<lparr>users := dict_set (users d) user_id doc\<rparr>))"

definition get_missing_mandatory_channels :: "bot \<Rightarrow> db \<Rightarrow> int \<Rightarrow> channel_doc list" where
  "get_missing_mandatory_channels b d user_id =
     filter (\<lambda>channel.
        case get_chat_member b (ch_chat_id channel) user_id of
          Inl exc \<Rightarrow> True
        | Inr member \<Rightarrow>
            member_status member \<notin> {''member'', ''administrator'', ''creator'', ''restricted''})
       (mandatory_channels d)"

definition ensure_mandatory_subscription_message :: "env \<Rightarrow> message \<Rightarrow> world \<Rightarrow> bool \<times> world" where
  "ensure_mandatory_subscription_message e m w =
     (case msg_from m of
        None \<Rightarrow> (False, w)
      | Some u \<Rightarrow>
          if is_admin_user e (w_db w) (tg_id u) then (True, w)
          else if get_missing_mandatory_channels (env_bot e) (w_db w) (tg_id u) = [] then (True, w)
          else (False, answer_built ''mandatory_subscribe_text''
                         (Inline_keyboard ''mandatory_subscribe_keyboard'') w))"

definition open_main_menu :: "env \<Rightarrow> message \<Rightarrow> pystr \<Rightarrow> world \<Rightarrow> world" where
  "open_main_menu e m t w =
     (case msg_from m of
        None \<Rightarrow> w
      | Some u \<Rightarrow> answer t (Reply_keyboard (main_menu_keyboard (is_admin_user e (w_db w) (tg_id u)))) w)"

definition open_main_menu_built :: "env \<Rightarrow> message \<Rightarrow> string \<Rightarrow> world \<Rightarrow> world" where
  "open_main_menu_built e m what w =
     (case msg_from m of
        None \<Rightarrow> w
      | Some u \<Rightarrow>
          answer_built what (Reply_keyboard (main_menu_keyboard (is_admin_user e (w_db w) (tg_id u)))) w)"

definition start_driver_form :: "pystr \<Rightarrow> world \<Rightarrow> world" where
  "start_driver_form mode w =
     (let w = state_clear w;
          w = set_state DriverFSM_car_type w;
          w = update_data ''driver_mode'' (PStr mode) w
      in answer ([128667] @ asc '' <b>Haydovchi anketasi</b>'' @ [10] @ asc ''Mashina turini kiriting (masalan: Fura, Isuzu, Tent, Ref).'') (Reply_keyboard cancel_keyboard) w)"

definition start_cargo_form :: "world \<Rightarrow> world" where
  "start_cargo_form w =
     (let w = state_clear w;
          w = set_state CargoFSM_from_region w
      in answer ([128205] @ asc '' Yuk qayerdan yuklanadi? Viloyatni tanlang:'') (Reply_keyboard region_keyboard) w)"

definition require_completed_profile :: "env \<Rightarrow> message \<Rightarrow> world \<Rightarrow> user_doc option \<times> world" where
  "require_completed_profile e m w =
     (case msg_from m of
        None \<Rightarrow> (None, w)
      | Some u \<Rightarrow>
          (case ensure_mandatory_subscription_message e m w of
             (False, w) \<Rightarrow> (None, w)
           | (True, w) \<Rightarrow>
               (case ensure_user e (w_db w) u of
                  (usr, d) \<Rightarrow>
                    if \<not> profile_completed usr
                    then (None, answer (asc ''Profilingiz tugallanmagan. Avval /start orqali to'ldiring.'') No_markup (set_db d w))
                    else (Some usr, set_db d w))))"

definition MSG_NO_ADMIN :: pystr where
  "MSG_NO_ADMIN = ([9940] @ asc '' Sizda admin huquqi yo'q.'')"

definition require_admin :: "env \<Rightarrow> message \<Rightarrow> world \<Rightarrow> bool \<times> world" where
  "require_admin e m w =
     (case msg_from m of
        None \<Rightarrow> (False, w)
      | Some u \<Rightarrow>
          if is_admin_user e (w_db w) (tg_id u) then (True, w)
          else (False, answer MSG_NO_ADMIN No_markup w))"


subsection \<open>Language, cancellation\<close>

definition MSG_WELCOME :: pystr where
  "MSG_WELCOME = ([128075] @ asc '' Assalomu alaykum!'' @ [10] @ asc ''Logistik platformaga xush kelibsiz.'' @ [10, 10, 129534] @ asc '' Ismingizni kiriting:'')"

definition select_language :: "env \<Rightarrow> message \<Rightarrow> world \<Rightarrow> world" where
  "select_language e m w =
     (case msg_from m of
        None \<Rightarrow> w
      | Some u \<Rightarrow>
          (case dict_get LANG_LABEL_TO_CODE (strip (or_empty (msg_text m))) of
             None \<Rightarrow> answer (asc ''Tilni tugma orqali tanlang / '' @ [1042, 1099, 1073, 1077, 1088, 1080, 1090, 1077, 32, 1103, 1079, 1099, 1082, 32, 1082, 1085, 1086, 1087, 1082, 1086, 1081, 46]) (Reply_keyboard language_keyboard) w
           | Some chosen \<Rightarrow>
               if chosen = [] then answer (asc ''Tilni tugma orqali tanlang / '' @ [1042, 1099, 1073, 1077, 1088, 1080, 1090, 1077, 32, 1103, 1079, 1099, 1082, 32, 1082, 1085, 1086, 1087, 1082, 1086, 1081, 46]) (Reply_keyboard language_keyboard) w
               else
               (case ensure_user e (set_user_lang e (w_db w) (tg_id u) chosen) u of
                  (usr, d) \<Rightarrow>
                    if profile_completed usr
                    then open_main_menu e m ([9989] @ asc '' Til saqlandi. Asosiy menyu.'') (state_clear (set_db d w))
                    else answer MSG_WELCOME Remove_keyboard
                           (set_state RegistrationFSM_first_name (set_db d w)))))"

definition cancel_flow :: "env \<Rightarrow> message \<Rightarrow> world \<Rightarrow> world" where
  "cancel_flow e m w =
     (case sess_state (w_sess w) of
        None \<Rightarrow> open_main_menu e m (asc ''Asosiy menyu.'') w
      | Some current \<Rightarrow> open_main_menu e m ([10060] @ asc '' Jarayon bekor qilindi.'') (state_clear w))"

subsection \<open>Registration\<close>

definition reg_first_name :: "env \<Rightarrow> message \<Rightarrow> world \<Rightarrow> world" where
  "reg_first_name e m w =
     (let t = strip (or_empty (msg_text m)) in
      if length t < 2 then answer (asc ''Ism kamida 2 ta harf bo'lsin. Qayta kiriting:'') No_markup w
      else (let w = update_data ''first_name'' (PStr t) w;
                w = set_state RegistrationFSM_last_name w
            in answer ([129534] @ asc '' Familiyangizni kiriting:'') No_markup w))"

definition reg_last_name :: "env \<Rightarrow> message \<Rightarrow> world \<Rightarrow> world" where
  "reg_last_name e m w =
     (let t = strip (or_empty (msg_text m)) in
      if length t < 2 then answer (asc ''Familiya kamida 2 ta harf bo'lsin. Qayta kiriting:'') No_markup w
      else (let w = update_data ''last_name'' (PStr t) w;
                w = set_state RegistrationFSM_phone w
            in answer ([128241] @ asc '' Telefon raqamingizni yuboring:'') (Reply_keyboard phone_keyboard) w))"

definition reg_phone :: "env \<Rightarrow> message \<Rightarrow> world \<Rightarrow> world" where
  "reg_phone e m w =
     (let ph = (if or_empty (msg_contact_phone m) \<noteq> [] then parse_phone (or_empty (msg_contact_phone m))
                else if or_empty (msg_text m) \<noteq> [] then parse_phone (or_empty (msg_text m))
                else None) in
      if or_empty ph = [] then answer (asc ''Telefon formati noto'g'ri. Masalan: +998901234567'') No_markup w
      else (let w = update_data ''phone'' (PStr (or_empty ph)) w;
                w = set_state RegistrationFSM_role w
            in answer (asc ''Sizning rolingizni tanlang:'') (Reply_keyboard role_keyboard) w))"

definition reg_role :: "env \<Rightarrow> message \<Rightarrow> world \<Rightarrow> world" where
  "reg_role e m w =
     (case msg_from m of
        None \<Rightarrow> w
      | Some u \<Rightarrow>
          (let r = dict_get LABEL_TO_ROLE (strip (or_empty (msg_text m))) in
           if r \<noteq> Some ROLE_DRIVER \<and> r \<noteq> Some ROLE_SHIPPER
           then answer (asc ''Pastdagi tugmalardan birini tanlang.'') No_markup w
           else (let data = get_data w;
                     w = set_db (update_user (w_db w) (tg_id u)
                            (\<lambda>doc. doc\<lparr>first_name := val_get data ''first_name'',
                                         last_name := val_get data ''last_name'',
                                         phone := val_get data ''phone'',
                                         role := r,
                                         profile_completed := (r = Some ROLE_SHIPPER),
                                         updated_at := env_now e\<rparr>)) w
                 in if r = Some ROLE_SHIPPER
                    then open_main_menu e m ([9989] @ asc '' Ro'yxatdan o'tish tugadi. Endi yuk joylashingiz mumkin.'') (state_clear w)
                    else start_driver_form (asc ''registration'') w)))"

subsection \<open>Driver profile\<close>

definition driver_car_type :: "env \<Rightarrow> message \<Rightarrow> world \<Rightarrow> world" where
  "driver_car_type e m w =
     (let t = strip (or_empty (msg_text m)) in
      if length t < 2 then answer (asc ''Mashina turi juda qisqa. Qayta kiriting:'') No_markup w
      else (let w = update_data ''car_type'' (PStr t) w;
                w = set_state DriverFSM_capacity_ton w
            in answer ([9878, 65039] @ asc '' Yuk sig'imini kiriting (tonna):'') No_markup w))"

definition driver_capacity :: "env \<Rightarrow> message \<Rightarrow> world \<Rightarrow> world" where
  "driver_capacity e m w =
     (case parse_positive_number e (or_empty (msg_text m)) of
        None \<Rightarrow> answer (asc ''Raqam kiriting. Masalan: 20'') No_markup w
      | Some v \<Rightarrow>
          (let w = update_data ''capacity_ton'' (PFloat v) w;
               w = set_state DriverFSM_volume_m3 w
           in answer ([128208] @ asc '' Hajmini kiriting (m3):'') No_markup w))"

definition driver_volume :: "env \<Rightarrow> message \<Rightarrow> world \<Rightarrow> world" where
  "driver_volume e m w =
     (case parse_positive_number e (or_empty (msg_text m)) of
        None \<Rightarrow> answer (asc ''Raqam kiriting. Masalan: 86'') No_markup w
      | Some v \<Rightarrow>
          (let w = update_data ''volume_m3'' (PFloat v) w;
               w = set_state DriverFSM_routes w
           in answer ([128205] @ asc '' Qaysi yo'nalishlarda ishlaysiz? (masalan: Toshkent-Samarqand-Farg'ona)'') No_markup w))"

definition driver_routes :: "env \<Rightarrow> message \<Rightarrow> world \<Rightarrow> world" where
  "driver_routes e m w =
     (let t = strip (or_empty (msg_text m)) in
      if length t < 3 then answer (asc ''Yo'nalishni to'liqroq yozing.'') No_markup w
      else (let w = update_data ''routes'' (PStr t) w;
                w = set_state DriverFSM_price_per_km w
            in answer ([128181] @ asc '' 1 km uchun narx (ixtiyoriy):'') (Reply_keyboard skip_cancel_keyboard) w))"

definition driver_price :: "env \<Rightarrow> message \<Rightarrow> world \<Rightarrow> world" where
  "driver_price e m w =
     (let t = strip (or_empty (msg_text m)) in
      if t = BTN_SKIP
      then answer ([128221] @ asc '' Qo'shimcha izoh (ixtiyoriy):'') (Reply_keyboard skip_cancel_keyboard)
             (set_state DriverFSM_note (update_data ''price_per_km'' PNone w))
      else (case parse_positive_number e t of
              None \<Rightarrow> answer (asc ''Raqam kiriting yoki `'' @ [9197] @ asc '' O'tkazib yuborish` ni bosing.'') No_markup w
            | Some v \<Rightarrow>
                answer ([128221] @ asc '' Qo'shimcha izoh (ixtiyoriy):'') (Reply_keyboard skip_cancel_keyboard)
                  (set_state DriverFSM_note (update_data ''price_per_km'' (PFloat v) w))))"

definition driver_note :: "env \<Rightarrow> message \<Rightarrow> world \<Rightarrow> world" where
  "driver_note e m w =
     (case msg_from m of
        None \<Rightarrow> w
      | Some u \<Rightarrow>
          (let t = strip (or_empty (msg_text m));
               note = (if t = BTN_SKIP then PNone else PStr t);
               data = get_data w;
               w = state_clear w;
               profile = dict_of [(''car_type'', val_get data ''car_type''),
                                  (''capacity_ton'', val_get data ''capacity_ton''),
                                  (''volume_m3'', val_get data ''volume_m3''),
                                  (''routes'', val_get data ''routes''),
                                  (''price_per_km'', val_get data ''price_per_km''),
                                  (''note'', note)];
               w = set_db (update_user (w_db w) (tg_id u)
                      (\<lambda>doc. doc\<lparr>role := Some ROLE_DRIVER, driver_profile := profile,
                                   profile_completed := True, updated_at := env_now e\<rparr>)) w
           in open_main_menu e m ([9989] @ asc '' Haydovchi anketasi saqlandi.'') w))"


subsection \<open>Cargo posting\<close>

definition cargo_from_region :: "env \<Rightarrow> message \<Rightarrow> world \<Rightarrow> world" where
  "cargo_from_region e m w =
     (case normalize_region (or_empty (msg_text m)) of
        None \<Rightarrow> answer (asc ''Viloyatni tugmadan tanlang.'') (Reply_keyboard region_keyboard) w
      | Some region \<Rightarrow>
          if region = [] then answer (asc ''Viloyatni tugmadan tanlang.'') (Reply_keyboard region_keyboard) w
          else (let w = update_data ''from_region'' (PStr region) w;
                    w = set_state CargoFSM_to_region w
                in answer ([127937] @ asc '' Yuk qayerga boradi? Viloyatni tanlang:'') (Reply_keyboard region_keyboard) w))"

definition cargo_to_region :: "env \<Rightarrow> message \<Rightarrow> world \<Rightarrow> world" where
  "cargo_to_region e m w =
     (case normalize_region (or_empty (msg_text m)) of
        None \<Rightarrow> answer (asc ''Viloyatni tugmadan tanlang.'') (Reply_keyboard region_keyboard) w
      | Some region \<Rightarrow>
          if region = [] then answer (asc ''Viloyatni tugmadan tanlang.'') (Reply_keyboard region_keyboard) w
          else (let w = update_data ''to_region'' (PStr region) w;
                    w = set_state CargoFSM_cargo_type w
                in answer ([128230] @ asc '' Yuk turini kiriting (masalan: sement, mebel, oziq-ovqat):'') (Reply_keyboard cancel_keyboard) w))"

definition cargo_type_step :: "env \<Rightarrow> message \<Rightarrow> world \<Rightarrow> world" where
  "cargo_type_step e m w =
     (let t = strip (or_empty (msg_text m)) in
      if length t < 2 then answer (asc ''Yuk turini to'liqroq kiriting.'') No_markup w
      else (let w = update_data ''cargo_type'' (PStr t) w;
                w = set_state CargoFSM_weight_ton w
            in answer ([9878, 65039] @ asc '' Og'irligini kiriting (tonna):'') No_markup w))"

definition cargo_weight :: "env \<Rightarrow> message \<Rightarrow> world \<Rightarrow> world" where
  "cargo_weight e m w =
     (case parse_positive_number e (or_empty (msg_text m)) of
        None \<Rightarrow> answer (asc ''Raqam kiriting. Masalan: 22'') No_markup w
      | Some v \<Rightarrow>
          (let w = update_data ''weight_ton'' (PFloat v) w;
               w = set_state CargoFSM_volume_m3 w
           in answer ([128208] @ asc '' Hajmini kiriting (m3):'') No_markup w))"

definition cargo_volume :: "env \<Rightarrow> message \<Rightarrow> world \<Rightarrow> world" where
  "cargo_volume e m w =
     (case parse_positive_number e (or_empty (msg_text m)) of
        None \<Rightarrow> answer (asc ''Raqam kiriting. Masalan: 86'') No_markup w
      | Some v \<Rightarrow>
          (let w = update_data ''volume_m3'' (PFloat v) w;
               w = set_state CargoFSM_price w
           in answer ([128176] @ asc '' Taklif narxini kiriting (so'm):'') No_markup w))"

definition cargo_price :: "env \<Rightarrow> message \<Rightarrow> world \<Rightarrow> world" where
  "cargo_price e m w =
     (case parse_positive_number e (or_empty (msg_text m)) of
        None \<Rightarrow> answer (asc ''Narxni raqamda kiriting. Masalan: 2500000'') No_markup w
      | Some v \<Rightarrow>
          (let w = update_data ''price'' (PFloat v) w;
               w = set_state CargoFSM_load_date w
           in answer ([128197] @ asc '' Yuklash sanasi (masalan: 25.02.2026 yoki bugun):'') No_markup w))"

definition cargo_load_date :: "env \<Rightarrow> message \<Rightarrow> world \<Rightarrow> world" where
  "cargo_load_date e m w =
     (let t = strip (or_empty (msg_text m)) in
      if length t < 2 then answer (asc ''Yuklash sanasini kiriting.'') No_markup w
      else (let w = update_data ''load_date'' (PStr t) w;
                w = set_state CargoFSM_payment_type w
            in answer ([128179] @ asc '' To'lov turini tanlang:'') (Reply_keyboard payment_keyboard) w))"

definition cargo_payment :: "env \<Rightarrow> message \<Rightarrow> world \<Rightarrow> world" where
  "cargo_payment e m w =
     (let t = strip (or_empty (msg_text m)) in
      if t \<notin> set PAYMENT_OPTIONS
      then answer (asc ''To'lov turini tugmadan tanlang.'') (Reply_keyboard payment_keyboard) w
      else (let w = update_data ''payment_type'' (PStr t) w;
                w = set_state CargoFSM_comment w
            in answer ([128221] @ asc '' Qo'shimcha izoh (ixtiyoriy):'') (Reply_keyboard skip_cancel_keyboard) w))"

definition cargo_comment :: "env \<Rightarrow> message \<Rightarrow> world \<Rightarrow> world" where
  "cargo_comment e m w =
     (let t = strip (or_empty (msg_text m));
          w = update_data ''comment'' (PStr (if t = BTN_SKIP then asc ''-'' else t)) w;
          w = set_state CargoFSM_confirm w
      in answer_built ''build_cargo_preview'' (Reply_keyboard cargo_confirm_keyboard) w)"

text \<open>
  \<^verbatim>\<open>data["key"]\<close> raises \<^verbatim>\<open>KeyError\<close> for a missing key.  The document is built
  key by key, so the first missing key is the one reported.
\<close>

definition cargo_keys :: "string list" where
  "cargo_keys = [''from_region'', ''to_region'', ''cargo_type'', ''weight_ton'', ''volume_m3'',
                 ''price'', ''load_date'', ''payment_type'', ''comment'']"

text \<open>
  \<^verbatim>\<open>insert_one\<close> and \<^verbatim>\<open>update_one\<close> on the collection of cargo posts; the position
  in the collection stands for the identifier of the document.
\<close>

definition insert_cargo :: "db \<Rightarrow> cargo_doc \<Rightarrow> nat \<times> db" where
  "insert_cargo d cargo = (length (cargo_posts d), d\<lparr>cargo_posts := cargo_posts d @ [cargo]\<rparr>)"

definition update_cargo :: "db \<Rightarrow> nat \<Rightarrow> (cargo_doc \<Rightarrow> cargo_doc) \<Rightarrow> db" where
  "update_cargo d i f =
     (if i < length (cargo_posts d)
      then d\<lparr>cargo_posts := (cargo_posts d)[i := f (cargo_posts d ! i)]\<rparr>
      else d)"

definition send_effects :: "int list \<Rightarrow> world \<Rightarrow> world" where
  "send_effects chats w = w\<lparr>w_out := w_out w @ map Send_message chats\<rparr>"

definition cargo_confirm :: "env \<Rightarrow> message \<Rightarrow> world \<Rightarrow> world" where
  "cargo_confirm e m w =
     (case msg_from m of
        None \<Rightarrow> w
      | Some u \<Rightarrow>
          (let t = strip (or_empty (msg_text m)) in
           if t = BTN_CARGO_EDIT
           then answer (asc ''Tahrirlash boshlandi. Qayerdan yuklanadi?'') (Reply_keyboard region_keyboard)
                  (set_state CargoFSM_from_region w)
           else if t \<noteq> BTN_CARGO_CONFIRM
           then answer (asc ''Pastdagi tugmalardan birini tanlang.'') (Reply_keyboard cargo_confirm_keyboard) w
           else (let data = get_data w;
                     w = state_clear w
                 in case fetch_user (w_db w) (tg_id u) of
                      None \<Rightarrow> answer (asc ''Xatolik: foydalanuvchi topilmadi.'') No_markup w
                    | Some owner \<Rightarrow>
                        (case find (\<lambda>k. dict_get data k = None) cargo_keys of
                           Some k \<Rightarrow> w\<lparr>w_raised := Some (KeyError k)\<rparr>
                         | None \<Rightarrow>
                             (let cargo = \<lparr>owner_id = tg_id u,
                                    from_region = val_get data ''from_region'',
                                    to_region = val_get data ''to_region'',
                                    cargo_type = val_get data ''cargo_type'',
                                    weight_ton = val_get data ''weight_ton'',
                                    volume_m3 = val_get data ''volume_m3'',
                                    price = val_get data ''price'',
                                    load_date = val_get data ''load_date'',
                                    payment_type = val_get data ''payment_type'',
                                    comment = val_get data ''comment'',
                                    cargo_created_at = env_now e,
                                    cargo_status = ''active'',
                                    posted_chats = None, post_failures = None,
                                    cargo_updated_at = None\<rparr>
                              in case insert_cargo (w_db w) cargo of
                                   (cargo_id, d) \<Rightarrow>
                                (let w = set_db d w in
                                 case publish_cargo (w_bot_username_cache w) (env_bot e) (w_db w)
                                        cargo owner of
                                   (Inl exc, cache, attempts) \<Rightarrow> w\<lparr>w_raised := Some exc\<rparr>
                                 | (Inr (sent, failed), cache, attempts) \<Rightarrow>
                                     (let w = w\<lparr>w_bot_username_cache := cache\<rparr>;
                                          w = send_effects attempts w;
                                          w = set_db (update_cargo (w_db w) cargo_id
                                                 (\<lambda>doc. doc\<lparr>posted_chats := Some sent,
                                                              post_failures := Some failed,
                                                              cargo_updated_at := Some (env_now e)\<rparr>)) w
                                      in open_main_menu_built e m ''cargo_result'' w)))))))"

subsection \<open>Settings\<close>

definition settings_change_role :: "env \<Rightarrow> message \<Rightarrow> world \<Rightarrow> world" where
  "settings_change_role e m w =
     (case msg_from m of
        None \<Rightarrow> w
      | Some u \<Rightarrow>
          (let r = dict_get LABEL_TO_ROLE (strip (or_empty (msg_text m))) in
           if r \<noteq> Some ROLE_DRIVER \<and> r \<noteq> Some ROLE_SHIPPER
           then answer (asc ''Rolni tugmadan tanlang.'') No_markup w
           else case fetch_user (w_db w) (tg_id u) of
                  None \<Rightarrow> answer (asc ''Foydalanuvchi topilmadi.'') No_markup w
                | Some usr \<Rightarrow>
                    if r = Some ROLE_SHIPPER
                    then open_main_menu e m ([9989] @ asc '' Rolingiz yuk beruvchi qilib yangilandi.'')
                           (state_clear (set_db (update_user (w_db w) (tg_id u)
                              (\<lambda>doc. doc\<lparr>role := Some ROLE_SHIPPER, profile_completed := True,
                                           updated_at := env_now e\<rparr>)) w))
                    else (let profile = driver_profile usr;
                              profile_ready = (truthy (val_get profile ''car_type'')
                                \<and> truthy (val_get profile ''capacity_ton'')
                                \<and> truthy (val_get profile ''volume_m3'')
                                \<and> truthy (val_get profile ''routes''));
                              w = set_db (update_user (w_db w) (tg_id u)
                                    (\<lambda>doc. doc\<lparr>role := Some ROLE_DRIVER,
                                                 profile_completed := profile_ready,
                                                 updated_at := env_now e\<rparr>)) w
                          in if profile_ready
                             then open_main_menu e m ([9989] @ asc '' Rolingiz haydovchi qilib yangilandi.'') (state_clear w)
                             else start_driver_form (asc ''settings'') w)))"


subsection \<open>Menu actions\<close>

definition show_profile :: "env \<Rightarrow> message \<Rightarrow> world \<Rightarrow> world" where
  "show_profile e m w =
     (case msg_from m of
        None \<Rightarrow> w
      | Some u \<Rightarrow>
          (case ensure_mandatory_subscription_message e m w of
             (False, w) \<Rightarrow> w
           | (True, w) \<Rightarrow>
               (case ensure_user e (w_db w) u of
                  (usr, d) \<Rightarrow>
                    if \<not> profile_completed usr
                    then answer (asc ''Profilingiz tugallanmagan. /start orqali davom eting.'') No_markup (set_db d w)
                    else open_main_menu_built e m ''build_profile_text'' (set_db d w))))"

definition show_profile_analysis :: "env \<Rightarrow> message \<Rightarrow> world \<Rightarrow> world" where
  "show_profile_analysis e m w =
     (case msg_from m of
        None \<Rightarrow> w
      | Some u \<Rightarrow>
          (case ensure_mandatory_subscription_message e m w of
             (False, w) \<Rightarrow> w
           | (True, w) \<Rightarrow>
               (case ensure_user e (w_db w) u of
                  (usr, d) \<Rightarrow>
                    if \<not> profile_completed usr
                    then answer (asc ''Profilingiz tugallanmagan. /start ni bosing.'') No_markup (set_db d w)
                    else open_main_menu_built e m ''profile_analysis'' (set_db d w))))"

definition show_stats :: "env \<Rightarrow> message \<Rightarrow> world \<Rightarrow> world" where
  "show_stats e m w =
     (case msg_from m of
        None \<Rightarrow> w
      | Some u \<Rightarrow>
          (case ensure_mandatory_subscription_message e m w of
             (False, w) \<Rightarrow> w
           | (True, w) \<Rightarrow>
               (case ensure_user e (w_db w) u of
                  (usr, d) \<Rightarrow>
                    if \<not> profile_completed usr
                    then answer (asc ''Profilingiz tugallanmagan. /start ni bosing.'') No_markup (set_db d w)
                    else open_main_menu_built e m ''stats'' (set_db d w))))"

definition menu_cargo :: "env \<Rightarrow> message \<Rightarrow> world \<Rightarrow> world" where
  "menu_cargo e m w =
     (case require_completed_profile e m w of
        (None, w) \<Rightarrow> w
      | (Some usr, w) \<Rightarrow>
          if role usr \<noteq> Some ROLE_SHIPPER
          then answer ([128204] @ asc '' Yuk joylash faqat `Yuk beruvchi` roli uchun. Sozlamadan rolni almashtiring.'') No_markup w
          else start_cargo_form w)"

definition menu_driver :: "env \<Rightarrow> message \<Rightarrow> world \<Rightarrow> world" where
  "menu_driver e m w =
     (case require_completed_profile e m w of
        (None, w) \<Rightarrow> w
      | (Some usr, w) \<Rightarrow> start_driver_form (asc ''edit'') w)"

definition menu_pro :: "env \<Rightarrow> message \<Rightarrow> world \<Rightarrow> world" where
  "menu_pro e m w =
     (case ensure_mandatory_subscription_message e m w of
        (False, w) \<Rightarrow> w
      | (True, w) \<Rightarrow> answer ([128142] @ asc '' <b>PRO tarif</b>'' @ [10] @ asc ''PRO foydalanuvchi afzalliklari:'' @ [10, 8226] @ asc '' E'lonlar ajratib ko'rsatiladi'' @ [10, 8226] @ asc '' Yuqoriroq ko'rinish imkoniyati'' @ [10, 8226] @ asc '' Tezkor navbat'' @ [10, 10] @ asc ''Tariflar (misol):'' @ [10, 8226] @ asc '' 7 kun'' @ [10, 8226] @ asc '' 30 kun'' @ [10, 8226] @ asc '' 90 kun'' @ [10, 10] @ asc ''Ulash uchun admin bilan bog'laning.'') No_markup w)"

definition menu_news :: "env \<Rightarrow> message \<Rightarrow> world \<Rightarrow> world" where
  "menu_news e m w =
     (case ensure_mandatory_subscription_message e m w of
        (False, w) \<Rightarrow> w
      | (True, w) \<Rightarrow>
          if env_news_channel e \<noteq> [] then answer_built ''news_channel'' No_markup w
          else answer ([128227] @ asc '' Yangiliklar bo'limi hali sozlanmagan.'') No_markup w)"

definition menu_contact :: "env \<Rightarrow> message \<Rightarrow> world \<Rightarrow> world" where
  "menu_contact e m w =
     (case ensure_mandatory_subscription_message e m w of
        (False, w) \<Rightarrow> w
      | (True, w) \<Rightarrow> answer_built ''support_contact'' No_markup w)"

definition menu_settings :: "env \<Rightarrow> message \<Rightarrow> world \<Rightarrow> world" where
  "menu_settings e m w =
     (case ensure_mandatory_subscription_message e m w of
        (False, w) \<Rightarrow> w
      | (True, w) \<Rightarrow> answer ([9881, 65039] @ asc '' Sozlamalar:'') (Reply_keyboard settings_keyboard) w)"

definition settings_role_start :: "env \<Rightarrow> message \<Rightarrow> world \<Rightarrow> world" where
  "settings_role_start e m w =
     (case require_completed_profile e m w of
        (None, w) \<Rightarrow> w
      | (Some usr, w) \<Rightarrow>
          answer (asc ''Yangi rolni tanlang:'') (Reply_keyboard role_keyboard) (set_state SettingsFSM_role w))"

definition MSG_CHOOSE_LANG :: pystr where
  "MSG_CHOOSE_LANG = (asc ''Tilni tanlang / '' @ [1042, 1099, 1073, 1077, 1088, 1080, 1090, 1077, 32, 1103, 1079, 1099, 1082, 58])"

definition settings_lang_start :: "env \<Rightarrow> message \<Rightarrow> world \<Rightarrow> world" where
  "settings_lang_start e m w =
     (case msg_from m of
        None \<Rightarrow> w
      | Some u \<Rightarrow>
          answer MSG_CHOOSE_LANG (Reply_keyboard language_keyboard) (set_state LanguageFSM_select w))"

definition cmd_lang :: "env \<Rightarrow> message \<Rightarrow> world \<Rightarrow> world" where
  "cmd_lang e m w =
     (case ensure_mandatory_subscription_message e m w of
        (False, w) \<Rightarrow> w
      | (True, w) \<Rightarrow>
          answer MSG_CHOOSE_LANG (Reply_keyboard language_keyboard) (set_state LanguageFSM_select w))"

definition back_to_main :: "env \<Rightarrow> message \<Rightarrow> world \<Rightarrow> world" where
  "back_to_main e m w = open_main_menu e m (asc ''Asosiy menyu.'') (state_clear w)"

subsection \<open>Administrator menu\<close>

definition admin_panel :: "env \<Rightarrow> message \<Rightarrow> world \<Rightarrow> world" where
  "admin_panel e m w =
     (case require_admin e m w of
        (False, w) \<Rightarrow> w
      | (True, w) \<Rightarrow> answer ([128736] @ asc '' <b>Admin panel</b>'') (Reply_keyboard admin_panel_keyboard) w)"

definition admin_stats :: "env \<Rightarrow> message \<Rightarrow> world \<Rightarrow> world" where
  "admin_stats e m w =
     (case require_admin e m w of
        (False, w) \<Rightarrow> w
      | (True, w) \<Rightarrow> answer_built ''build_admin_stats_text'' (Reply_keyboard admin_panel_keyboard) w)"

definition admin_users :: "env \<Rightarrow> message \<Rightarrow> world \<Rightarrow> world" where
  "admin_users e m w =
     (case require_admin e m w of
        (False, w) \<Rightarrow> w
      | (True, w) \<Rightarrow>
          if users (w_db w) = []
          then answer (asc ''Foydalanuvchilar topilmadi.'') (Reply_keyboard admin_panel_keyboard) w
          else answer_built ''admin_users'' (Reply_keyboard admin_panel_keyboard) w)"

definition admin_broadcast_start :: "env \<Rightarrow> message \<Rightarrow> world \<Rightarrow> world" where
  "admin_broadcast_start e m w =
     (case require_admin e m w of
        (False, w) \<Rightarrow> w
      | (True, w) \<Rightarrow>
          answer (asc ''Qaysi auditoriyaga yuborilsin?'') (Reply_keyboard broadcast_audience_keyboard)
            (set_state AdminBroadcastFSM_audience w))"

definition admin_pro_menu :: "env \<Rightarrow> message \<Rightarrow> world \<Rightarrow> world" where
  "admin_pro_menu e m w =
     (case require_admin e m w of
        (False, w) \<Rightarrow> w
      | (True, w) \<Rightarrow> answer ([128142] @ asc '' Pro boshqaruvi'') (Reply_keyboard admin_pro_keyboard) w)"

definition MSG_PRO_ADD_FORMAT :: pystr where
  "MSG_PRO_ADD_FORMAT = (asc ''Format: <code>user_id kun</code>'' @ [10] @ asc ''Masalan: <code>123456789 30</code>'')"

definition admin_pro_add_start :: "env \<Rightarrow> message \<Rightarrow> world \<Rightarrow> world" where
  "admin_pro_add_start e m w =
     (case require_admin e m w of
        (False, w) \<Rightarrow> w
      | (True, w) \<Rightarrow>
          answer MSG_PRO_ADD_FORMAT (Reply_keyboard cancel_keyboard) (set_state AdminProFSM_add w))"

definition admin_pro_remove_start :: "env \<Rightarrow> message \<Rightarrow> world \<Rightarrow> world" where
  "admin_pro_remove_start e m w =
     (case require_admin e m w of
        (False, w) \<Rightarrow> w
      | (True, w) \<Rightarrow>
          answer (asc ''Format: <code>user_id</code>'' @ [10] @ asc ''Masalan: <code>123456789</code>'') (Reply_keyboard cancel_keyboard)
            (set_state AdminProFSM_remove w))"

definition admin_channels_menu :: "env \<Rightarrow> message \<Rightarrow> world \<Rightarrow> world" where
  "admin_channels_menu e m w =
     (case require_admin e m w of
        (False, w) \<Rightarrow> w
      | (True, w) \<Rightarrow> answer ([127760] @ asc '' Kanal/Guruh sozlash'') (Reply_keyboard admin_channels_keyboard) w)"

definition admin_catalog_start :: "env \<Rightarrow> message \<Rightarrow> world \<Rightarrow> world" where
  "admin_catalog_start e m w =
     (case require_admin e m w of
        (False, w) \<Rightarrow> w
      | (True, w) \<Rightarrow>
          answer (asc ''Katalog chatni ulang.'' @ [10, 8226] @ asc '' `-100...` chat ID yuboring yoki'' @ [10, 8226] @ asc '' `@username` / `https://t.me/...` link yuboring yoki'' @ [10, 8226] @ asc '' Katalog kanal/guruhdan forward qilingan xabar yuboring.'') (Reply_keyboard cancel_keyboard)
            (set_state AdminChannelFSM_catalog_chat w))"

definition admin_region_start :: "env \<Rightarrow> message \<Rightarrow> world \<Rightarrow> world" where
  "admin_region_start e m w =
     (case require_admin e m w of
        (False, w) \<Rightarrow> w
      | (True, w) \<Rightarrow>
          answer (asc ''Viloyatni tanlang:'') (Reply_keyboard region_keyboard)
            (set_state AdminChannelFSM_region_select w))"

definition admin_channels_list :: "env \<Rightarrow> message \<Rightarrow> world \<Rightarrow> world" where
  "admin_channels_list e m w =
     (case require_admin e m w of
        (False, w) \<Rightarrow> w
      | (True, w) \<Rightarrow>
          answer_built ''admin_channels_overview_text'' (Reply_keyboard admin_channels_keyboard) w)"

definition admin_required_add_start :: "env \<Rightarrow> message \<Rightarrow> world \<Rightarrow> world" where
  "admin_required_add_start e m w =
     (case require_admin e m w of
        (False, w) \<Rightarrow> w
      | (True, w) \<Rightarrow>
          answer (asc ''Majburiy kanalni qo'shish uchun yuboring:'' @ [10, 8226] @ asc '' `-100...` chat ID yoki'' @ [10, 8226] @ asc '' `@username` / `https://t.me/...` link yoki'' @ [10, 8226] @ asc '' kanaldan forward xabar'') (Reply_keyboard cancel_keyboard)
            (set_state AdminChannelFSM_required_add w))"

definition admin_required_remove_start :: "env \<Rightarrow> message \<Rightarrow> world \<Rightarrow> world" where
  "admin_required_remove_start e m w =
     (case require_admin e m w of
        (False, w) \<Rightarrow> w
      | (True, w) \<Rightarrow>
          answer (asc ''Majburiy kanalni o'chirish uchun yuboring:'' @ [10, 8226] @ asc '' `-100...` chat ID yoki'' @ [10, 8226] @ asc '' `@username` / `https://t.me/...` link yoki'' @ [10, 8226] @ asc '' kanaldan forward xabar'') (Reply_keyboard cancel_keyboard)
            (set_state AdminChannelFSM_required_remove w))"

definition admin_required_list :: "env \<Rightarrow> message \<Rightarrow> world \<Rightarrow> world" where
  "admin_required_list e m w =
     (case require_admin e m w of
        (False, w) \<Rightarrow> w
      | (True, w) \<Rightarrow>
          answer_built ''mandatory_channels_overview_text'' (Reply_keyboard admin_channels_keyboard) w)"

definition admin_help :: "env \<Rightarrow> message \<Rightarrow> world \<Rightarrow> world" where
  "admin_help e m w =
     (case require_admin e m w of
        (False, w) \<Rightarrow> w
      | (True, w) \<Rightarrow> answer_built ''build_admin_guide_text'' (Reply_keyboard admin_panel_keyboard) w)"

definition back_to_admin :: "env \<Rightarrow> message \<Rightarrow> world \<Rightarrow> world" where
  "back_to_admin e m w =
     (case require_admin e m (state_clear w) of
        (False, w) \<Rightarrow> w
      | (True, w) \<Rightarrow> answer ([128736] @ asc '' Admin panel'') (Reply_keyboard admin_panel_keyboard) w)"

subsection \<open>Menu routing and the interrupt\<close>

definition route_menu_button :: "env \<Rightarrow> message \<Rightarrow> pystr \<Rightarrow> world \<Rightarrow> world" where
  "route_menu_button e m t w =
     (if t = BTN_MENU_PROFILE then show_profile e m w
      else if t = BTN_MENU_ANALYSIS then show_profile_analysis e m w
      else if t = BTN_MENU_STATS then show_stats e m w
      else if t = BTN_MENU_CARGO then menu_cargo e m w
      else if t = BTN_MENU_DRIVER then menu_driver e m w
      else if t = BTN_MENU_PRO then menu_pro e m w
      else if t = BTN_MENU_NEWS then menu_news e m w
      else if t = BTN_MENU_CONTACT then menu_contact e m w
      else if t = BTN_MENU_SETTINGS then menu_settings e m w
      else if t = BTN_SETTINGS_ROLE then settings_role_start e m w
      else if t = BTN_SETTINGS_LANG then settings_lang_start e m w
      else if t = BTN_BACK_MAIN then back_to_main e m w
      else if t = BTN_ADMIN_PANEL then admin_panel e m w
      else if t = BTN_ADMIN_STATS then admin_stats e m w
      else if t = BTN_ADMIN_USERS then admin_users e m w
      else if t = BTN_BROADCAST then admin_broadcast_start e m w
      else if t = BTN_ADMIN_PRO then admin_pro_menu e m w
      else if t = BTN_PRO_ADD then admin_pro_add_start e m w
      else if t = BTN_PRO_REMOVE then admin_pro_remove_start e m w
      else if t = BTN_ADMIN_CHANNELS then admin_channels_menu e m w
      else if t = BTN_CH_SET_CATALOG then admin_catalog_start e m w
      else if t = BTN_CH_SET_REGION then admin_region_start e m w
      else if t = BTN_CH_LIST then admin_channels_list e m w
      else if t = BTN_REQ_ADD then admin_required_add_start e m w
      else if t = BTN_REQ_REMOVE then admin_required_remove_start e m w
      else if t = BTN_REQ_LIST then admin_required_list e m w
      else if t = BTN_ADMIN_GUIDE then admin_help e m w
      else if t = BTN_BACK_ADMIN then back_to_admin e m w
      else open_main_menu e m (asc ''Kerakli bo'limni menyudan tanlang.'') w)"

definition menu_interrupt_handler :: "env \<Rightarrow> message \<Rightarrow> world \<Rightarrow> world" where
  "menu_interrupt_handler e m w =
     (let t = canonicalize_user_text (msg_text m) in
      if t = BTN_CANCEL then cancel_flow e m w
      else route_menu_button e m t (state_clear w))"


subsection \<open>Resolving a chat from a message\<close>

text \<open>\<^verbatim>\<open>getattr(chat, "id", None)\<close> must be truthy: an identifier that is zero does not count.\<close>

definition truthy_id :: "int option \<Rightarrow> int option" where
  "truthy_id v = (case v of None \<Rightarrow> None | Some i \<Rightarrow> if i = 0 then None else Some i)"

definition extract_chat_id_from_message :: "message \<Rightarrow> int option" where
  "extract_chat_id_from_message m =
     (case truthy_id (msg_forward_from_chat m) of
        Some i \<Rightarrow> Some i
      | None \<Rightarrow>
     (case truthy_id (msg_forward_origin_chat m) of
        Some i \<Rightarrow> Some i
      | None \<Rightarrow>
     (case truthy_id (msg_forward_origin_sender_chat m) of
        Some i \<Rightarrow> Some i
      | None \<Rightarrow>
     (case truthy_id (msg_sender_chat m) of
        Some i \<Rightarrow> Some i
      | None \<Rightarrow>
          if or_empty (msg_text m) \<noteq> [] then parse_chat_id (or_empty (msg_text m)) else None))))"

definition resolve_chat_id_from_message ::
  "bot \<Rightarrow> message \<Rightarrow> py_error + (int option \<times> pystr option)" where
  "resolve_chat_id_from_message b m =
     (case extract_chat_id_from_message m of
        Some direct \<Rightarrow> Inr (Some direct, None)
      | None \<Rightarrow>
          if or_empty (msg_text m) = []
          then Inr (None, Some (asc ''Chat ID topilmadi.'' @ [10] @ asc ''ID (`-100...`), `@username`, `https://t.me/...` link yoki forward xabar yuboring.''))
          else (case resolve_chat_id_from_text b (or_empty (msg_text m)) of
                  Inl err \<Rightarrow> Inl err
                | Inr (res, lookups) \<Rightarrow> Inr res))"

text \<open>\<^verbatim>\<open>error or default\<close>.\<close>

definition or_default :: "pystr option \<Rightarrow> pystr \<Rightarrow> pystr" where
  "or_default err dflt = (if or_empty err \<noteq> [] then or_empty err else dflt)"

definition raise :: "py_error \<Rightarrow> world \<Rightarrow> world" where
  "raise err w = w\<lparr>w_raised := Some err\<rparr>"

subsection \<open>Python string methods of the administrator commands\<close>

text \<open>\<^verbatim>\<open>str.split()\<close>: the maximal runs of characters that are not white space.\<close>

fun split_ws_acc :: "pystr \<Rightarrow> pystr \<Rightarrow> pystr list" where
  "split_ws_acc cur [] = (if cur = [] then [] else [cur])"
| "split_ws_acc cur (c # cs) =
     (if is_space c then (if cur = [] then split_ws_acc [] cs else cur # split_ws_acc [] cs)
      else split_ws_acc (cur @ [c]) cs)"

definition split_ws :: "pystr \<Rightarrow> pystr list" where
  "split_ws s = split_ws_acc [] s"

text \<open>\<^verbatim>\<open>str.isdigit()\<close> and \<^verbatim>\<open>str.lstrip("-")\<close>.\<close>

definition isdigit :: "pystr \<Rightarrow> bool" where
  "isdigit s = (s \<noteq> [] \<and> list_all is_digit_char s)"

definition lstrip_minus :: "pystr \<Rightarrow> pystr" where
  "lstrip_minus s = dropWhile (\<lambda>c. c = 45) s"

fun join_with :: "pystr \<Rightarrow> pystr list \<Rightarrow> pystr" where
  "join_with sep [] = []"
| "join_with sep [p] = p"
| "join_with sep (p # q # ps) = p @ sep @ join_with sep (q # ps)"

subsection \<open>Broadcast\<close>

text \<open>
  The query that \<^verbatim>\<open>admin_broadcast_content\<close> builds from the audience that the
  session holds; an audience that is none of the three named ones selects
  every user.
\<close>

definition audience_matches :: "datetime \<Rightarrow> pyval \<Rightarrow> user_doc \<Rightarrow> bool" where
  "audience_matches now audience usr =
     (if audience = PStr (asc ''drivers'') then role usr = Some ROLE_DRIVER
      else if audience = PStr (asc ''shippers'') then role usr = Some ROLE_SHIPPER
      else if audience = PStr (asc ''pro'')
      then (case pro_until usr of None \<Rightarrow> False | Some until \<Rightarrow> until > now)
      else True)"

text \<open>
  The loop over the cursor: one \<^verbatim>\<open>copy_to\<close> for each selected user; an exception
  counts as a failure and the loop goes on.  The third component records the
  recipients of the calls, in order.
\<close>

fun broadcast_loop :: "bot \<Rightarrow> int list \<Rightarrow> nat \<times> nat \<times> int list \<Rightarrow> nat \<times> nat \<times> int list" where
  "broadcast_loop b [] acc = acc"
| "broadcast_loop b (user_id # rest) (sent, failed, attempts) =
     (case copy_to b user_id of
        Inr _ \<Rightarrow> broadcast_loop b rest (sent + 1, failed, attempts @ [user_id])
      | Inl exc \<Rightarrow> broadcast_loop b rest (sent, failed + 1, attempts @ [user_id]))"

definition broadcast :: "bot \<Rightarrow> db \<Rightarrow> datetime \<Rightarrow> pyval \<Rightarrow> nat \<times> nat \<times> int list" where
  "broadcast b d now audience =
     broadcast_loop b (map fst (filter (\<lambda>(user_id, usr). audience_matches now audience usr) (users d)))
       (0, 0, [])"

definition broadcast_report :: "nat \<Rightarrow> nat \<Rightarrow> pystr" where
  "broadcast_report sent failed =
     ([9989] @ asc '' Broadcast yakunlandi.'' @ [10, 128228] @ asc '' Yuborildi: <b>'') @ str_nat sent
     @ (asc ''</b>'' @ [10, 10071] @ asc '' Xato: <b>'') @ str_nat failed @ asc ''</b>''"

definition admin_broadcast_audience :: "env \<Rightarrow> message \<Rightarrow> world \<Rightarrow> world" where
  "admin_broadcast_audience e m w =
     (let audience = dict_get (dict_of [(BTN_BC_ALL, asc ''all''), (BTN_BC_DRIVERS, asc ''drivers''),
                                         (BTN_BC_SHIPPERS, asc ''shippers''), (BTN_BC_PRO, asc ''pro'')])
                       (strip (or_empty (msg_text m))) in
      if or_empty audience = []
      then answer (asc ''Auditoriyani tugmadan tanlang.'') (Reply_keyboard broadcast_audience_keyboard) w
      else (let w = update_data ''audience'' (PStr (or_empty audience)) w;
                w = set_state AdminBroadcastFSM_content w
            in answer (asc ''Yuboriladigan xabarni yuboring (text/photo/video ham bo'lishi mumkin).'') (Reply_keyboard cancel_keyboard) w))"

definition admin_broadcast_content :: "env \<Rightarrow> message \<Rightarrow> world \<Rightarrow> world" where
  "admin_broadcast_content e m w =
     (case msg_from m of
        None \<Rightarrow> w
      | Some u \<Rightarrow>
          (case require_admin e m w of
             (False, w) \<Rightarrow> state_clear w
           | (True, w) \<Rightarrow>
               (let audience = (case dict_get (get_data w) ''audience'' of
                                  None \<Rightarrow> PStr (asc ''all'')
                                | Some a \<Rightarrow> a)
                in case broadcast (env_bot e) (w_db w) (env_now e) audience of
                     (sent, failed, attempts) \<Rightarrow>
                       (let w = w\<lparr>w_out := w_out w @ map Copy_to attempts\<rparr>;
                            w = state_clear w
                        in answer (broadcast_report sent failed)
                             (Reply_keyboard admin_panel_keyboard) w))))"

subsection \<open>Pro administration\<close>

definition notify :: "bot \<Rightarrow> int \<Rightarrow> world \<Rightarrow> world" where
  "notify b user_id w = w\<lparr>w_out := w_out w @ [Send_message user_id]\<rparr>"

definition admin_pro_add_state :: "env \<Rightarrow> message \<Rightarrow> world \<Rightarrow> world" where
  "admin_pro_add_state e m w =
     (case require_admin e m w of
        (False, w) \<Rightarrow> state_clear w
      | (True, w) \<Rightarrow>
          (case split_ws (or_empty (msg_text m)) of
             [p0, p1] \<Rightarrow>
               if \<not> isdigit (lstrip_minus p0) \<or> \<not> isdigit p1
               then answer (asc ''Noto'g'ri format. Raqam kiriting.'') No_markup w
               else (case py_int p0 of
                       Inl err \<Rightarrow> raise err w
                     | Inr user_id \<Rightarrow>
                    (case py_int p1 of
                       Inl err \<Rightarrow> raise err w
                     | Inr days \<Rightarrow>
                         if days \<le> 0 then answer (asc ''Kun soni 0 dan katta bo'lishi kerak.'') No_markup w
                         else (case apply_pro (w_db w) (env_now e) user_id days of
                                 Inl err \<Rightarrow> raise err w
                               | Inr (None, d) \<Rightarrow> answer (asc ''Foydalanuvchi topilmadi.'') No_markup w
                               | Inr (Some new_until, d) \<Rightarrow>
                                   notify (env_bot e) user_id
                                     (answer_built ''pro_added'' (Reply_keyboard admin_pro_keyboard)
                                        (state_clear (set_db d w))))))
           | _ \<Rightarrow> answer MSG_PRO_ADD_FORMAT No_markup w))"

definition admin_pro_remove_state :: "env \<Rightarrow> message \<Rightarrow> world \<Rightarrow> world" where
  "admin_pro_remove_state e m w =
     (case require_admin e m w of
        (False, w) \<Rightarrow> state_clear w
      | (True, w) \<Rightarrow>
          (let raw = strip (or_empty (msg_text m)) in
           if \<not> isdigit (lstrip_minus raw)
           then answer (asc ''Faqat user_id kiriting. Masalan: <code>123456789</code>'') No_markup w
           else (case py_int raw of
                   Inl err \<Rightarrow> raise err w
                 | Inr user_id \<Rightarrow>
                     (case remove_pro (w_db w) (env_now e) user_id of
                        (False, d) \<Rightarrow> answer (asc ''Foydalanuvchi topilmadi.'') No_markup w
                      | (True, d) \<Rightarrow>
                          notify (env_bot e) user_id
                            (answer_built ''pro_removed'' (Reply_keyboard admin_pro_keyboard)
                               (state_clear (set_db d w)))))))"

subsection \<open>Channel administration\<close>

definition set_catalog_chat :: "int \<Rightarrow> world \<Rightarrow> world" where
  "set_catalog_chat cid w = set_db ((w_db w)\<lparr>catalog_chat := Some cid\<rparr>) w"

definition set_region_chat :: "pystr \<Rightarrow> int \<Rightarrow> world \<Rightarrow> world" where
  "set_region_chat region cid w =
     set_db ((w_db w)\<lparr>region_channels := dict_set (region_channels (w_db w)) region (Some cid)\<rparr>) w"

definition admin_set_catalog_chat :: "env \<Rightarrow> message \<Rightarrow> world \<Rightarrow> world" where
  "admin_set_catalog_chat e m w =
     (case require_admin e m w of
        (False, w) \<Rightarrow> state_clear w
      | (True, w) \<Rightarrow>
          (case resolve_chat_id_from_message (env_bot e) m of
             Inl err \<Rightarrow> raise err w
           | Inr (None, err) \<Rightarrow> answer (or_default err (asc ''Chat ID topilmadi.'')) No_markup w
           | Inr (Some cid, err) \<Rightarrow>
               answer_built ''catalog_saved'' (Reply_keyboard admin_channels_keyboard)
                 (state_clear (set_catalog_chat cid w))))"

definition admin_select_region :: "env \<Rightarrow> message \<Rightarrow> world \<Rightarrow> world" where
  "admin_select_region e m w =
     (case normalize_region (or_empty (msg_text m)) of
        None \<Rightarrow> answer (asc ''Viloyatni tugmadan tanlang.'') (Reply_keyboard region_keyboard) w
      | Some region \<Rightarrow>
          if region = [] then answer (asc ''Viloyatni tugmadan tanlang.'') (Reply_keyboard region_keyboard) w
          else (let w = update_data ''selected_region'' (PStr region) w;
                    w = set_state AdminChannelFSM_region_chat w
                in answer_built ''region_prompt'' (Reply_keyboard cancel_keyboard) w))"

text \<open>
  The selected region is whatever the session holds under \<^verbatim>\<open>selected_region\<close>.
  A value that is no string cannot be the name of a region: the upsert would
  then write a document that no lookup by region name reads, and the store of
  the model is left as it is.
\<close>

definition admin_set_region_chat :: "env \<Rightarrow> message \<Rightarrow> world \<Rightarrow> world" where
  "admin_set_region_chat e m w =
     (case require_admin e m w of
        (False, w) \<Rightarrow> state_clear w
      | (True, w) \<Rightarrow>
          (case resolve_chat_id_from_message (env_bot e) m of
             Inl err \<Rightarrow> raise err w
           | Inr (None, err) \<Rightarrow> answer (or_default err (asc ''Chat ID topilmadi.'')) No_markup w
           | Inr (Some cid, err) \<Rightarrow>
               (let region = val_get (get_data w) ''selected_region'' in
                if \<not> truthy region
                then answer (asc ''Xatolik: viloyat tanlanmadi.'') (Reply_keyboard admin_channels_keyboard)
                       (state_clear w)
                else answer_built ''region_saved'' (Reply_keyboard admin_channels_keyboard)
                       (state_clear (case region of PStr r \<Rightarrow> set_region_chat r cid w | _ \<Rightarrow> w)))))"

text \<open>
  \<^verbatim>\<open>add_mandatory_channel\<close>: the chat is looked up, an entry with the same
  identifier is dropped and the new entry is put at the end.  The title is
  that of the chat, or the identifier when the chat has none.
\<close>

definition add_mandatory_channel :: "bot \<Rightarrow> db \<Rightarrow> int \<Rightarrow> pystr + db" where
  "add_mandatory_channel b d cid =
     (case get_chat b (ById cid) of
        Inl exc \<Rightarrow> Inl (normalize_send_error exc)
      | Inr chat \<Rightarrow>
          (let entry = \<lparr>ch_chat_id = chat_id chat,
                        ch_title = or_default (chat_title chat) (str_int cid),
                        ch_username = chat_username chat\<rparr>
           in Inr (d\<lparr>mandatory_channels :=
                      filter (\<lambda>c. ch_chat_id c \<noteq> chat_id chat) (mandatory_channels d) @ [entry]\<rparr>)))"

definition remove_mandatory_channel :: "db \<Rightarrow> int \<Rightarrow> bool \<times> db" where
  "remove_mandatory_channel d cid =
     (let updated = filter (\<lambda>c. ch_chat_id c \<noteq> cid) (mandatory_channels d)
      in if length updated = length (mandatory_channels d) then (False, d)
         else (True, d\<lparr>mandatory_channels := updated\<rparr>))"

definition admin_required_add_state :: "env \<Rightarrow> message \<Rightarrow> world \<Rightarrow> world" where
  "admin_required_add_state e m w =
     (case require_admin e m w of
        (False, w) \<Rightarrow> state_clear w
      | (True, w) \<Rightarrow>
          (case resolve_chat_id_from_message (env_bot e) m of
             Inl err \<Rightarrow> raise err w
           | Inr (None, err) \<Rightarrow> answer (or_default err (asc ''Chat aniqlanmadi.'')) No_markup w
           | Inr (Some cid, err) \<Rightarrow>
               (case add_mandatory_channel (env_bot e) (w_db w) cid of
                  Inl result_text \<Rightarrow> answer_built ''add_failed'' No_markup w
                | Inr d \<Rightarrow>
                    answer_built ''channel_added'' (Reply_keyboard admin_channels_keyboard)
                      (state_clear (set_db d w)))))"

definition admin_required_remove_state :: "env \<Rightarrow> message \<Rightarrow> world \<Rightarrow> world" where
  "admin_required_remove_state e m w =
     (case require_admin e m w of
        (False, w) \<Rightarrow> state_clear w
      | (True, w) \<Rightarrow>
          (case resolve_chat_id_from_message (env_bot e) m of
             Inl err \<Rightarrow> raise err w
           | Inr (None, err) \<Rightarrow> answer (or_default err (asc ''Chat aniqlanmadi.'')) No_markup w
           | Inr (Some cid, err) \<Rightarrow>
               (case remove_mandatory_channel (w_db w) cid of
                  (False, d) \<Rightarrow>
                    answer (asc ''Berilgan kanal majburiy ro'yxatda topilmadi.'')
                      (Reply_keyboard admin_channels_keyboard) (state_clear (set_db d w))
                | (True, d) \<Rightarrow>
                    answer_built ''channel_removed'' (Reply_keyboard admin_channels_keyboard)
                      (state_clear (set_db d w)))))"

subsection \<open>Administrator commands\<close>

definition admin_pro_add_command :: "env \<Rightarrow> message \<Rightarrow> world \<Rightarrow> world" where
  "admin_pro_add_command e m w =
     (case require_admin e m w of
        (False, w) \<Rightarrow> w
      | (True, w) \<Rightarrow>
          (case split_ws (or_empty (msg_text m)) of
             [p0, p1, p2] \<Rightarrow>
               if \<not> isdigit (lstrip_minus p1) \<or> \<not> isdigit p2
               then answer (asc ''Format noto'g'ri.'') No_markup w
               else (case py_int p1 of
                       Inl err \<Rightarrow> raise err w
                     | Inr user_id \<Rightarrow>
                    (case py_int p2 of
                       Inl err \<Rightarrow> raise err w
                     | Inr days \<Rightarrow>
                         if days \<le> 0 then answer (asc ''Kun soni 0 dan katta bo'lishi kerak.'') No_markup w
                         else (case apply_pro (w_db w) (env_now e) user_id days of
                                 Inl err \<Rightarrow> raise err w
                               | Inr (None, d) \<Rightarrow> answer (asc ''Foydalanuvchi topilmadi.'') No_markup w
                               | Inr (Some new_until, d) \<Rightarrow>
                                   answer_built ''pro_added'' No_markup (set_db d w))))
           | _ \<Rightarrow> answer (asc ''Format: <code>/pro_add user_id kun</code>'') No_markup w))"

definition admin_pro_remove_command :: "env \<Rightarrow> message \<Rightarrow> world \<Rightarrow> world" where
  "admin_pro_remove_command e m w =
     (case require_admin e m w of
        (False, w) \<Rightarrow> w
      | (True, w) \<Rightarrow>
          (case split_ws (or_empty (msg_text m)) of
             [p0, p1] \<Rightarrow>
               if \<not> isdigit (lstrip_minus p1)
               then answer (asc ''Format: <code>/pro_remove user_id</code>'') No_markup w
               else (case py_int p1 of
                       Inl err \<Rightarrow> raise err w
                     | Inr user_id \<Rightarrow>
                         (case remove_pro (w_db w) (env_now e) user_id of
                            (False, d) \<Rightarrow> answer (asc ''Foydalanuvchi topilmadi.'') No_markup w
                          | (True, d) \<Rightarrow> answer_built ''pro_removed'' No_markup (set_db d w)))
           | _ \<Rightarrow> answer (asc ''Format: <code>/pro_remove user_id</code>'') No_markup w))"

definition admin_set_catalog_command :: "env \<Rightarrow> message \<Rightarrow> world \<Rightarrow> world" where
  "admin_set_catalog_command e m w =
     (case require_admin e m w of
        (False, w) \<Rightarrow> w
      | (True, w) \<Rightarrow>
          (case split_ws (or_empty (msg_text m)) of
             [p0, p1] \<Rightarrow>
               (case resolve_chat_id_from_text (env_bot e) p1 of
                  Inl err \<Rightarrow> raise err w
                | Inr ((None, err), lookups) \<Rightarrow>
                    answer (or_default err (asc ''Chat ID noto'g'ri.'')) No_markup w
                | Inr ((Some cid, err), lookups) \<Rightarrow>
                    answer_built ''catalog_saved'' No_markup (set_catalog_chat cid w))
           | _ \<Rightarrow> answer (asc ''Format:'' @ [10, 8226] @ asc '' <code>/set_catalog -1001234567890</code>'' @ [10, 8226] @ asc '' <code>/set_catalog @kanal_username</code>'' @ [10, 8226] @ asc '' <code>/set_catalog https://t.me/kanal_username</code>'') No_markup w))"

definition admin_set_region_command :: "env \<Rightarrow> message \<Rightarrow> world \<Rightarrow> world" where
  "admin_set_region_command e m w =
     (case require_admin e m w of
        (False, w) \<Rightarrow> w
      | (True, w) \<Rightarrow>
          (let parts = split_ws (or_empty (msg_text m)) in
           if length parts < 3 then answer (asc ''Format:'' @ [10, 8226] @ asc '' <code>/set_region Toshkent -1001234567890</code>'' @ [10, 8226] @ asc '' <code>/set_region Toshkent @toshkent_group</code>'' @ [10, 8226] @ asc '' <code>/set_region Toshkent https://t.me/toshkent_group</code>'') No_markup w
           else (case resolve_chat_id_from_text (env_bot e) (last parts) of
                   Inl err \<Rightarrow> raise err w
                 | Inr ((None, err), lookups) \<Rightarrow>
                     answer (or_default err (asc ''Chat ID noto'g'ri.'')) No_markup w
                 | Inr ((Some cid, err), lookups) \<Rightarrow>
                     (case normalize_region
                             (map (\<lambda>c. if c = 95 then 32 else c)
                                (join_with [32] (butlast (tl parts)))) of
                        None \<Rightarrow> answer_built ''bad_region'' No_markup w
                      | Some region \<Rightarrow>
                          if region = [] then answer_built ''bad_region'' No_markup w
                          else answer_built ''region_saved'' No_markup (set_region_chat region cid w)))))"

text \<open>
  The two \<^verbatim>\<open>..._here\<close> commands are meant for a channel or a group; every
  handler is registered for private chats only, so they always answer with
  the hint.
\<close>

definition admin_set_catalog_here :: "env \<Rightarrow> message \<Rightarrow> world \<Rightarrow> world" where
  "admin_set_catalog_here e m w =
     (case require_admin e m w of
        (False, w) \<Rightarrow> w
      | (True, w) \<Rightarrow> answer (asc ''Bu buyruqni katalog kanal/guruh ichida yuboring.'') No_markup w)"

definition admin_set_region_here :: "env \<Rightarrow> message \<Rightarrow> world \<Rightarrow> world" where
  "admin_set_region_here e m w =
     (case require_admin e m w of
        (False, w) \<Rightarrow> w
      | (True, w) \<Rightarrow> answer (asc ''Bu buyruqni viloyat kanal/guruh ichida yuboring.'' @ [10] @ asc ''Format: <code>/set_region_here Toshkent</code>'') No_markup w)"

definition cmd_chat_id :: "env \<Rightarrow> message \<Rightarrow> world \<Rightarrow> world" where
  "cmd_chat_id e m w = answer_built ''chat_info'' No_markup w"

definition fallback :: "env \<Rightarrow> message \<Rightarrow> world \<Rightarrow> world" where
  "fallback e m w =
     (if starts_with [47] (or_empty (msg_text m))
      then answer (asc ''Buyruq topilmadi. Menyudan foydalaning yoki /start ni bosing.'') No_markup w
      else open_main_menu e m (asc ''Kerakli bo'limni menyudan tanlang.'') w)"


subsection \<open>Dispatch\<close>

text \<open>
  The outer middleware replaces the text of a message by its canonical form
  before any filter sees it.
\<close>

definition canonicalize_input :: "message \<Rightarrow> message" where
  "canonicalize_input m =
     (if or_empty (msg_text m) \<noteq> [] then m\<lparr>msg_text := Some (canonicalize_user_text (msg_text m))\<rparr>
      else m)"

text \<open>
  The \<^verbatim>\<open>Command\<close> filter of the framework: the first word of the text starts
  with a slash and names the command, optionally followed by \<^verbatim>\<open>@\<close> and the user
  name of the bot.
\<close>

definition command_of :: "env \<Rightarrow> message \<Rightarrow> pystr option" where
  "command_of e m =
     (case split_ws (or_empty (msg_text m)) of
        [] \<Rightarrow> None
      | full # args \<Rightarrow>
          (case full of
             [] \<Rightarrow> None
           | c # rest \<Rightarrow>
               if c \<noteq> 47 then None
               else (let cmd = takeWhile (\<lambda>x. x \<noteq> 64) rest;
                         mention = drop (length cmd + 1) rest
                     in if mention \<noteq> [] \<and> lower mention \<noteq> lower (env_bot_username e) then None
                        else Some cmd)))"

definition is_command :: "env \<Rightarrow> string \<Rightarrow> message \<Rightarrow> bool" where
  "is_command e name m = (command_of e m = Some (asc name))"

text \<open>The handler that the source registers for a state of a flow.\<close>

fun step_handler :: "fsm_state \<Rightarrow> env \<Rightarrow> message \<Rightarrow> world \<Rightarrow> world" where
  "step_handler RegistrationFSM_first_name = reg_first_name"
| "step_handler RegistrationFSM_last_name = reg_last_name"
| "step_handler RegistrationFSM_phone = reg_phone"
| "step_handler RegistrationFSM_role = reg_role"
| "step_handler LanguageFSM_select = select_language"
| "step_handler DriverFSM_car_type = driver_car_type"
| "step_handler DriverFSM_capacity_ton = driver_capacity"
| "step_handler DriverFSM_volume_m3 = driver_volume"
| "step_handler DriverFSM_routes = driver_routes"
| "step_handler DriverFSM_price_per_km = driver_price"
| "step_handler DriverFSM_note = driver_note"
| "step_handler CargoFSM_from_region = cargo_from_region"
| "step_handler CargoFSM_to_region = cargo_to_region"
| "step_handler CargoFSM_cargo_type = cargo_type_step"
| "step_handler CargoFSM_weight_ton = cargo_weight"
| "step_handler CargoFSM_volume_m3 = cargo_volume"
| "step_handler CargoFSM_price = cargo_price"
| "step_handler CargoFSM_load_date = cargo_load_date"
| "step_handler CargoFSM_payment_type = cargo_payment"
| "step_handler CargoFSM_comment = cargo_comment"
| "step_handler CargoFSM_confirm = cargo_confirm"
| "step_handler SettingsFSM_role = settings_change_role"
| "step_handler AdminBroadcastFSM_audience = admin_broadcast_audience"
| "step_handler AdminBroadcastFSM_content = admin_broadcast_content"
| "step_handler AdminProFSM_add = admin_pro_add_state"
| "step_handler AdminProFSM_remove = admin_pro_remove_state"
| "step_handler AdminChannelFSM_catalog_chat = admin_set_catalog_chat"
| "step_handler AdminChannelFSM_region_select = admin_select_region"
| "step_handler AdminChannelFSM_region_chat = admin_set_region_chat"
| "step_handler AdminChannelFSM_required_add = admin_required_add_state"
| "step_handler AdminChannelFSM_required_remove = admin_required_remove_state"

text \<open>
  The handlers registered with \<^verbatim>\<open>StateFilter(None)\<close> and the commands without a
  state filter, in the order of their registration.  The state handlers of
  the flows are all registered before the first command without a state
  filter, so these are reached without a state only.
\<close>

definition dispatch_idle :: "env \<Rightarrow> message \<Rightarrow> world \<Rightarrow> world" where
  "dispatch_idle e m w =
     (let t = msg_text m in
      if t = Some BTN_MENU_PROFILE \<or> is_command e ''profil'' m then show_profile e m w
      else if t = Some BTN_MENU_ANALYSIS \<or> is_command e ''tahlil'' m then show_profile_analysis e m w
      else if t = Some BTN_MENU_STATS \<or> is_command e ''statistika'' m then show_stats e m w
      else if t = Some BTN_MENU_CARGO \<or> is_command e ''yuk'' m then menu_cargo e m w
      else if t = Some BTN_MENU_DRIVER then menu_driver e m w
      else if t = Some BTN_MENU_PRO then menu_pro e m w
      else if t = Some BTN_MENU_NEWS then menu_news e m w
      else if t = Some BTN_MENU_CONTACT then menu_contact e m w
      else if t = Some BTN_MENU_SETTINGS then menu_settings e m w
      else if t = Some BTN_SETTINGS_ROLE then settings_role_start e m w
      else if t = Some BTN_SETTINGS_LANG then settings_lang_start e m w
      else if is_command e ''lang'' m then cmd_lang e m w
      else if t = Some BTN_BACK_MAIN then back_to_main e m w
      else if t = Some BTN_ADMIN_PANEL \<or> is_command e ''admin'' m then admin_panel e m w
      else if t = Some BTN_ADMIN_STATS then admin_stats e m w
      else if t = Some BTN_ADMIN_USERS then admin_users e m w
      else if t = Some BTN_BROADCAST then admin_broadcast_start e m w
      else if t = Some BTN_ADMIN_PRO then admin_pro_menu e m w
      else if t = Some BTN_PRO_ADD then admin_pro_add_start e m w
      else if t = Some BTN_PRO_REMOVE then admin_pro_remove_start e m w
      else if t = Some BTN_ADMIN_CHANNELS then admin_channels_menu e m w
      else if t = Some BTN_CH_SET_CATALOG then admin_catalog_start e m w
      else if t = Some BTN_CH_SET_REGION then admin_region_start e m w
      else if t = Some BTN_CH_LIST then admin_channels_list e m w
      else if t = Some BTN_REQ_ADD then admin_required_add_start e m w
      else if t = Some BTN_REQ_REMOVE then admin_required_remove_start e m w
      else if t = Some BTN_REQ_LIST then admin_required_list e m w
      else if t = Some BTN_ADMIN_GUIDE \<or> is_command e ''admin_help'' m then admin_help e m w
      else if t = Some BTN_BACK_ADMIN then back_to_admin e m w
      else if is_command e ''pro_add'' m then admin_pro_add_command e m w
      else if is_command e ''pro_remove'' m then admin_pro_remove_command e m w
      else if is_command e ''set_catalog'' m then admin_set_catalog_command e m w
      else if is_command e ''set_region'' m then admin_set_region_command e m w
      else if is_command e ''set_catalog_here'' m then admin_set_catalog_here e m w
      else if is_command e ''set_region_here'' m then admin_set_region_here e m w
      else if is_command e ''chat_id'' m then cmd_chat_id e m w
      else fallback e m w)"

text \<open>
  One message of a private chat, from the middleware to the handler.  The
  framework calls the first registered handler whose filters accept the
  message: \<^verbatim>\<open>cmd_start\<close>, then \<^verbatim>\<open>select_language\<close>, then \<^verbatim>\<open>cancel_flow\<close>, then
  \<^verbatim>\<open>menu_interrupt_handler\<close>, then the handlers of the states and of the idle
  session.  \<^verbatim>\<open>cmd_start\<close> is outside the model, and \<open>None\<close> stands for it.
\<close>

definition handle_message :: "env \<Rightarrow> message \<Rightarrow> world \<Rightarrow> world option" where
  "handle_message e m0 w =
     (let m = canonicalize_input m0 in
      if is_command e ''start'' m then None
      else if sess_state (w_sess w) = Some LanguageFSM_select then Some (select_language e m w)
      else if msg_text m = Some BTN_CANCEL \<or> is_command e ''cancel'' m then Some (cancel_flow e m w)
      else if canonicalize_user_text (msg_text m) \<in> set MENU_INTERRUPT_BUTTONS
      then Some (menu_interrupt_handler e m w)
      else (case sess_state (w_sess w) of
              Some st \<Rightarrow> Some (step_handler st e m w)
            | None \<Rightarrow> Some (dispatch_idle e m w)))"


subsection \<open>Conversations\<close>

text \<open>
  A message that the handler of the current step receives: it is not
  \<^verbatim>\<open>/start\<close>, not the cancel token or \<^verbatim>\<open>/cancel\<close>, and not a menu interrupt token.
\<close>

definition plain_input :: "env \<Rightarrow> message \<Rightarrow> bool" where
  "plain_input e m0 =
     (let m = canonicalize_input m0 in
      \<not> is_command e ''start'' m \<and> msg_text m \<noteq> Some BTN_CANCEL \<and> \<not> is_command e ''cancel'' m
      \<and> canonicalize_user_text (msg_text m) \<notin> set MENU_INTERRUPT_BUTTONS)"

text \<open>The messages of one user, handled one after the other.\<close>

fun run :: "env \<Rightarrow> message list \<Rightarrow> world \<Rightarrow> world option" where
  "run e [] w = Some w"
| "run e (m # ms) w = (case handle_message e m w of None \<Rightarrow> None | Some w' \<Rightarrow> run e ms w')"



section \<open>Sample data\<close>

text \<open>Concrete inputs, at which the theorems below are instantiated.\<close>

definition sample_user :: user_doc where
  "sample_user = \<lparr>username = None, tg_first_name = Some (asc ''Ali''), tg_last_name = None,
     first_name = PStr (asc ''Ali''), last_name = PStr (asc ''Valiyev''),
     phone = PStr (asc ''+998901234567''), role = Some (asc ''shipper''), profile_completed = True,
     driver_profile = [], pro_until = Some (10 * DAY), lang = Some (asc ''uz''),
     created_at = 0, updated_at = 0\<rparr>"

definition sample_db :: db where
  "sample_db = \<lparr>users = [(1, sample_user)], cargo_posts = [], catalog_chat = Some (- 1003),
     mandatory_channels = [],
     region_channels = [(asc ''Andijon'', Some (- 1001)), (asc ''Toshkent'', Some (- 1002)),
                        (asc ''Buxoro'', None)],
     admins = []\<rparr>"


definition sample_bot :: bot where
  "sample_bot = \<lparr>get_me = Inr 7, me_username = Some (asc ''logistik_bot''),
     get_chat = (\<lambda>r. Inl (asc ''Bad Request: chat not found'')),
     get_chat_member = (\<lambda>c u. Inl (asc ''Bad Request: chat not found'')),
     send_message = (\<lambda>c. if c = - 1001 then Inr () else Inl (asc ''Forbidden: bot was blocked'')),
     copy_to = (\<lambda>c. if c = 3 then Inl (asc ''Forbidden: bot was blocked by the user'') else Inr ())\<rparr>"

definition sample_tg_user :: tg_user where
  "sample_tg_user = \<lparr>tg_id = 1, tg_username = None, tg_first = Some (asc ''Ali''), tg_last = None\<rparr>"

definition sample_message :: "pystr \<Rightarrow> message" where
  "sample_message t = \<lparr>msg_text = Some t, msg_from = Some sample_tg_user, msg_contact_phone = None,
     msg_forward_from_chat = None, msg_forward_origin_chat = None,
     msg_forward_origin_sender_chat = None, msg_sender_chat = None\<rparr>"

text \<open>
  The part of \<^verbatim>\<open>float\<close> that the samples use: the strings \<^verbatim>\<open>20\<close> and \<^verbatim>\<open>86\<close>; the
  samples give it no other string.
\<close>

definition sample_float :: "pystr \<Rightarrow> pyfloat option" where
  "sample_float s =
     (if s = asc ''20'' then Some (Finite 20) else if s = asc ''86'' then Some (Finite 86) else None)"

definition sample_env :: env where
  "sample_env = \<lparr>env_admin_ids = [9], env_now = 5 * DAY, env_bot = sample_bot,
     env_float = sample_float, env_news_channel = asc ''@logistika_news'',
     env_bot_username = asc ''logistik_bot''\<rparr>"

definition sample_world :: world where
  "sample_world = \<lparr>w_db = sample_db, w_sess = \<lparr>sess_state = None, sess_data = []\<rparr>, w_out = [],
     w_raised = None, w_bot_username_cache = None\<rparr>"

text \<open>A session at the confirmation step of the cargo flow.\<close>

definition sample_confirm_world :: world where
  "sample_confirm_world = sample_world\<lparr>w_sess :=
     \<lparr>sess_state = Some CargoFSM_confirm,
      sess_data = [(''from_region'', PStr REGION_ANDIJON), (''to_region'', PStr REGION_TOSHKENT)]\<rparr>\<rparr>"

text \<open>Five users: the drivers 2, 3 and 5, and two that are not drivers.\<close>

definition sample_users :: "(int, user_doc) dict" where
  "sample_users =
     [(1, sample_user),
      (2, sample_user\<lparr>role := Some ROLE_DRIVER\<rparr>),
      (3, sample_user\<lparr>role := Some ROLE_DRIVER\<rparr>),
      (4, sample_user\<lparr>role := None\<rparr>),
      (5, sample_user\<lparr>role := Some ROLE_DRIVER\<rparr>)]"

text \<open>An administrator's session at the content step of a broadcast to the drivers.\<close>

definition sample_broadcast_world :: world where
  "sample_broadcast_world = sample_world\<lparr>
     w_db := sample_db\<lparr>users := sample_users\<rparr>,
     w_sess := \<lparr>sess_state = Some AdminBroadcastFSM_content,
                sess_data = [(''audience'', PStr (asc ''drivers''))]\<rparr>\<rparr>"

text \<open>A session at the selection of the language.\<close>

definition sample_language_world :: world where
  "sample_language_world = sample_world\<lparr>w_sess :=
     \<lparr>sess_state = Some LanguageFSM_select, sess_data = []\<rparr>\<rparr>"

section \<open>Theorems\<close>

lemma dict_get_set_same: "dict_get (dict_set d k v) k = Some v"
  by (induction d) auto

lemma dict_get_set_other: "k' \<noteq> k \<Longrightarrow> dict_get (dict_set d k v) k' = dict_get d k'"
  by (induction d) auto

subsection \<open>Localization\<close>

text \<open>
  Two labels with different sums of code points are different; this decides
  every comparison of two named labels without unfolding them.
\<close>

lemmas label_defs =
  ROLE_DRIVER_def ROLE_SHIPPER_def LANG_UZ_def LANG_RU_def
  LANG_SELECT_UZ_def LANG_SELECT_RU_def BTN_CANCEL_def BTN_BACK_MAIN_def
  BTN_BACK_ADMIN_def BTN_SKIP_def BTN_ADMIN_PANEL_def BTN_BROADCAST_def
  BTN_ADMIN_STATS_def BTN_ADMIN_USERS_def BTN_ADMIN_PRO_def BTN_ADMIN_CHANNELS_def
  BTN_ADMIN_GUIDE_def BTN_PRO_ADD_def BTN_PRO_REMOVE_def BTN_CH_SET_CATALOG_def
  BTN_CH_SET_REGION_def BTN_CH_LIST_def BTN_REQ_ADD_def BTN_REQ_REMOVE_def
  BTN_REQ_LIST_def BTN_BC_ALL_def BTN_BC_DRIVERS_def BTN_BC_SHIPPERS_def
  BTN_BC_PRO_def BTN_MENU_CARGO_def BTN_MENU_DRIVER_def BTN_MENU_PROFILE_def
  BTN_MENU_ANALYSIS_def BTN_MENU_STATS_def BTN_MENU_PRO_def BTN_MENU_NEWS_def
  BTN_MENU_CONTACT_def BTN_MENU_SETTINGS_def BTN_SETTINGS_ROLE_def BTN_SETTINGS_LANG_def
  BTN_CARGO_CONFIRM_def BTN_CARGO_EDIT_def BTN_SEND_PHONE_def ROLE_LABEL_DRIVER_def
  ROLE_LABEL_SHIPPER_def ROLE_LABEL_DRIVER_RU_def ROLE_LABEL_SHIPPER_RU_def PAYMENT_CASH_def
  PAYMENT_CARD_def PAYMENT_TRANSFER_def PAYMENT_CASH_RU_def PAYMENT_CARD_RU_def
  PAYMENT_TRANSFER_RU_def REGION_ANDIJON_def REGION_BUXORO_def REGION_FARGONA_def
  REGION_JIZZAX_def REGION_NAMANGAN_def REGION_NAVOIY_def REGION_QASHQADARYO_def
  REGION_SAMARQAND_def REGION_SIRDARYO_def REGION_SURXONDARYO_def REGION_TOSHKENT_def
  REGION_XORAZM_def RU_BTN_CANCEL_def RU_BTN_BACK_MAIN_def RU_BTN_BACK_ADMIN_def
  RU_BTN_SKIP_def RU_BTN_ADMIN_PANEL_def RU_BTN_BROADCAST_def RU_BTN_ADMIN_STATS_def
  RU_BTN_ADMIN_USERS_def RU_BTN_ADMIN_PRO_def RU_BTN_ADMIN_CHANNELS_def RU_BTN_ADMIN_GUIDE_def
  RU_BTN_PRO_ADD_def RU_BTN_PRO_REMOVE_def RU_BTN_CH_SET_CATALOG_def RU_BTN_CH_SET_REGION_def
  RU_BTN_CH_LIST_def RU_BTN_REQ_ADD_def RU_BTN_REQ_REMOVE_def RU_BTN_REQ_LIST_def
  RU_BTN_BC_ALL_def RU_BTN_BC_DRIVERS_def RU_BTN_BC_SHIPPERS_def RU_BTN_BC_PRO_def
  RU_BTN_MENU_CARGO_def RU_BTN_MENU_DRIVER_def RU_BTN_MENU_PROFILE_def RU_BTN_MENU_ANALYSIS_def
  RU_BTN_MENU_STATS_def RU_BTN_MENU_PRO_def RU_BTN_MENU_NEWS_def RU_BTN_MENU_CONTACT_def
  RU_BTN_MENU_SETTINGS_def RU_BTN_SETTINGS_ROLE_def RU_BTN_SETTINGS_LANG_def RU_BTN_CARGO_CONFIRM_def
  RU_BTN_CARGO_EDIT_def RU_BTN_SEND_PHONE_def

lemma label_sums:
  "sum_list ROLE_DRIVER = 652"
  "sum_list ROLE_SHIPPER = 763"
  "sum_list LANG_UZ = 239"
  "sum_list LANG_RU = 231"
  "sum_list LANG_SELECT_UZ = 255847"
  "sum_list LANG_SELECT_RU = 262561"
  "sum_list BTN_CANCEL = 11273"
  "sum_list BTN_BACK_MAIN = 77306"
  "sum_list BTN_BACK_ADMIN = 129362"
  "sum_list BTN_SKIP = 10909"
  "sum_list BTN_ADMIN_PANEL = 129817"
  "sum_list BTN_BROADCAST = 129654"
  "sum_list BTN_ADMIN_STATS = 130100"
  "sum_list BTN_ADMIN_USERS = 129911"
  "sum_list BTN_ADMIN_PRO = 129603"
  "sum_list BTN_ADMIN_CHANNELS = 129653"
  "sum_list BTN_ADMIN_GUIDE = 129799"
  "sum_list BTN_PRO_ADD = 11308"
  "sum_list BTN_PRO_REMOVE = 11399"
  "sum_list BTN_CH_SET_CATALOG = 129578"
  "sum_list BTN_CH_SET_REGION = 129903"
  "sum_list BTN_CH_LIST = 129712"
  "sum_list BTN_REQ_ADD = 12389"
  "sum_list BTN_REQ_REMOVE = 12480"
  "sum_list BTN_REQ_LIST = 129941"
  "sum_list BTN_BC_ALL = 128910"
  "sum_list BTN_BC_DRIVERS = 130145"
  "sum_list BTN_BC_SHIPPERS = 129982"
  "sum_list BTN_BC_PRO = 130419"
  "sum_list BTN_MENU_CARGO = 129369"
  "sum_list BTN_MENU_DRIVER = 130506"
  "sum_list BTN_MENU_PROFILE = 128966"
  "sum_list BTN_MENU_ANALYSIS = 130931"
  "sum_list BTN_MENU_STATS = 129291"
  "sum_list BTN_MENU_PRO = 129045"
  "sum_list BTN_MENU_NEWS = 129402"
  "sum_list BTN_MENU_CONTACT = 75771"
  "sum_list BTN_MENU_SETTINGS = 75998"
  "sum_list BTN_SETTINGS_ROLE = 130129"
  "sum_list BTN_SETTINGS_LANG = 129625"
  "sum_list BTN_CARGO_CONFIRM = 11980"
  "sum_list BTN_CARGO_EDIT = 76112"
  "sum_list BTN_SEND_PHONE = 129689"
  "sum_list ROLE_LABEL_DRIVER = 129626"
  "sum_list ROLE_LABEL_SHIPPER = 129463"
  "sum_list ROLE_LABEL_DRIVER_RU = 137333"
  "sum_list ROLE_LABEL_SHIPPER_RU = 145576"
  "sum_list PAYMENT_CASH = 128601"
  "sum_list PAYMENT_CARD = 128710"
  "sum_list PAYMENT_TRANSFER = 128772"
  "sum_list PAYMENT_CASH_RU = 136857"
  "sum_list PAYMENT_CARD_RU = 133583"
  "sum_list PAYMENT_TRANSFER_RU = 135539"
  "sum_list REGION_ANDIJON = 707"
  "sum_list REGION_BUXORO = 639"
  "sum_list REGION_FARGONA = 741"
  "sum_list REGION_JIZZAX = 640"
  "sum_list REGION_NAMANGAN = 801"
  "sum_list REGION_NAVOIY = 630"
  "sum_list REGION_QASHQADARYO = 1150"
  "sum_list REGION_SAMARQAND = 920"
  "sum_list REGION_SIRDARYO = 845"
  "sum_list REGION_SURXONDARYO = 1198"
  "sum_list REGION_TOSHKENT = 848"
  "sum_list REGION_XORAZM = 641"
  "sum_list RU_BTN_CANCEL = 16554"
  "sum_list RU_BTN_BACK_MAIN = 87984"
  "sum_list RU_BTN_BACK_ADMIN = 140214"
  "sum_list RU_BTN_SKIP = 20085"
  "sum_list RU_BTN_ADMIN_PANEL = 140669"
  "sum_list RU_BTN_BROADCAST = 136901"
  "sum_list RU_BTN_ADMIN_STATS = 148837"
  "sum_list RU_BTN_ADMIN_USERS = 141200"
  "sum_list RU_BTN_ADMIN_PRO = 139293"
  "sum_list RU_BTN_ADMIN_CHANNELS = 150566"
  "sum_list RU_BTN_ADMIN_GUIDE = 145599"
  "sum_list RU_BTN_PRO_ADD = 19121"
  "sum_list RU_BTN_PRO_REMOVE = 18063"
  "sum_list RU_BTN_CH_SET_CATALOG = 137055"
  "sum_list RU_BTN_CH_SET_REGION = 138489"
  "sum_list RU_BTN_CH_LIST = 145625"
  "sum_list RU_BTN_REQ_ADD = 37270"
  "sum_list RU_BTN_REQ_REMOVE = 36212"
  "sum_list RU_BTN_REQ_LIST = 147753"
  "sum_list RU_BTN_BC_ALL = 132425"
  "sum_list RU_BTN_BC_DRIVERS = 138420"
  "sum_list RU_BTN_BC_SHIPPERS = 146663"
  "sum_list RU_BTN_BC_PRO = 142615"
  "sum_list RU_BTN_MENU_CARGO = 143444"
  "sum_list RU_BTN_MENU_DRIVER = 143846"
  "sum_list RU_BTN_MENU_PROFILE = 138999"
  "sum_list RU_BTN_MENU_ANALYSIS = 143626"
  "sum_list RU_BTN_MENU_STATS = 139036"
  "sum_list RU_BTN_MENU_PRO = 133933"
  "sum_list RU_BTN_MENU_NEWS = 135817"
  "sum_list RU_BTN_MENU_CONTACT = 80226"
  "sum_list RU_BTN_MENU_SETTINGS = 84673"
  "sum_list RU_BTN_SETTINGS_ROLE = 140254"
  "sum_list RU_BTN_SETTINGS_LANG = 139760"
  "sum_list RU_BTN_CARGO_CONFIRM = 27421"
  "sum_list RU_BTN_CARGO_EDIT = 83713"
  "sum_list RU_BTN_SEND_PHONE = 143461"
  by (simp_all add: label_defs asc_def)

lemma label_strip:
  "strip ROLE_DRIVER = ROLE_DRIVER"
  "strip ROLE_SHIPPER = ROLE_SHIPPER"
  "strip LANG_UZ = LANG_UZ"
  "strip LANG_RU = LANG_RU"
  "strip LANG_SELECT_UZ = LANG_SELECT_UZ"
  "strip LANG_SELECT_RU = LANG_SELECT_RU"
  "strip BTN_CANCEL = BTN_CANCEL"
  "strip BTN_BACK_MAIN = BTN_BACK_MAIN"
  "strip BTN_BACK_ADMIN = BTN_BACK_ADMIN"
  "strip BTN_SKIP = BTN_SKIP"
  "strip BTN_ADMIN_PANEL = BTN_ADMIN_PANEL"
  "strip BTN_BROADCAST = BTN_BROADCAST"
  "strip BTN_ADMIN_STATS = BTN_ADMIN_STATS"
  "strip BTN_ADMIN_USERS = BTN_ADMIN_USERS"
  "strip BTN_ADMIN_PRO = BTN_ADMIN_PRO"
  "strip BTN_ADMIN_CHANNELS = BTN_ADMIN_CHANNELS"
  "strip BTN_ADMIN_GUIDE = BTN_ADMIN_GUIDE"
  "strip BTN_PRO_ADD = BTN_PRO_ADD"
  "strip BTN_PRO_REMOVE = BTN_PRO_REMOVE"
  "strip BTN_CH_SET_CATALOG = BTN_CH_SET_CATALOG"
  "strip BTN_CH_SET_REGION = BTN_CH_SET_REGION"
  "strip BTN_CH_LIST = BTN_CH_LIST"
  "strip BTN_REQ_ADD = BTN_REQ_ADD"
  "strip BTN_REQ_REMOVE = BTN_REQ_REMOVE"
  "strip BTN_REQ_LIST = BTN_REQ_LIST"
  "strip BTN_BC_ALL = BTN_BC_ALL"
  "strip BTN_BC_DRIVERS = BTN_BC_DRIVERS"
  "strip BTN_BC_SHIPPERS = BTN_BC_SHIPPERS"
  "strip BTN_BC_PRO = BTN_BC_PRO"
  "strip BTN_MENU_CARGO = BTN_MENU_CARGO"
  "strip BTN_MENU_DRIVER = BTN_MENU_DRIVER"
  "strip BTN_MENU_PROFILE = BTN_MENU_PROFILE"
  "strip BTN_MENU_ANALYSIS = BTN_MENU_ANALYSIS"
  "strip BTN_MENU_STATS = BTN_MENU_STATS"
  "strip BTN_MENU_PRO = BTN_MENU_PRO"
  "strip BTN_MENU_NEWS = BTN_MENU_NEWS"
  "strip BTN_MENU_CONTACT = BTN_MENU_CONTACT"
  "strip BTN_MENU_SETTINGS = BTN_MENU_SETTINGS"
  "strip BTN_SETTINGS_ROLE = BTN_SETTINGS_ROLE"
  "strip BTN_SETTINGS_LANG = BTN_SETTINGS_LANG"
  "strip BTN_CARGO_CONFIRM = BTN_CARGO_CONFIRM"
  "strip BTN_CARGO_EDIT = BTN_CARGO_EDIT"
  "strip BTN_SEND_PHONE = BTN_SEND_PHONE"
  "strip ROLE_LABEL_DRIVER = ROLE_LABEL_DRIVER"
  "strip ROLE_LABEL_SHIPPER = ROLE_LABEL_SHIPPER"
  "strip ROLE_LABEL_DRIVER_RU = ROLE_LABEL_DRIVER_RU"
  "strip ROLE_LABEL_SHIPPER_RU = ROLE_LABEL_SHIPPER_RU"
  "strip PAYMENT_CASH = PAYMENT_CASH"
  "strip PAYMENT_CARD = PAYMENT_CARD"
  "strip PAYMENT_TRANSFER = PAYMENT_TRANSFER"
  "strip PAYMENT_CASH_RU = PAYMENT_CASH_RU"
  "strip PAYMENT_CARD_RU = PAYMENT_CARD_RU"
  "strip PAYMENT_TRANSFER_RU = PAYMENT_TRANSFER_RU"
  "strip REGION_ANDIJON = REGION_ANDIJON"
  "strip REGION_BUXORO = REGION_BUXORO"
  "strip REGION_FARGONA = REGION_FARGONA"
  "strip REGION_JIZZAX = REGION_JIZZAX"
  "strip REGION_NAMANGAN = REGION_NAMANGAN"
  "strip REGION_NAVOIY = REGION_NAVOIY"
  "strip REGION_QASHQADARYO = REGION_QASHQADARYO"
  "strip REGION_SAMARQAND = REGION_SAMARQAND"
  "strip REGION_SIRDARYO = REGION_SIRDARYO"
  "strip REGION_SURXONDARYO = REGION_SURXONDARYO"
  "strip REGION_TOSHKENT = REGION_TOSHKENT"
  "strip REGION_XORAZM = REGION_XORAZM"
  "strip RU_BTN_CANCEL = RU_BTN_CANCEL"
  "strip RU_BTN_BACK_MAIN = RU_BTN_BACK_MAIN"
  "strip RU_BTN_BACK_ADMIN = RU_BTN_BACK_ADMIN"
  "strip RU_BTN_SKIP = RU_BTN_SKIP"
  "strip RU_BTN_ADMIN_PANEL = RU_BTN_ADMIN_PANEL"
  "strip RU_BTN_BROADCAST = RU_BTN_BROADCAST"
  "strip RU_BTN_ADMIN_STATS = RU_BTN_ADMIN_STATS"
  "strip RU_BTN_ADMIN_USERS = RU_BTN_ADMIN_USERS"
  "strip RU_BTN_ADMIN_PRO = RU_BTN_ADMIN_PRO"
  "strip RU_BTN_ADMIN_CHANNELS = RU_BTN_ADMIN_CHANNELS"
  "strip RU_BTN_ADMIN_GUIDE = RU_BTN_ADMIN_GUIDE"
  "strip RU_BTN_PRO_ADD = RU_BTN_PRO_ADD"
  "strip RU_BTN_PRO_REMOVE = RU_BTN_PRO_REMOVE"
  "strip RU_BTN_CH_SET_CATALOG = RU_BTN_CH_SET_CATALOG"
  "strip RU_BTN_CH_SET_REGION = RU_BTN_CH_SET_REGION"
  "strip RU_BTN_CH_LIST = RU_BTN_CH_LIST"
  "strip RU_BTN_REQ_ADD = RU_BTN_REQ_ADD"
  "strip RU_BTN_REQ_REMOVE = RU_BTN_REQ_REMOVE"
  "strip RU_BTN_REQ_LIST = RU_BTN_REQ_LIST"
  "strip RU_BTN_BC_ALL = RU_BTN_BC_ALL"
  "strip RU_BTN_BC_DRIVERS = RU_BTN_BC_DRIVERS"
  "strip RU_BTN_BC_SHIPPERS = RU_BTN_BC_SHIPPERS"
  "strip RU_BTN_BC_PRO = RU_BTN_BC_PRO"
  "strip RU_BTN_MENU_CARGO = RU_BTN_MENU_CARGO"
  "strip RU_BTN_MENU_DRIVER = RU_BTN_MENU_DRIVER"
  "strip RU_BTN_MENU_PROFILE = RU_BTN_MENU_PROFILE"
  "strip RU_BTN_MENU_ANALYSIS = RU_BTN_MENU_ANALYSIS"
  "strip RU_BTN_MENU_STATS = RU_BTN_MENU_STATS"
  "strip RU_BTN_MENU_PRO = RU_BTN_MENU_PRO"
  "strip RU_BTN_MENU_NEWS = RU_BTN_MENU_NEWS"
  "strip RU_BTN_MENU_CONTACT = RU_BTN_MENU_CONTACT"
  "strip RU_BTN_MENU_SETTINGS = RU_BTN_MENU_SETTINGS"
  "strip RU_BTN_SETTINGS_ROLE = RU_BTN_SETTINGS_ROLE"
  "strip RU_BTN_SETTINGS_LANG = RU_BTN_SETTINGS_LANG"
  "strip RU_BTN_CARGO_CONFIRM = RU_BTN_CARGO_CONFIRM"
  "strip RU_BTN_CARGO_EDIT = RU_BTN_CARGO_EDIT"
  "strip RU_BTN_SEND_PHONE = RU_BTN_SEND_PHONE"
  by (simp_all add: label_defs asc_def strip_def lstrip_def rstrip_def is_space_def)

lemma neq_by_sum: "sum_list a \<noteq> sum_list b \<Longrightarrow> (a = b) = False"
  by auto

lemma table_items:
  "the (dict_get ROLE_LABELS ROLE_DRIVER) = ROLE_LABEL_DRIVER"
  "the (dict_get ROLE_LABELS ROLE_SHIPPER) = ROLE_LABEL_SHIPPER"
  "the (dict_get ROLE_LABELS_RU ROLE_DRIVER) = ROLE_LABEL_DRIVER_RU"
  "the (dict_get ROLE_LABELS_RU ROLE_SHIPPER) = ROLE_LABEL_SHIPPER_RU"
  "PAYMENT_OPTIONS ! 0 = PAYMENT_CASH"
  "PAYMENT_OPTIONS ! 1 = PAYMENT_CARD"
  "PAYMENT_OPTIONS ! Suc 0 = PAYMENT_CARD"
  "PAYMENT_OPTIONS ! 2 = PAYMENT_TRANSFER"
  "PAYMENT_OPTIONS_RU ! 0 = PAYMENT_CASH_RU"
  "PAYMENT_OPTIONS_RU ! 1 = PAYMENT_CARD_RU"
  "PAYMENT_OPTIONS_RU ! Suc 0 = PAYMENT_CARD_RU"
  "PAYMENT_OPTIONS_RU ! 2 = PAYMENT_TRANSFER_RU"
  by (simp_all add: ROLE_LABELS_def ROLE_LABELS_RU_def PAYMENT_OPTIONS_def PAYMENT_OPTIONS_RU_def
      dict_of_def dict_update_def label_sums neq_by_sum)

lemma RU_BUTTON_TEXTS_eval:
  "RU_BUTTON_TEXTS =
    [(BTN_CANCEL, RU_BTN_CANCEL),
     (BTN_BACK_MAIN, RU_BTN_BACK_MAIN),
     (BTN_BACK_ADMIN, RU_BTN_BACK_ADMIN),
     (BTN_SKIP, RU_BTN_SKIP),
     (BTN_ADMIN_PANEL, RU_BTN_ADMIN_PANEL),
     (BTN_BROADCAST, RU_BTN_BROADCAST),
     (BTN_ADMIN_STATS, RU_BTN_ADMIN_STATS),
     (BTN_ADMIN_USERS, RU_BTN_ADMIN_USERS),
     (BTN_ADMIN_PRO, RU_BTN_ADMIN_PRO),
     (BTN_ADMIN_CHANNELS, RU_BTN_ADMIN_CHANNELS),
     (BTN_ADMIN_GUIDE, RU_BTN_ADMIN_GUIDE),
     (BTN_PRO_ADD, RU_BTN_PRO_ADD),
     (BTN_PRO_REMOVE, RU_BTN_PRO_REMOVE),
     (BTN_CH_SET_CATALOG, RU_BTN_CH_SET_CATALOG),
     (BTN_CH_SET_REGION, RU_BTN_CH_SET_REGION),
     (BTN_CH_LIST, RU_BTN_CH_LIST),
     (BTN_REQ_ADD, RU_BTN_REQ_ADD),
     (BTN_REQ_REMOVE, RU_BTN_REQ_REMOVE),
     (BTN_REQ_LIST, RU_BTN_REQ_LIST),
     (BTN_BC_ALL, RU_BTN_BC_ALL),
     (BTN_BC_DRIVERS, RU_BTN_BC_DRIVERS),
     (BTN_BC_SHIPPERS, RU_BTN_BC_SHIPPERS),
     (BTN_BC_PRO, RU_BTN_BC_PRO),
     (BTN_MENU_CARGO, RU_BTN_MENU_CARGO),
     (BTN_MENU_DRIVER, RU_BTN_MENU_DRIVER),
     (BTN_MENU_PROFILE, RU_BTN_MENU_PROFILE),
     (BTN_MENU_ANALYSIS, RU_BTN_MENU_ANALYSIS),
     (BTN_MENU_STATS, RU_BTN_MENU_STATS),
     (BTN_MENU_PRO, RU_BTN_MENU_PRO),
     (BTN_MENU_NEWS, RU_BTN_MENU_NEWS),
     (BTN_MENU_CONTACT, RU_BTN_MENU_CONTACT),
     (BTN_MENU_SETTINGS, RU_BTN_MENU_SETTINGS),
     (BTN_SETTINGS_ROLE, RU_BTN_SETTINGS_ROLE),
     (BTN_SETTINGS_LANG, RU_BTN_SETTINGS_LANG),
     (BTN_CARGO_CONFIRM, RU_BTN_CARGO_CONFIRM),
     (BTN_CARGO_EDIT, RU_BTN_CARGO_EDIT),
     (BTN_SEND_PHONE, RU_BTN_SEND_PHONE),
     (ROLE_LABEL_DRIVER, ROLE_LABEL_DRIVER_RU),
     (ROLE_LABEL_SHIPPER, ROLE_LABEL_SHIPPER_RU),
     (PAYMENT_CASH, PAYMENT_CASH_RU),
     (PAYMENT_CARD, PAYMENT_CARD_RU),
     (PAYMENT_TRANSFER, PAYMENT_TRANSFER_RU)]"
  by (simp add: RU_BUTTON_TEXTS_def dict_of_def dict_update_def table_items label_sums neq_by_sum)

lemma TEXT_CANON_MAP_eval:
  "TEXT_CANON_MAP =
    [(RU_BTN_CANCEL, BTN_CANCEL),
     (RU_BTN_BACK_MAIN, BTN_BACK_MAIN),
     (RU_BTN_BACK_ADMIN, BTN_BACK_ADMIN),
     (RU_BTN_SKIP, BTN_SKIP),
     (RU_BTN_ADMIN_PANEL, BTN_ADMIN_PANEL),
     (RU_BTN_BROADCAST, BTN_BROADCAST),
     (RU_BTN_ADMIN_STATS, BTN_ADMIN_STATS),
     (RU_BTN_ADMIN_USERS, BTN_ADMIN_USERS),
     (RU_BTN_ADMIN_PRO, BTN_ADMIN_PRO),
     (RU_BTN_ADMIN_CHANNELS, BTN_ADMIN_CHANNELS),
     (RU_BTN_ADMIN_GUIDE, BTN_ADMIN_GUIDE),
     (RU_BTN_PRO_ADD, BTN_PRO_ADD),
     (RU_BTN_PRO_REMOVE, BTN_PRO_REMOVE),
     (RU_BTN_CH_SET_CATALOG, BTN_CH_SET_CATALOG),
     (RU_BTN_CH_SET_REGION, BTN_CH_SET_REGION),
     (RU_BTN_CH_LIST, BTN_CH_LIST),
     (RU_BTN_REQ_ADD, BTN_REQ_ADD),
     (RU_BTN_REQ_REMOVE, BTN_REQ_REMOVE),
     (RU_BTN_REQ_LIST, BTN_REQ_LIST),
     (RU_BTN_BC_ALL, BTN_BC_ALL),
     (RU_BTN_BC_DRIVERS, BTN_BC_DRIVERS),
     (RU_BTN_BC_SHIPPERS, BTN_BC_SHIPPERS),
     (RU_BTN_BC_PRO, BTN_BC_PRO),
     (RU_BTN_MENU_CARGO, BTN_MENU_CARGO),
     (RU_BTN_MENU_DRIVER, BTN_MENU_DRIVER),
     (RU_BTN_MENU_PROFILE, BTN_MENU_PROFILE),
     (RU_BTN_MENU_ANALYSIS, BTN_MENU_ANALYSIS),
     (RU_BTN_MENU_STATS, BTN_MENU_STATS),
     (RU_BTN_MENU_PRO, BTN_MENU_PRO),
     (RU_BTN_MENU_NEWS, BTN_MENU_NEWS),
     (RU_BTN_MENU_CONTACT, BTN_MENU_CONTACT),
     (RU_BTN_MENU_SETTINGS, BTN_MENU_SETTINGS),
     (RU_BTN_SETTINGS_ROLE, BTN_SETTINGS_ROLE),
     (RU_BTN_SETTINGS_LANG, BTN_SETTINGS_LANG),
     (RU_BTN_CARGO_CONFIRM, BTN_CARGO_CONFIRM),
     (RU_BTN_CARGO_EDIT, BTN_CARGO_EDIT),
     (RU_BTN_SEND_PHONE, BTN_SEND_PHONE),
     (ROLE_LABEL_DRIVER_RU, ROLE_LABEL_DRIVER),
     (ROLE_LABEL_SHIPPER_RU, ROLE_LABEL_SHIPPER),
     (PAYMENT_CASH_RU, PAYMENT_CASH),
     (PAYMENT_CARD_RU, PAYMENT_CARD),
     (PAYMENT_TRANSFER_RU, PAYMENT_TRANSFER),
     (LANG_SELECT_UZ, LANG_SELECT_UZ),
     (LANG_SELECT_RU, LANG_SELECT_RU),
     (ROLE_LABEL_DRIVER, ROLE_LABEL_DRIVER),
     (ROLE_LABEL_SHIPPER, ROLE_LABEL_SHIPPER),
     (PAYMENT_CASH, PAYMENT_CASH),
     (PAYMENT_CARD, PAYMENT_CARD),
     (PAYMENT_TRANSFER, PAYMENT_TRANSFER)]"
  by (simp add: TEXT_CANON_MAP_def RU_BUTTON_TEXTS_eval dict_of_def dict_update_def table_items
      label_sums neq_by_sum)

lemma localize_items:
  "localize_button_text BTN_CANCEL LANG_RU = RU_BTN_CANCEL"
  "localize_button_text BTN_BACK_MAIN LANG_RU = RU_BTN_BACK_MAIN"
  "localize_button_text BTN_BACK_ADMIN LANG_RU = RU_BTN_BACK_ADMIN"
  "localize_button_text BTN_SKIP LANG_RU = RU_BTN_SKIP"
  "localize_button_text BTN_ADMIN_PANEL LANG_RU = RU_BTN_ADMIN_PANEL"
  "localize_button_text BTN_BROADCAST LANG_RU = RU_BTN_BROADCAST"
  "localize_button_text BTN_ADMIN_STATS LANG_RU = RU_BTN_ADMIN_STATS"
  "localize_button_text BTN_ADMIN_USERS LANG_RU = RU_BTN_ADMIN_USERS"
  "localize_button_text BTN_ADMIN_PRO LANG_RU = RU_BTN_ADMIN_PRO"
  "localize_button_text BTN_ADMIN_CHANNELS LANG_RU = RU_BTN_ADMIN_CHANNELS"
  "localize_button_text BTN_ADMIN_GUIDE LANG_RU = RU_BTN_ADMIN_GUIDE"
  "localize_button_text BTN_PRO_ADD LANG_RU = RU_BTN_PRO_ADD"
  "localize_button_text BTN_PRO_REMOVE LANG_RU = RU_BTN_PRO_REMOVE"
  "localize_button_text BTN_CH_SET_CATALOG LANG_RU = RU_BTN_CH_SET_CATALOG"
  "localize_button_text BTN_CH_SET_REGION LANG_RU = RU_BTN_CH_SET_REGION"
  "localize_button_text BTN_CH_LIST LANG_RU = RU_BTN_CH_LIST"
  "localize_button_text BTN_REQ_ADD LANG_RU = RU_BTN_REQ_ADD"
  "localize_button_text BTN_REQ_REMOVE LANG_RU = RU_BTN_REQ_REMOVE"
  "localize_button_text BTN_REQ_LIST LANG_RU = RU_BTN_REQ_LIST"
  "localize_button_text BTN_BC_ALL LANG_RU = RU_BTN_BC_ALL"
  "localize_button_text BTN_BC_DRIVERS LANG_RU = RU_BTN_BC_DRIVERS"
  "localize_button_text BTN_BC_SHIPPERS LANG_RU = RU_BTN_BC_SHIPPERS"
  "localize_button_text BTN_BC_PRO LANG_RU = RU_BTN_BC_PRO"
  "localize_button_text BTN_MENU_CARGO LANG_RU = RU_BTN_MENU_CARGO"
  "localize_button_text BTN_MENU_DRIVER LANG_RU = RU_BTN_MENU_DRIVER"
  "localize_button_text BTN_MENU_PROFILE LANG_RU = RU_BTN_MENU_PROFILE"
  "localize_button_text BTN_MENU_ANALYSIS LANG_RU = RU_BTN_MENU_ANALYSIS"
  "localize_button_text BTN_MENU_STATS LANG_RU = RU_BTN_MENU_STATS"
  "localize_button_text BTN_MENU_PRO LANG_RU = RU_BTN_MENU_PRO"
  "localize_button_text BTN_MENU_NEWS LANG_RU = RU_BTN_MENU_NEWS"
  "localize_button_text BTN_MENU_CONTACT LANG_RU = RU_BTN_MENU_CONTACT"
  "localize_button_text BTN_MENU_SETTINGS LANG_RU = RU_BTN_MENU_SETTINGS"
  "localize_button_text BTN_SETTINGS_ROLE LANG_RU = RU_BTN_SETTINGS_ROLE"
  "localize_button_text BTN_SETTINGS_LANG LANG_RU = RU_BTN_SETTINGS_LANG"
  "localize_button_text BTN_CARGO_CONFIRM LANG_RU = RU_BTN_CARGO_CONFIRM"
  "localize_button_text BTN_CARGO_EDIT LANG_RU = RU_BTN_CARGO_EDIT"
  "localize_button_text BTN_SEND_PHONE LANG_RU = RU_BTN_SEND_PHONE"
  "localize_button_text ROLE_LABEL_DRIVER LANG_RU = ROLE_LABEL_DRIVER_RU"
  "localize_button_text ROLE_LABEL_SHIPPER LANG_RU = ROLE_LABEL_SHIPPER_RU"
  "localize_button_text PAYMENT_CASH LANG_RU = PAYMENT_CASH_RU"
  "localize_button_text PAYMENT_CARD LANG_RU = PAYMENT_CARD_RU"
  "localize_button_text PAYMENT_TRANSFER LANG_RU = PAYMENT_TRANSFER_RU"
  "localize_button_text REGION_ANDIJON LANG_RU = REGION_ANDIJON"
  "localize_button_text REGION_BUXORO LANG_RU = REGION_BUXORO"
  "localize_button_text REGION_FARGONA LANG_RU = REGION_FARGONA"
  "localize_button_text REGION_JIZZAX LANG_RU = REGION_JIZZAX"
  "localize_button_text REGION_NAMANGAN LANG_RU = REGION_NAMANGAN"
  "localize_button_text REGION_NAVOIY LANG_RU = REGION_NAVOIY"
  "localize_button_text REGION_QASHQADARYO LANG_RU = REGION_QASHQADARYO"
  "localize_button_text REGION_SAMARQAND LANG_RU = REGION_SAMARQAND"
  "localize_button_text REGION_SIRDARYO LANG_RU = REGION_SIRDARYO"
  "localize_button_text REGION_SURXONDARYO LANG_RU = REGION_SURXONDARYO"
  "localize_button_text REGION_TOSHKENT LANG_RU = REGION_TOSHKENT"
  "localize_button_text REGION_XORAZM LANG_RU = REGION_XORAZM"
  "localize_button_text LANG_SELECT_UZ LANG_RU = LANG_SELECT_UZ"
  "localize_button_text LANG_SELECT_RU LANG_RU = LANG_SELECT_RU"
  by (simp_all add: localize_button_text_def RU_BUTTON_TEXTS_eval label_sums neq_by_sum)

lemma canonicalize_items:
  "canonicalize_user_text (Some RU_BTN_CANCEL) = BTN_CANCEL"
  "canonicalize_user_text (Some RU_BTN_BACK_MAIN) = BTN_BACK_MAIN"
  "canonicalize_user_text (Some RU_BTN_BACK_ADMIN) = BTN_BACK_ADMIN"
  "canonicalize_user_text (Some RU_BTN_SKIP) = BTN_SKIP"
  "canonicalize_user_text (Some RU_BTN_ADMIN_PANEL) = BTN_ADMIN_PANEL"
  "canonicalize_user_text (Some RU_BTN_BROADCAST) = BTN_BROADCAST"
  "canonicalize_user_text (Some RU_BTN_ADMIN_STATS) = BTN_ADMIN_STATS"
  "canonicalize_user_text (Some RU_BTN_ADMIN_USERS) = BTN_ADMIN_USERS"
  "canonicalize_user_text (Some RU_BTN_ADMIN_PRO) = BTN_ADMIN_PRO"
  "canonicalize_user_text (Some RU_BTN_ADMIN_CHANNELS) = BTN_ADMIN_CHANNELS"
  "canonicalize_user_text (Some RU_BTN_ADMIN_GUIDE) = BTN_ADMIN_GUIDE"
  "canonicalize_user_text (Some RU_BTN_PRO_ADD) = BTN_PRO_ADD"
  "canonicalize_user_text (Some RU_BTN_PRO_REMOVE) = BTN_PRO_REMOVE"
  "canonicalize_user_text (Some RU_BTN_CH_SET_CATALOG) = BTN_CH_SET_CATALOG"
  "canonicalize_user_text (Some RU_BTN_CH_SET_REGION) = BTN_CH_SET_REGION"
  "canonicalize_user_text (Some RU_BTN_CH_LIST) = BTN_CH_LIST"
  "canonicalize_user_text (Some RU_BTN_REQ_ADD) = BTN_REQ_ADD"
  "canonicalize_user_text (Some RU_BTN_REQ_REMOVE) = BTN_REQ_REMOVE"
  "canonicalize_user_text (Some RU_BTN_REQ_LIST) = BTN_REQ_LIST"
  "canonicalize_user_text (Some RU_BTN_BC_ALL) = BTN_BC_ALL"
  "canonicalize_user_text (Some RU_BTN_BC_DRIVERS) = BTN_BC_DRIVERS"
  "canonicalize_user_text (Some RU_BTN_BC_SHIPPERS) = BTN_BC_SHIPPERS"
  "canonicalize_user_text (Some RU_BTN_BC_PRO) = BTN_BC_PRO"
  "canonicalize_user_text (Some RU_BTN_MENU_CARGO) = BTN_MENU_CARGO"
  "canonicalize_user_text (Some RU_BTN_MENU_DRIVER) = BTN_MENU_DRIVER"
  "canonicalize_user_text (Some RU_BTN_MENU_PROFILE) = BTN_MENU_PROFILE"
  "canonicalize_user_text (Some RU_BTN_MENU_ANALYSIS) = BTN_MENU_ANALYSIS"
  "canonicalize_user_text (Some RU_BTN_MENU_STATS) = BTN_MENU_STATS"
  "canonicalize_user_text (Some RU_BTN_MENU_PRO) = BTN_MENU_PRO"
  "canonicalize_user_text (Some RU_BTN_MENU_NEWS) = BTN_MENU_NEWS"
  "canonicalize_user_text (Some RU_BTN_MENU_CONTACT) = BTN_MENU_CONTACT"
  "canonicalize_user_text (Some RU_BTN_MENU_SETTINGS) = BTN_MENU_SETTINGS"
  "canonicalize_user_text (Some RU_BTN_SETTINGS_ROLE) = BTN_SETTINGS_ROLE"
  "canonicalize_user_text (Some RU_BTN_SETTINGS_LANG) = BTN_SETTINGS_LANG"
  "canonicalize_user_text (Some RU_BTN_CARGO_CONFIRM) = BTN_CARGO_CONFIRM"
  "canonicalize_user_text (Some RU_BTN_CARGO_EDIT) = BTN_CARGO_EDIT"
  "canonicalize_user_text (Some RU_BTN_SEND_PHONE) = BTN_SEND_PHONE"
  "canonicalize_user_text (Some ROLE_LABEL_DRIVER_RU) = ROLE_LABEL_DRIVER"
  "canonicalize_user_text (Some ROLE_LABEL_SHIPPER_RU) = ROLE_LABEL_SHIPPER"
  "canonicalize_user_text (Some PAYMENT_CASH_RU) = PAYMENT_CASH"
  "canonicalize_user_text (Some PAYMENT_CARD_RU) = PAYMENT_CARD"
  "canonicalize_user_text (Some PAYMENT_TRANSFER_RU) = PAYMENT_TRANSFER"
  "canonicalize_user_text (Some REGION_ANDIJON) = REGION_ANDIJON"
  "canonicalize_user_text (Some REGION_BUXORO) = REGION_BUXORO"
  "canonicalize_user_text (Some REGION_FARGONA) = REGION_FARGONA"
  "canonicalize_user_text (Some REGION_JIZZAX) = REGION_JIZZAX"
  "canonicalize_user_text (Some REGION_NAMANGAN) = REGION_NAMANGAN"
  "canonicalize_user_text (Some REGION_NAVOIY) = REGION_NAVOIY"
  "canonicalize_user_text (Some REGION_QASHQADARYO) = REGION_QASHQADARYO"
  "canonicalize_user_text (Some REGION_SAMARQAND) = REGION_SAMARQAND"
  "canonicalize_user_text (Some REGION_SIRDARYO) = REGION_SIRDARYO"
  "canonicalize_user_text (Some REGION_SURXONDARYO) = REGION_SURXONDARYO"
  "canonicalize_user_text (Some REGION_TOSHKENT) = REGION_TOSHKENT"
  "canonicalize_user_text (Some REGION_XORAZM) = REGION_XORAZM"
  "canonicalize_user_text (Some LANG_SELECT_UZ) = LANG_SELECT_UZ"
  "canonicalize_user_text (Some LANG_SELECT_RU) = LANG_SELECT_RU"
  by (simp_all add: canonicalize_user_text_def Let_def or_empty_def label_strip TEXT_CANON_MAP_eval
      label_sums neq_by_sum)

lemmas keyboard_defs = language_keyboard_def main_menu_keyboard_def phone_keyboard_def
  role_keyboard_def cancel_keyboard_def skip_cancel_keyboard_def payment_keyboard_def
  region_keyboard_def cargo_confirm_keyboard_def settings_keyboard_def admin_panel_keyboard_def
  admin_pro_keyboard_def admin_channels_keyboard_def broadcast_audience_keyboard_def

lemma BUTTON_SET_eval:
  "BUTTON_SET =
    [LANG_SELECT_UZ, LANG_SELECT_RU, BTN_CANCEL, BTN_MENU_CARGO,
     BTN_MENU_DRIVER, BTN_MENU_PROFILE, BTN_MENU_ANALYSIS, BTN_MENU_STATS,
     BTN_MENU_PRO, BTN_MENU_NEWS, BTN_MENU_CONTACT, BTN_MENU_SETTINGS,
     BTN_MENU_CARGO, BTN_MENU_DRIVER, BTN_MENU_PROFILE, BTN_MENU_ANALYSIS,
     BTN_MENU_STATS, BTN_MENU_PRO, BTN_MENU_NEWS, BTN_MENU_CONTACT,
     BTN_MENU_SETTINGS, BTN_ADMIN_PANEL, BTN_SEND_PHONE, BTN_CANCEL,
     ROLE_LABEL_DRIVER, ROLE_LABEL_SHIPPER, BTN_CANCEL, BTN_CANCEL,
     BTN_SKIP, BTN_CANCEL, PAYMENT_CASH, PAYMENT_CARD,
     PAYMENT_TRANSFER, BTN_CANCEL, REGION_ANDIJON, REGION_BUXORO,
     REGION_FARGONA, REGION_JIZZAX, REGION_NAMANGAN, REGION_NAVOIY,
     REGION_QASHQADARYO, REGION_SAMARQAND, REGION_SIRDARYO, REGION_SURXONDARYO,
     REGION_TOSHKENT, REGION_XORAZM, BTN_CANCEL, BTN_CARGO_CONFIRM,
     BTN_CARGO_EDIT, BTN_CANCEL, BTN_SETTINGS_ROLE, BTN_SETTINGS_LANG,
     BTN_BACK_MAIN, BTN_BROADCAST, BTN_ADMIN_STATS, BTN_ADMIN_USERS,
     BTN_ADMIN_PRO, BTN_ADMIN_CHANNELS, BTN_ADMIN_GUIDE, BTN_BACK_MAIN,
     BTN_PRO_ADD, BTN_PRO_REMOVE, BTN_BACK_ADMIN, BTN_CH_SET_CATALOG,
     BTN_CH_SET_REGION, BTN_REQ_ADD, BTN_REQ_REMOVE, BTN_REQ_LIST,
     BTN_CH_LIST, BTN_BACK_ADMIN, BTN_BC_ALL, BTN_BC_DRIVERS,
     BTN_BC_SHIPPERS, BTN_BC_PRO, BTN_CANCEL, BTN_CANCEL,
     BTN_BACK_MAIN, BTN_BACK_ADMIN, BTN_SKIP, BTN_ADMIN_PANEL,
     BTN_BROADCAST, BTN_ADMIN_STATS, BTN_ADMIN_USERS, BTN_ADMIN_PRO,
     BTN_ADMIN_CHANNELS, BTN_ADMIN_GUIDE, BTN_PRO_ADD, BTN_PRO_REMOVE,
     BTN_CH_SET_CATALOG, BTN_CH_SET_REGION, BTN_CH_LIST, BTN_REQ_ADD,
     BTN_REQ_REMOVE, BTN_REQ_LIST, BTN_BC_ALL, BTN_BC_DRIVERS,
     BTN_BC_SHIPPERS, BTN_BC_PRO, BTN_MENU_CARGO, BTN_MENU_DRIVER,
     BTN_MENU_PROFILE, BTN_MENU_ANALYSIS, BTN_MENU_STATS, BTN_MENU_PRO,
     BTN_MENU_NEWS, BTN_MENU_CONTACT, BTN_MENU_SETTINGS, BTN_SETTINGS_ROLE,
     BTN_SETTINGS_LANG, BTN_CARGO_CONFIRM, BTN_CARGO_EDIT, BTN_SEND_PHONE,
     ROLE_LABEL_DRIVER, ROLE_LABEL_SHIPPER, PAYMENT_CASH, PAYMENT_CARD,
     PAYMENT_TRANSFER]"
  by (simp add: BUTTON_SET_def all_keyboards_def keyboard_defs REGIONS_def RU_BUTTON_TEXTS_eval
      table_items)


text \<open>
  C4.  For every label \<open>X\<close> of the fixed button set (the labels of all reply
  keyboards and the keys of the canonical-to-Russian table), localizing \<open>X\<close> for
  the Russian language and canonicalizing what comes out gives \<open>X\<close> again.
\<close>

theorem button_round_trip:
  "\<forall>X \<in> set BUTTON_SET. canonicalize_user_text (Some (localize_button_text X LANG_RU)) = X"
  unfolding BUTTON_SET_eval list_all_iff [symmetric]
  by (simp add: localize_items canonicalize_items)

theorem button_round_trip_witness:
  "BTN_CARGO_EDIT \<in> set BUTTON_SET
   \<and> localize_button_text BTN_CARGO_EDIT LANG_RU = RU_BTN_CARGO_EDIT
   \<and> canonicalize_user_text (Some RU_BTN_CARGO_EDIT) = BTN_CARGO_EDIT"
  using button_round_trip [rule_format, of BTN_CARGO_EDIT]
  by (simp add: BUTTON_SET_eval localize_items)

subsection \<open>Chat references\<close>

lemmas rx_defs = CHAT_USERNAME_RE_def CHAT_PUBLIC_LINK_RE_def CHAT_INTERNAL_LINK_RE_def
  CHAT_INVITE_LINK_RE_def link_head_def link_tail_def rx_seq_def fullmatch_def

lemmas strip_defs = strip_def lstrip_def rstrip_def is_space_def

lemma decimal_value_ascii:
  "c < 128 \<Longrightarrow> decimal_value c = (if 48 \<le> c \<and> c \<le> 57 then Some (c - 48) else None)"
  by (simp add: decimal_value_def DECIMAL_ZEROS_def)

lemmas int_defs = parse_chat_id_def py_int_def digits_value_def INT_MAX_STR_DIGITS_def
  decimal_value_ascii

lemma literal_strip:
  "strip (asc ''-1001234567890'') = asc ''-1001234567890''"
  "strip (asc ''@abcde'') = asc ''@abcde''"
  "strip (asc ''https://t.me/c/123456789'') = asc ''https://t.me/c/123456789''"
  "strip (asc ''https://t.me/+AbCdEf'') = asc ''https://t.me/+AbCdEf''"
  "strip (asc ''-100'' @ asc ''123456789'') = asc ''-100123456789''"
  by (simp_all add: strip_defs asc_def)

lemma literal_nonempty:
  "asc ''-1001234567890'' \<noteq> []"
  "asc ''@abcde'' \<noteq> []"
  "asc ''https://t.me/c/123456789'' \<noteq> []"
  "asc ''https://t.me/+AbCdEf'' \<noteq> []"
  by (simp_all add: asc_def)

lemma literal_py_int:
  "py_int (asc ''-1001234567890'') = Inr (- 1001234567890)"
  "py_int (asc ''@abcde'') = Inl ValueError"
  "py_int (asc ''https://t.me/c/123456789'') = Inl ValueError"
  "py_int (asc ''https://t.me/+AbCdEf'') = Inl ValueError"
  "py_int (asc ''-100'' @ asc ''123456789'') = Inr (- 100123456789)"
  unfolding py_int_def literal_strip
  by (simp_all add: asc_def digits_value_def INT_MAX_STR_DIGITS_def decimal_value_ascii)

lemma literal_username:
  "fullmatch CHAT_USERNAME_RE (asc ''@abcde'') = Some []"
  "fullmatch CHAT_USERNAME_RE (asc ''https://t.me/c/123456789'') = None"
  "fullmatch CHAT_USERNAME_RE (asc ''https://t.me/+AbCdEf'') = None"
  by (simp_all add: rx_defs asc_def numeral_nat decimal_value_ascii)

lemma literal_internal:
  "fullmatch CHAT_INTERNAL_LINK_RE (asc ''https://t.me/c/123456789'') = Some [asc ''123456789'']"
  by (simp add: rx_defs asc_def numeral_nat decimal_value_ascii)

lemma literal_invite_not_internal:
  "fullmatch CHAT_INTERNAL_LINK_RE (asc ''https://t.me/+AbCdEf'') = None"
  by (simp add: rx_defs asc_def numeral_nat decimal_value_ascii)

lemma literal_invite_not_public:
  "fullmatch CHAT_PUBLIC_LINK_RE (asc ''https://t.me/+AbCdEf'') = None"
  by (simp add: rx_defs asc_def numeral_nat decimal_value_ascii)

lemma literal_invite:
  "fullmatch CHAT_INVITE_LINK_RE (asc ''https://t.me/+AbCdEf'') = Some []"
  by (simp add: rx_defs asc_def numeral_nat decimal_value_ascii)

lemmas literal_facts = literal_strip literal_nonempty literal_py_int literal_username
  literal_internal literal_invite_not_internal literal_invite_not_public literal_invite

lemma parse_numeric_literal:
  "parse_chat_reference (asc ''-1001234567890'') = Inr (Some (- 1001234567890), None, None)"
  by (simp add: parse_chat_reference_def parse_chat_id_def literal_facts)

lemma parse_username_literal:
  "parse_chat_reference (asc ''@abcde'') = Inr (None, Some (asc ''@abcde''), None)"
  by (simp add: parse_chat_reference_def parse_chat_id_def literal_facts)

lemma parse_internal_literal:
  "parse_chat_reference (asc ''https://t.me/c/123456789'') = Inr (Some (- 100123456789), None, None)"
  by (simp add: parse_chat_reference_def parse_chat_id_def literal_facts)

lemma parse_invite_literal:
  "parse_chat_reference (asc ''https://t.me/+AbCdEf'') = Inr (None, None, Some ERR_INVITE_LINK)"
  by (simp add: parse_chat_reference_def parse_chat_id_def literal_facts)

lemma err_invite_nonempty: "ERR_INVITE_LINK \<noteq> []"
  by (simp add: ERR_INVITE_LINK_def)

text \<open>
  C3.  The literal cases of the chat reference grammar.  The text
  \<^verbatim>\<open>-1001234567890\<close> resolves to the handle \<open>-1001234567890\<close> without a lookup;
  \<^verbatim>\<open>@abcde\<close> is classified as a public handle, is looked up once, and resolves to
  the handle of the chat that the lookup returns (and to an error text when
  the lookup fails); \<^verbatim>\<open>https://t.me/c/123456789\<close> resolves to \<open>-100123456789\<close>
  without a lookup; \<^verbatim>\<open>https://t.me/+AbCdEf\<close> fails with the invite-link guidance and
  without a lookup.
\<close>

theorem resolve_literal_cases:
  "resolve_chat_id_from_text b (asc ''-1001234567890'') = Inr ((Some (- 1001234567890), None), [])
   \<and> parse_chat_reference (asc ''@abcde'') = Inr (None, Some (asc ''@abcde''), None)
   \<and> resolve_chat_id_from_text b (asc ''@abcde'') =
       Inr (case get_chat b (ByName (asc ''@abcde'')) of
              Inr chat \<Rightarrow> ((Some (chat_id chat), None), [ByName (asc ''@abcde'')])
            | Inl exc \<Rightarrow> ((None, Some (err_chat_unreachable (asc ''@abcde''))),
                           [ByName (asc ''@abcde'')]))
   \<and> resolve_chat_id_from_text b (asc ''https://t.me/c/123456789'') =
       Inr ((Some (- 100123456789), None), [])
   \<and> resolve_chat_id_from_text b (asc ''https://t.me/+AbCdEf'') =
       Inr ((None, Some ERR_INVITE_LINK), [])"
  by (simp add: resolve_chat_id_from_text_def parse_numeric_literal parse_username_literal
      parse_internal_literal parse_invite_literal err_invite_nonempty or_empty_def literal_nonempty
      split: sum.splits)

theorem resolve_literal_cases_witness:
  "resolve_chat_id_from_text
     (sample_bot\<lparr>get_chat := (\<lambda>r. Inr \<lparr>chat_id = - 1005, chat_type = ''supergroup'',
                                         chat_title = None, chat_username = Some (asc ''abcde'')\<rparr>)\<rparr>)
     (asc ''@abcde'') = Inr ((Some (- 1005), None), [ByName (asc ''@abcde'')])
   \<and> resolve_chat_id_from_text sample_bot (asc ''@abcde'') =
       Inr ((None, Some (err_chat_unreachable (asc ''@abcde''))), [ByName (asc ''@abcde'')])"
  using resolve_literal_cases [of "sample_bot\<lparr>get_chat := (\<lambda>r. Inr \<lparr>chat_id = - 1005,
      chat_type = ''supergroup'', chat_title = None, chat_username = Some (asc ''abcde'')\<rparr>)\<rparr>"]
    resolve_literal_cases [of sample_bot]
  by (simp add: sample_bot_def)

subsection \<open>Writable check\<close>

text \<open>
  C5.  When the three fetches succeed, \<open>check_chat_writable\<close> returns the verdict of
  the specification's decision table: "bot not in chat" for a bot that left or
  was kicked, whatever the chat kind; for a broadcast channel "must be admin"
  unless the bot is administrator or creator, "posting disabled" when the
  capability to post is explicitly disabled, and ok otherwise; for any other
  chat "sending restricted" exactly when the capability to send is explicitly
  disabled, and ok otherwise.  The flag is true exactly for the ok verdict.
\<close>

theorem check_chat_writable_decision_table:
  assumes "get_me b = Inr me"
    and "get_chat b (ById cid) = Inr chat"
    and "get_chat_member b cid me = Inr member"
  shows "verdict_of (check_chat_writable b cid) =
           Some (spec_decision_table (chat_type chat = ''channel'') (member_status member)
                   (can_post_messages member) (can_send_messages member))
         \<and> (fst (check_chat_writable b cid) \<longleftrightarrow>
              spec_decision_table (chat_type chat = ''channel'') (member_status member)
                (can_post_messages member) (can_send_messages member) = Writable)"
  using assms
  by (simp add: check_chat_writable_def spec_decision_table_def asc_def)

theorem check_chat_writable_decision_table_witness:
  "verdict_of (check_chat_writable
      \<lparr>get_me = Inr 7, me_username = None,
       get_chat = (\<lambda>r. Inr \<lparr>chat_id = - 1001, chat_type = ''channel'', chat_title = None,
                             chat_username = None\<rparr>),
       get_chat_member = (\<lambda>c u. Inr \<lparr>member_status = ''administrator'',
                                     can_post_messages = Some False, can_send_messages = None\<rparr>),
       send_message = (\<lambda>c. Inr ()), copy_to = (\<lambda>c. Inr ())\<rparr> (- 1001)) = Some Posting_disabled"
  using check_chat_writable_decision_table [of
     "\<lparr>get_me = Inr 7, me_username = None,
       get_chat = (\<lambda>r. Inr \<lparr>chat_id = - 1001, chat_type = ''channel'', chat_title = None,
                             chat_username = None\<rparr>),
       get_chat_member = (\<lambda>c u. Inr \<lparr>member_status = ''administrator'',
                                     can_post_messages = Some False, can_send_messages = None\<rparr>),
       send_message = (\<lambda>c. Inr ()), copy_to = (\<lambda>c. Inr ())\<rparr>" 7 "- 1001"
     "\<lparr>chat_id = - 1001, chat_type = ''channel'', chat_title = None, chat_username = None\<rparr>"
     "\<lparr>member_status = ''administrator'', can_post_messages = Some False,
       can_send_messages = None\<rparr>"]
  by (simp add: spec_decision_table_def)

subsection \<open>Pro subscription\<close>

lemma fetch_update_user:
  "fetch_user d uid = Some usr \<Longrightarrow> fetch_user (update_user d uid f) uid = Some (f usr)"
  by (simp add: fetch_user_def update_user_def dict_get_set_same)


subsection \<open>Publication\<close>


subsection \<open>Pro subscription, claim\<close>



subsection \<open>Publication, claim\<close>




subsection \<open>Conversations\<close>

lemma split_ws_acc_first:
  "cur \<noteq> [] \<Longrightarrow> \<exists>ws rest. split_ws_acc cur s = (cur @ ws) # rest"
proof (induction s arbitrary: cur)
  case Nil
  then show ?case by simp
next
  case (Cons c cs)
  show ?case
  proof (cases "is_space c")
    case True
    with Cons.prems show ?thesis by simp
  next
    case False
    from Cons.IH [of "cur @ [c]"] obtain ws rest
      where "split_ws_acc (cur @ [c]) cs = ((cur @ [c]) @ ws) # rest" by auto
    with False show ?thesis by simp
  qed
qed

lemma command_of_no_slash:
  assumes "msg_text m = Some (c # cs)" and "\<not> is_space c" and "c \<noteq> 47"
  shows "command_of e m = None"
proof -
  from split_ws_acc_first [of "[c]" cs] obtain ws rest
    where "split_ws_acc [c] cs = ([c] @ ws) # rest" by auto
  with assms show ?thesis
    by (simp add: command_of_def split_ws_def or_empty_def)
qed

lemma handle_message_step:
  "sess_state (w_sess w) = Some st \<Longrightarrow> st \<noteq> LanguageFSM_select \<Longrightarrow> plain_input e m
   \<Longrightarrow> handle_message e m w = Some (step_handler st e (canonicalize_input m) w)"
  by (simp add: handle_message_def plain_input_def Let_def)

lemma canonical_tokens:
  "canonicalize_user_text (Some BTN_SKIP) = BTN_SKIP"
  "canonicalize_user_text (Some BTN_CARGO_EDIT) = BTN_CARGO_EDIT"
  by (simp_all add: canonicalize_user_text_def Let_def or_empty_def label_strip TEXT_CANON_MAP_eval
      label_sums neq_by_sum)

lemma token_heads:
  "BTN_SKIP = 9197 # asc '' O'tkazib yuborish''"
  "BTN_CARGO_EDIT = 9999 # 65039 # asc '' Tahrirlash''"
  by (simp_all add: BTN_SKIP_def BTN_CARGO_EDIT_def)

lemma token_not_interrupt:
  "BTN_SKIP \<notin> set MENU_INTERRUPT_BUTTONS"
  "BTN_CARGO_EDIT \<notin> set MENU_INTERRUPT_BUTTONS"
  by (simp_all add: MENU_INTERRUPT_BUTTONS_def label_sums neq_by_sum)

lemma token_plain:
  assumes "msg_text m = Some BTN_SKIP \<or> msg_text m = Some BTN_CARGO_EDIT"
  shows "plain_input e m" and "canonicalize_input m = m"
proof -
  have c: "canonicalize_user_text (msg_text m) = or_empty (msg_text m)"
    using assms by (auto simp add: canonical_tokens or_empty_def)
  have n: "or_empty (msg_text m) \<noteq> []"
    using assms by (auto simp add: or_empty_def token_heads)
  from c n show ci: "canonicalize_input m = m"
    using assms by (auto simp add: canonicalize_input_def or_empty_def)
  have cmd: "command_of e m = None"
    using assms
    by (auto simp add: token_heads is_space_def intro!: command_of_no_slash)
  have nc: "msg_text m \<noteq> Some BTN_CANCEL"
    using assms by (auto simp add: label_sums neq_by_sum)
  have ni: "canonicalize_user_text (msg_text m) \<notin> set MENU_INTERRUPT_BUTTONS"
    using assms by (auto simp add: canonical_tokens token_not_interrupt)
  show "plain_input e m"
    unfolding plain_input_def Let_def ci
    using cmd nc ni by (simp add: is_command_def)
qed

lemma sample_texts:
  "strip (asc ''Fura'') = asc ''Fura''"
  "strip (asc ''20'') = asc ''20''"
  "strip (asc ''86'') = asc ''86''"
  "strip (asc ''Toshkent-Samarqand'') = asc ''Toshkent-Samarqand''"
  "sum_list (asc ''Fura'') = 398"
  "sum_list (asc ''20'') = 98"
  "sum_list (asc ''86'') = 110"
  "sum_list (asc ''Toshkent-Samarqand'') = 1813"
  "length (asc ''Fura'') = 4"
  "length (asc ''Toshkent-Samarqand'') = 18"
  by (simp_all add: strip_defs asc_def)

lemma sample_text_heads:
  "asc ''Fura'' = 70 # asc ''ura''"
  "asc ''20'' = 50 # asc ''0''"
  "asc ''86'' = 56 # asc ''6''"
  "asc ''Toshkent-Samarqand'' = 84 # asc ''oshkent-Samarqand''"
  by (simp_all add: asc_def)

lemma sample_texts_canonical:
  "canonicalize_user_text (Some (asc ''Fura'')) = asc ''Fura''"
  "canonicalize_user_text (Some (asc ''20'')) = asc ''20''"
  "canonicalize_user_text (Some (asc ''86'')) = asc ''86''"
  "canonicalize_user_text (Some (asc ''Toshkent-Samarqand'')) = asc ''Toshkent-Samarqand''"
  by (simp_all add: canonicalize_user_text_def Let_def or_empty_def sample_texts(1-8)
      TEXT_CANON_MAP_eval label_sums neq_by_sum)

lemma sample_texts_not_interrupt:
  "asc ''Fura'' \<notin> set MENU_INTERRUPT_BUTTONS"
  "asc ''20'' \<notin> set MENU_INTERRUPT_BUTTONS"
  "asc ''86'' \<notin> set MENU_INTERRUPT_BUTTONS"
  "asc ''Toshkent-Samarqand'' \<notin> set MENU_INTERRUPT_BUTTONS"
  "asc ''Fura'' \<noteq> BTN_CANCEL"
  "asc ''20'' \<noteq> BTN_CANCEL"
  "asc ''86'' \<noteq> BTN_CANCEL"
  "asc ''Toshkent-Samarqand'' \<noteq> BTN_CANCEL"
  "BTN_CANCEL \<noteq> asc ''Fura''"
  "BTN_CANCEL \<noteq> asc ''20''"
  "BTN_CANCEL \<noteq> asc ''86''"
  "BTN_CANCEL \<noteq> asc ''Toshkent-Samarqand''"
  by (simp_all add: MENU_INTERRUPT_BUTTONS_def sample_texts(5-8) label_sums neq_by_sum)

lemma sample_texts_plain:
  assumes "t = asc ''Fura'' \<or> t = asc ''20'' \<or> t = asc ''86'' \<or> t = asc ''Toshkent-Samarqand''"
  shows "plain_input e (sample_message t)"
    and "canonicalize_input (sample_message t) = sample_message t"
proof -
  have c: "canonicalize_user_text (Some t) = t"
    using assms by (auto simp add: sample_texts_canonical)
  have n: "t \<noteq> []"
    using assms by (auto simp add: sample_text_heads)
  from c n show ci: "canonicalize_input (sample_message t) = sample_message t"
    by (simp add: canonicalize_input_def or_empty_def sample_message_def)
  have cmd: "command_of e (sample_message t) = None"
    using assms
    by (auto simp add: sample_text_heads sample_message_def is_space_def intro!: command_of_no_slash)
  have ni: "t \<notin> set MENU_INTERRUPT_BUTTONS" "t \<noteq> BTN_CANCEL"
    using assms by (auto simp add: sample_texts_not_interrupt)
  show "plain_input e (sample_message t)"
    unfolding plain_input_def Let_def ci
    using cmd ni c by (simp add: is_command_def sample_message_def)
qed

lemma handle_edit_token:
  assumes "sess_state (w_sess w) = Some CargoFSM_confirm" and "msg_from m = Some u"
    and "msg_text m = Some BTN_CARGO_EDIT"
  shows "handle_message e m w =
           Some (answer (asc ''Tahrirlash boshlandi. Qayerdan yuklanadi?'')
                   (Reply_keyboard region_keyboard) (set_state CargoFSM_from_region w))"
proof -
  from assms have "handle_message e m w = Some (cargo_confirm e m w)"
    using handle_message_step [of w CargoFSM_confirm e m] token_plain(1) [of m e]
      token_plain(2) [of m]
    by simp
  moreover from assms have "cargo_confirm e m w =
      answer (asc ''Tahrirlash boshlandi. Qayerdan yuklanadi?'') (Reply_keyboard region_keyboard)
        (set_state CargoFSM_from_region w)"
    by (simp add: cargo_confirm_def or_empty_def label_strip Let_def)
  ultimately show ?thesis by simp
qed

text \<open>
  At the confirmation step of the cargo flow, with an origin and a destination
  in the session, the edit token sets the session to the first step and leaves
  the two values in it; a fresh start of the flow empties the session.
\<close>

theorem cargo_edit_retains_values:
  "map_option w_sess (handle_message sample_env (sample_message BTN_CARGO_EDIT) sample_confirm_world)
     = Some \<lparr>sess_state = Some CargoFSM_from_region,
             sess_data = [(''from_region'', PStr REGION_ANDIJON),
                          (''to_region'', PStr REGION_TOSHKENT)]\<rparr>
   \<and> w_sess (start_cargo_form sample_confirm_world)
     = \<lparr>sess_state = Some CargoFSM_from_region, sess_data = []\<rparr>"
proof -
  have "sess_state (w_sess sample_confirm_world) = Some CargoFSM_confirm"
    and "msg_from (sample_message BTN_CARGO_EDIT) = Some sample_tg_user"
    and "msg_text (sample_message BTN_CARGO_EDIT) = Some BTN_CARGO_EDIT"
    by (simp_all add: sample_confirm_world_def sample_message_def)
  from handle_edit_token [OF this, of sample_env] show ?thesis
    by (simp add: sample_confirm_world_def answer_def set_state_def start_cargo_form_def
        state_clear_def Let_def)
qed

text \<open>
  C6, amended.  At the confirmation step of the cargo flow the edit token
  sets the session to the first step, the origin region, and leaves the field
  values that the session has accumulated as they are; the store is not
  changed, and the answer asks for the origin region again.
\<close>

theorem cargo_confirm_edit_rewinds:
  "sess_state (w_sess w) = Some CargoFSM_confirm \<and> msg_from m = Some u
     \<and> msg_text m = Some BTN_CARGO_EDIT
   \<longrightarrow> (\<exists>w'. handle_message e m w = Some w'
         \<and> w_sess w' = \<lparr>sess_state = Some CargoFSM_from_region, sess_data = sess_data (w_sess w)\<rparr>
         \<and> w_db w' = w_db w
         \<and> w_out w' = w_out w @ [Answer (Text (asc ''Tahrirlash boshlandi. Qayerdan yuklanadi?''))
                                    (Reply_keyboard region_keyboard)])"
  by (auto simp add: handle_edit_token answer_def set_state_def)

theorem cargo_confirm_edit_rewinds_witness:
  "\<exists>w'. handle_message sample_env (sample_message BTN_CARGO_EDIT) sample_confirm_world = Some w'
     \<and> w_sess w' = \<lparr>sess_state = Some CargoFSM_from_region,
                     sess_data = [(''from_region'', PStr REGION_ANDIJON),
                                  (''to_region'', PStr REGION_TOSHKENT)]\<rparr>
     \<and> w_db w' = sample_db"
  using cargo_confirm_edit_rewinds [of sample_confirm_world "sample_message BTN_CARGO_EDIT"
      sample_tg_user sample_env]
  by (auto simp add: sample_confirm_world_def sample_world_def sample_message_def)

text \<open>
  C8.  The driver flow, from its start, for a stored user: a vehicle type of
  at least two characters, a capacity and a volume that parse as positive
  numbers, routes of at least three characters, then the skip token at the
  price step and at the note step.  The six messages are handled, the session
  is cleared, and the stored user has the role of a driver, the completion
  flag set, and a driver profile with the four values given, with
  \<^verbatim>\<open>price_per_km\<close> \<^verbatim>\<open>None\<close> and \<^verbatim>\<open>note\<close> \<^verbatim>\<open>None\<close>.
\<close>

theorem driver_flow_skip_completes:
  assumes usr: "fetch_user (w_db w) (tg_id u) = Some usr"
    and frm: "\<forall>m \<in> set [m1, m2, m3, m4, m5, m6]. msg_from m = Some u"
    and pln: "\<forall>m \<in> set [m1, m2, m3, m4]. plain_input e m"
    and t1: "strip (or_empty (msg_text (canonicalize_input m1))) = car" "2 \<le> length car"
    and t2: "parse_positive_number e (or_empty (msg_text (canonicalize_input m2))) = Some cap"
    and t3: "parse_positive_number e (or_empty (msg_text (canonicalize_input m3))) = Some vol"
    and t4: "strip (or_empty (msg_text (canonicalize_input m4))) = routes" "3 \<le> length routes"
    and t5: "msg_text m5 = Some BTN_SKIP"
    and t6: "msg_text m6 = Some BTN_SKIP"
  shows "\<exists>w' usr'. run e [m1, m2, m3, m4, m5, m6] (start_driver_form mode w) = Some w'
     \<and> w_sess w' = \<lparr>sess_state = None, sess_data = []\<rparr>
     \<and> fetch_user (w_db w') (tg_id u) = Some usr'
     \<and> profile_completed usr' \<and> role usr' = Some ROLE_DRIVER
     \<and> dict_get (driver_profile usr') ''car_type'' = Some (PStr car)
     \<and> dict_get (driver_profile usr') ''capacity_ton'' = Some (PFloat cap)
     \<and> dict_get (driver_profile usr') ''volume_m3'' = Some (PFloat vol)
     \<and> dict_get (driver_profile usr') ''routes'' = Some (PStr routes)
     \<and> dict_get (driver_profile usr') ''price_per_km'' = Some PNone
     \<and> dict_get (driver_profile usr') ''note'' = Some PNone"
proof -
  define w0 where "w0 = start_driver_form mode w"
  define w1 where "w1 = driver_car_type e (canonicalize_input m1) w0"
  define w2 where "w2 = driver_capacity e (canonicalize_input m2) w1"
  define w3 where "w3 = driver_volume e (canonicalize_input m3) w2"
  define w4 where "w4 = driver_routes e (canonicalize_input m4) w3"
  define w5 where "w5 = driver_price e m5 w4"
  define w6 where "w6 = driver_note e m6 w5"
  define d1 where "d1 = [(''driver_mode'', PStr mode), (''car_type'', PStr car)]"
  define d2 where "d2 = d1 @ [(''capacity_ton'', PFloat cap)]"
  define d3 where "d3 = d2 @ [(''volume_m3'', PFloat vol)]"
  define d4 where "d4 = d3 @ [(''routes'', PStr routes)]"
  define d5 where "d5 = d4 @ [(''price_per_km'', PNone)]"
  have s0: "w_sess w0 = \<lparr>sess_state = Some DriverFSM_car_type, sess_data = [(''driver_mode'', PStr mode)]\<rparr>"
    "w_db w0 = w_db w"
    by (simp_all add: w0_def start_driver_form_def state_clear_def set_state_def update_data_def
        answer_def Let_def)
  have s1: "w_sess w1 = \<lparr>sess_state = Some DriverFSM_capacity_ton, sess_data = d1\<rparr>" "w_db w1 = w_db w"
    using t1 s0
    by (simp_all add: w1_def d1_def driver_car_type_def set_state_def update_data_def answer_def Let_def)
  have s2: "w_sess w2 = \<lparr>sess_state = Some DriverFSM_volume_m3, sess_data = d2\<rparr>" "w_db w2 = w_db w"
    using t2 s1
    by (simp_all add: w2_def d2_def d1_def driver_capacity_def set_state_def update_data_def answer_def Let_def)
  have s3: "w_sess w3 = \<lparr>sess_state = Some DriverFSM_routes, sess_data = d3\<rparr>" "w_db w3 = w_db w"
    using t3 s2
    by (simp_all add: w3_def d3_def d2_def d1_def driver_volume_def set_state_def update_data_def
        answer_def Let_def)
  have s4: "w_sess w4 = \<lparr>sess_state = Some DriverFSM_price_per_km, sess_data = d4\<rparr>" "w_db w4 = w_db w"
    using t4 s3
    by (simp_all add: w4_def d4_def d3_def d2_def d1_def driver_routes_def set_state_def
        update_data_def answer_def Let_def)
  have s5: "w_sess w5 = \<lparr>sess_state = Some DriverFSM_note, sess_data = d5\<rparr>" "w_db w5 = w_db w"
    using t5 s4
    by (simp_all add: w5_def d5_def d4_def d3_def d2_def d1_def driver_price_def set_state_def
        update_data_def answer_def Let_def or_empty_def label_strip)
  define profile where "profile = dict_of [(''car_type'', PStr car), (''capacity_ton'', PFloat cap),
      (''volume_m3'', PFloat vol), (''routes'', PStr routes), (''price_per_km'', PNone),
      (''note'', PNone)]"
  have f6: "msg_from m6 = Some u" using frm by simp
  have s6: "w_sess w6 = \<lparr>sess_state = None, sess_data = []\<rparr>"
    "w_db w6 = update_user (w_db w) (tg_id u)
       (\<lambda>doc. doc\<lparr>role := Some ROLE_DRIVER, driver_profile := profile,
                    profile_completed := True, updated_at := env_now e\<rparr>)"
    using t6 s5 f6
    by (simp_all add: w6_def d5_def d4_def d3_def d2_def d1_def profile_def driver_note_def
        state_clear_def set_db_def get_data_def val_get_def open_main_menu_def answer_def Let_def
        or_empty_def label_strip)
  have h1: "handle_message e m1 w0 = Some w1"
    using handle_message_step [of w0 DriverFSM_car_type e m1] s0 pln by (simp add: w1_def)
  have h2: "handle_message e m2 w1 = Some w2"
    using handle_message_step [of w1 DriverFSM_capacity_ton e m2] s1 pln by (simp add: w2_def)
  have h3: "handle_message e m3 w2 = Some w3"
    using handle_message_step [of w2 DriverFSM_volume_m3 e m3] s2 pln by (simp add: w3_def)
  have h4: "handle_message e m4 w3 = Some w4"
    using handle_message_step [of w3 DriverFSM_routes e m4] s3 pln by (simp add: w4_def)
  have h5: "handle_message e m5 w4 = Some w5"
    using handle_message_step [of w4 DriverFSM_price_per_km e m5] s4 t5
      token_plain(1) [of m5 e] token_plain(2) [of m5]
    by (simp add: w5_def)
  have h6: "handle_message e m6 w5 = Some w6"
    using handle_message_step [of w5 DriverFSM_note e m6] s5 t6
      token_plain(1) [of m6 e] token_plain(2) [of m6]
    by (simp add: w6_def)
  have r: "run e [m1, m2, m3, m4, m5, m6] (start_driver_form mode w) = Some w6"
    using h1 h2 h3 h4 h5 h6 by (simp add: w0_def)
  define usr' where "usr' = usr\<lparr>role := Some ROLE_DRIVER, driver_profile := profile,
                    profile_completed := True, updated_at := env_now e\<rparr>"
  have fu: "fetch_user (w_db w6) (tg_id u) = Some usr'"
    using usr by (simp add: s6 fetch_update_user usr'_def)
  have p: "dict_get profile ''car_type'' = Some (PStr car)"
    "dict_get profile ''capacity_ton'' = Some (PFloat cap)"
    "dict_get profile ''volume_m3'' = Some (PFloat vol)"
    "dict_get profile ''routes'' = Some (PStr routes)"
    "dict_get profile ''price_per_km'' = Some PNone"
    "dict_get profile ''note'' = Some PNone"
    by (simp_all add: profile_def dict_of_def dict_update_def)
  from r s6 fu p show ?thesis
    by (simp add: usr'_def)
qed

theorem driver_flow_skip_completes_witness:
  "\<exists>w' usr'. run sample_env
       [sample_message (asc ''Fura''), sample_message (asc ''20''), sample_message (asc ''86''),
        sample_message (asc ''Toshkent-Samarqand''), sample_message BTN_SKIP,
        sample_message BTN_SKIP]
       (start_driver_form (asc ''edit'') sample_world) = Some w'
     \<and> w_sess w' = \<lparr>sess_state = None, sess_data = []\<rparr>
     \<and> fetch_user (w_db w') 1 = Some usr'
     \<and> profile_completed usr' \<and> role usr' = Some ROLE_DRIVER
     \<and> dict_get (driver_profile usr') ''car_type'' = Some (PStr (asc ''Fura''))
     \<and> dict_get (driver_profile usr') ''capacity_ton'' = Some (PFloat (Finite 20))
     \<and> dict_get (driver_profile usr') ''volume_m3'' = Some (PFloat (Finite 86))
     \<and> dict_get (driver_profile usr') ''routes'' = Some (PStr (asc ''Toshkent-Samarqand''))
     \<and> dict_get (driver_profile usr') ''price_per_km'' = Some PNone
     \<and> dict_get (driver_profile usr') ''note'' = Some PNone"
proof -
  have usr: "fetch_user (w_db sample_world) (tg_id sample_tg_user) = Some sample_user"
    by (simp add: fetch_user_def sample_world_def sample_db_def sample_tg_user_def)
  have frm: "\<forall>m \<in> set [sample_message (asc ''Fura''), sample_message (asc ''20''),
        sample_message (asc ''86''), sample_message (asc ''Toshkent-Samarqand''),
        sample_message BTN_SKIP, sample_message BTN_SKIP]. msg_from m = Some sample_tg_user"
    by (simp add: sample_message_def)
  have pln: "\<forall>m \<in> set [sample_message (asc ''Fura''), sample_message (asc ''20''),
        sample_message (asc ''86''), sample_message (asc ''Toshkent-Samarqand'')].
        plain_input sample_env m"
    by (simp add: sample_texts_plain(1))
  have ci: "msg_text (canonicalize_input (sample_message (asc ''Fura''))) = Some (asc ''Fura'')"
    "msg_text (canonicalize_input (sample_message (asc ''20''))) = Some (asc ''20'')"
    "msg_text (canonicalize_input (sample_message (asc ''86''))) = Some (asc ''86'')"
    "msg_text (canonicalize_input (sample_message (asc ''Toshkent-Samarqand'')))
       = Some (asc ''Toshkent-Samarqand'')"
    by (simp_all add: sample_texts_plain(2)) (simp_all add: sample_message_def)
  have fl: "filter (\<lambda>c. c \<noteq> 32) (asc ''20'') = asc ''20''"
    "filter (\<lambda>c. c \<noteq> 32) (asc ''86'') = asc ''86''"
    "map (\<lambda>c. if c = 44 then 46 else c) (asc ''20'') = asc ''20''"
    "map (\<lambda>c. if c = 44 then 46 else c) (asc ''86'') = asc ''86''"
    "asc ''86'' \<noteq> asc ''20''"
    by (simp_all add: asc_def)
  have t1: "strip (or_empty (msg_text (canonicalize_input (sample_message (asc ''Fura''))))) = asc ''Fura''"
    "2 \<le> length (asc ''Fura'')"
    by (simp_all add: ci or_empty_def sample_texts)
  have t2: "parse_positive_number sample_env
      (or_empty (msg_text (canonicalize_input (sample_message (asc ''20''))))) = Some (Finite 20)"
    by (simp add: ci or_empty_def parse_positive_number_def fl sample_texts(1-4) sample_env_def
        sample_float_def)
  have t3: "parse_positive_number sample_env
      (or_empty (msg_text (canonicalize_input (sample_message (asc ''86''))))) = Some (Finite 86)"
    by (simp add: ci or_empty_def parse_positive_number_def fl sample_texts(1-4) sample_env_def
        sample_float_def)
  have t4: "strip (or_empty (msg_text (canonicalize_input (sample_message (asc ''Toshkent-Samarqand'')))))
      = asc ''Toshkent-Samarqand''"
    "3 \<le> length (asc ''Toshkent-Samarqand'')"
    by (simp_all add: ci or_empty_def sample_texts)
  have t5: "msg_text (sample_message BTN_SKIP) = Some BTN_SKIP"
    by (simp add: sample_message_def)
  from driver_flow_skip_completes [OF usr frm pln t1 t2 t3 t4 t5 t5, of "asc ''edit''"]
  show ?thesis
    by (simp add: sample_tg_user_def)
qed

subsection \<open>Broadcast\<close>

lemma broadcast_loop_components:
  "snd (snd (broadcast_loop b ids (s, f, a))) = a @ ids
   \<and> fst (broadcast_loop b ids (s, f, a)) + fst (snd (broadcast_loop b ids (s, f, a)))
       = s + f + length ids"
  by (induction ids arbitrary: s f a) (auto split: sum.splits)

lemma broadcast_loop_result:
  "broadcast_loop b ids (s, f, a) = (s', f', a') \<Longrightarrow> a' = a @ ids \<and> s' + f' = s + f + length ids"
  using broadcast_loop_components [of b ids s f a] by simp

lemma dict_get_distinct:
  "distinct (map fst xs) \<Longrightarrow> (dict_get xs k = Some v) = ((k, v) \<in> set xs)"
  by (induction xs) (auto simp add: rev_image_eqI split: if_splits)

lemma audience_drivers:
  "audience_matches now (PStr (asc ''drivers'')) usr = (role usr = Some ROLE_DRIVER)"
  by (simp add: audience_matches_def)

lemma drivers_filter:
  "filter (\<lambda>(user_id, usr). audience_matches now (PStr (asc ''drivers'')) usr) xs
     = filter (\<lambda>(uid, usr). role usr = Some ROLE_DRIVER) xs"
  by (induction xs) (auto simp add: audience_drivers)

text \<open>
  C7.  A broadcast to the audience \<^verbatim>\<open>drivers\<close> calls \<^verbatim>\<open>copy_to\<close> once for each
  stored user whose role is driver, in the order of the store, and for no
  other user; the number sent and the number failed add up to the number of
  these users, so a failed call does not end the loop.  With the identifiers
  of the store distinct, no user is addressed twice.  The handler of the
  content step, for an administrator whose session holds that audience, sends
  exactly these copies and then the report.
\<close>

theorem broadcast_drivers_each_once:
  "(broadcast b d now (PStr (asc ''drivers'')) = (sent, failed, attempts)
      \<longrightarrow> attempts = map fst (filter (\<lambda>(uid, usr). role usr = Some ROLE_DRIVER) (users d))
        \<and> sent + failed = length (filter (\<lambda>(uid, usr). role usr = Some ROLE_DRIVER) (users d))
        \<and> (distinct (map fst (users d))
           \<longrightarrow> distinct attempts
             \<and> set attempts = {uid. \<exists>usr. fetch_user d uid = Some usr \<and> role usr = Some ROLE_DRIVER}))
   \<and> (msg_from m = Some u \<and> is_admin_user e (w_db w) (tg_id u)
        \<and> dict_get (get_data w) ''audience'' = Some (PStr (asc ''drivers''))
      \<longrightarrow> (\<exists>n k. w_out (admin_broadcast_content e m w) =
              w_out w
              @ map Copy_to (map fst (filter (\<lambda>(uid, usr). role usr = Some ROLE_DRIVER)
                                        (users (w_db w))))
              @ [Answer (Text (broadcast_report n k)) (Reply_keyboard admin_panel_keyboard)]
            \<and> n + k = length (filter (\<lambda>(uid, usr). role usr = Some ROLE_DRIVER)
                                 (users (w_db w)))))"
proof (intro conjI impI)
  assume a: "broadcast b d now (PStr (asc ''drivers'')) = (sent, failed, attempts)"
  define sel where "sel = filter (\<lambda>(uid, usr). role usr = Some ROLE_DRIVER) (users d)"
  from a have l: "broadcast_loop b (map fst sel) (0, 0, []) = (sent, failed, attempts)"
    by (simp add: broadcast_def drivers_filter sel_def)
  from broadcast_loop_result [OF l]
  show "attempts = map fst (filter (\<lambda>(uid, usr). role usr = Some ROLE_DRIVER) (users d))"
    and "sent + failed = length (filter (\<lambda>(uid, usr). role usr = Some ROLE_DRIVER) (users d))"
    by (simp_all add: sel_def)
next
  assume a: "broadcast b d now (PStr (asc ''drivers'')) = (sent, failed, attempts)"
    and dist: "distinct (map fst (users d))"
  define sel where "sel = filter (\<lambda>(uid, usr). role usr = Some ROLE_DRIVER) (users d)"
  from a have l: "broadcast_loop b (map fst sel) (0, 0, []) = (sent, failed, attempts)"
    by (simp add: broadcast_def drivers_filter sel_def)
  from broadcast_loop_result [OF l] have att: "attempts = map fst sel"
    by simp
  from dist show "distinct attempts"
    unfolding att sel_def by (rule distinct_map_filter)
  have "set (map fst sel) = {uid. \<exists>usr. (uid, usr) \<in> set (users d) \<and> role usr = Some ROLE_DRIVER}"
    unfolding sel_def by force
  then show "set attempts = {uid. \<exists>usr. fetch_user d uid = Some usr \<and> role usr = Some ROLE_DRIVER}"
    unfolding att fetch_user_def by (simp add: dict_get_distinct [OF dist])
next
  assume a: "msg_from m = Some u \<and> is_admin_user e (w_db w) (tg_id u)
        \<and> dict_get (get_data w) ''audience'' = Some (PStr (asc ''drivers''))"
  define sel where "sel = filter (\<lambda>(uid, usr). role usr = Some ROLE_DRIVER) (users (w_db w))"
  obtain n k att where l: "broadcast_loop (env_bot e) (map fst sel) (0, 0, []) = (n, k, att)"
    using prod_cases3 by blast
  from broadcast_loop_result [OF l] have r: "att = map fst sel" "n + k = length sel"
    by simp_all
  from a l have "w_out (admin_broadcast_content e m w) =
      w_out w @ map Copy_to att
      @ [Answer (Text (broadcast_report n k)) (Reply_keyboard admin_panel_keyboard)]"
    by (simp add: admin_broadcast_content_def require_admin_def broadcast_def drivers_filter
        sel_def state_clear_def answer_def Let_def)
  with r show "\<exists>n k. w_out (admin_broadcast_content e m w) =
              w_out w
              @ map Copy_to (map fst (filter (\<lambda>(uid, usr). role usr = Some ROLE_DRIVER)
                                        (users (w_db w))))
              @ [Answer (Text (broadcast_report n k)) (Reply_keyboard admin_panel_keyboard)]
            \<and> n + k = length (filter (\<lambda>(uid, usr). role usr = Some ROLE_DRIVER)
                                 (users (w_db w)))"
    unfolding sel_def by blast
qed

lemma sample_drivers:
  "filter (\<lambda>(uid, usr). role usr = Some ROLE_DRIVER) sample_users =
     [(2, sample_user\<lparr>role := Some ROLE_DRIVER\<rparr>), (3, sample_user\<lparr>role := Some ROLE_DRIVER\<rparr>),
      (5, sample_user\<lparr>role := Some ROLE_DRIVER\<rparr>)]"
  by (simp add: sample_users_def sample_user_def ROLE_DRIVER_def asc_def)

theorem broadcast_drivers_each_once_witness:
  "broadcast sample_bot (sample_db\<lparr>users := sample_users\<rparr>) 0 (PStr (asc ''drivers'')) = (2, 1, [2, 3, 5])
   \<and> (\<exists>n k. w_out (admin_broadcast_content sample_env
                     ((sample_message (asc ''Fura''))\<lparr>msg_from := Some (sample_tg_user\<lparr>tg_id := 9\<rparr>)\<rparr>)
                     sample_broadcast_world)
            = [Copy_to 2, Copy_to 3, Copy_to 5,
               Answer (Text (broadcast_report n k)) (Reply_keyboard admin_panel_keyboard)]
          \<and> n + k = 3)"
proof -
  have b: "broadcast sample_bot (sample_db\<lparr>users := sample_users\<rparr>) 0 (PStr (asc ''drivers''))
      = (2, 1, [2, 3, 5])"
    by (simp add: broadcast_def drivers_filter sample_drivers sample_bot_def)
  have h: "msg_from ((sample_message (asc ''Fura''))\<lparr>msg_from := Some (sample_tg_user\<lparr>tg_id := 9\<rparr>)\<rparr>)
        = Some (sample_tg_user\<lparr>tg_id := 9\<rparr>)
      \<and> is_admin_user sample_env (w_db sample_broadcast_world) (tg_id (sample_tg_user\<lparr>tg_id := 9\<rparr>))
      \<and> dict_get (get_data sample_broadcast_world) ''audience'' = Some (PStr (asc ''drivers''))"
    by (simp add: is_admin_user_def sample_env_def sample_broadcast_world_def get_data_def)
  have u: "users (w_db sample_broadcast_world) = sample_users" "w_out sample_broadcast_world = []"
    by (simp_all add: sample_broadcast_world_def sample_world_def)
  from broadcast_drivers_each_once [of sample_bot "sample_db\<lparr>users := sample_users\<rparr>" 0 2 1 "[2, 3, 5]",
      THEN conjunct1] b
  have n: "length (filter (\<lambda>(uid, usr). role usr = Some ROLE_DRIVER) sample_users) = 3"
    by simp
  from broadcast_drivers_each_once [of _ _ _ _ _ _
      "(sample_message (asc ''Fura''))\<lparr>msg_from := Some (sample_tg_user\<lparr>tg_id := 9\<rparr>)\<rparr>"
      "sample_tg_user\<lparr>tg_id := 9\<rparr>" sample_env sample_broadcast_world, THEN conjunct2] h
  have "\<exists>n k. w_out (admin_broadcast_content sample_env
                     ((sample_message (asc ''Fura''))\<lparr>msg_from := Some (sample_tg_user\<lparr>tg_id := 9\<rparr>)\<rparr>)
                     sample_broadcast_world)
            = [Copy_to 2, Copy_to 3, Copy_to 5,
               Answer (Text (broadcast_report n k)) (Reply_keyboard admin_panel_keyboard)]
          \<and> n + k = 3"
    by (auto simp add: u sample_drivers numeral_3_eq_3)
  with b show ?thesis by simp
qed

subsection \<open>Administrator check\<close>










end
